theory Spec2Isabelle
  imports Main "HOL-Library.Sublist" "HOL-Library.AList" "HOL-Library.Char_ord" "HOL-Library.List_Lexorder"
begin

section \<open>Errors\<close>

text \<open>
  The exception classes the sources raise or catch.  \<open>OtherError\<close> stands for every
  exception class that no \<open>except\<close> clause of the sources names.
\<close>

datatype error =
    ConfigError string
  | SQLMeshError string
  | MacroEvalError string
  | ParsetimeAdapterCallError string
  | SqlglotError string
  | ValueError string
  | ValidationError string
  | AttributeError string
  | OtherError string

section \<open>Python values\<close>

text \<open>\<open>str\<close> of an integer.\<close>

fun str_nat :: "nat \<Rightarrow> string" where
  "str_nat n = (if n < 10 then [char_of (48 + n)] else str_nat (n div 10) @ [char_of (48 + n mod 10)])"

definition str_int :: "int \<Rightarrow> string" where
  "str_int i = (if i < 0 then ''-'' @ str_nat (nat (- i)) else str_nat (nat i))"

declare str_nat.simps [simp del]

section \<open>Connection configuration (sqlmesh/core/config/connection.py)\<close>

text \<open>
  A raw value of a configuration dictionary, before pydantic has validated it.
\<close>

datatype pyval = PNone | PStr string | PInt int

type_synonym raw_values = "string \<rightharpoonup> pyval"

text \<open>\<open>values.get(key)\<close>: a missing key reads as \<open>None\<close>.\<close>

definition dict_get :: "raw_values \<Rightarrow> string \<Rightarrow> pyval" where
  "dict_get values k = (case values k of None \<Rightarrow> PNone | Some v \<Rightarrow> v)"

text \<open>Python truthiness of a raw value: \<open>None\<close>, the empty string and \<open>0\<close> are falsy.\<close>

fun truthy :: "pyval \<Rightarrow> bool" where
  "truthy PNone = False"
| "truthy (PStr s) = (s \<noteq> [])"
| "truthy (PInt i) = (i \<noteq> 0)"

subsection \<open>SnowflakeConnectionConfig._validate_authenticator\<close>

definition validate_authenticator :: "raw_values \<Rightarrow> error + raw_values" where
  "validate_authenticator values =
     (if values ''type'' \<noteq> None \<and> dict_get values ''type'' \<noteq> PStr ''snowflake'' then Inr values
      else
        let auth = dict_get values ''authenticator'';
            user = dict_get values ''user'';
            password = dict_get values ''password''
        in if \<not> truthy auth \<and> (\<not> truthy user \<or> \<not> truthy password)
           then Inl (ConfigError ''User and password must be provided if using default authentication'')
           else Inr values)"

text \<open>
  A dictionary validated for the Snowflake variant: the discriminator \<open>type\<close> is absent
  (the field's default applies) or is \<open>snowflake\<close>.
\<close>

definition is_snowflake_values :: "raw_values \<Rightarrow> bool" where
  "is_snowflake_values values =
     (values ''type'' = None \<or> values ''type'' = Some (PStr ''snowflake''))"

subsection \<open>_ConnectionConfig.create_engine_adapter and DuckDBConnectionConfig\<close>

record DuckDBConnectionConfig =
  database :: "string option"
  concurrent_tasks :: int
  type_tag :: string

text \<open>
  What \<open>create_engine_adapter\<close> hands to the engine adapter's constructor: the adapter
  class, the keyword arguments of the connection factory, the \<open>multithreaded\<close> flag and
  the extra engine configuration.
\<close>

record EngineAdapter =
  adapter_class :: string
  connection_kwargs :: "(string \<times> pyval) list"
  multithreaded :: bool
  extra_engine_config :: "(string \<times> pyval) list"

text \<open>
  The members a concrete connection class supplies to the abstract base class:
  \<open>self.dict()\<close>, the three abstract properties and the two overridable ones.
\<close>

record ConnectionConfig =
  cc_concurrent_tasks :: int
  cc_dict :: "(string \<times> pyval) list"
  cc_connection_kwargs_keys :: "string set"
  cc_engine_adapter :: string
  cc_static_connection_kwargs :: "(string \<times> pyval) list"
  cc_extra_engine_config :: "(string \<times> pyval) list"

text \<open>\<open>{**a, **b}\<close> on dictionaries kept as association lists.\<close>

definition dict_merge :: "('k \<times> 'v) list \<Rightarrow> ('k \<times> 'v) list \<Rightarrow> ('k \<times> 'v) list" where
  "dict_merge a b = foldl (\<lambda>d kv. AList.update (fst kv) (snd kv) d) a b"

definition create_engine_adapter :: "ConnectionConfig \<Rightarrow> EngineAdapter" where
  "create_engine_adapter self =
     \<lparr> adapter_class = cc_engine_adapter self,
       connection_kwargs =
         dict_merge (cc_static_connection_kwargs self)
           (filter (\<lambda>kv. fst kv \<in> cc_connection_kwargs_keys self) (cc_dict self)),
       multithreaded = (cc_concurrent_tasks self > 1),
       extra_engine_config = cc_extra_engine_config self \<rparr>"

definition opt_str :: "string option \<Rightarrow> pyval" where
  "opt_str v = (case v of None \<Rightarrow> PNone | Some s \<Rightarrow> PStr s)"

definition duckdb_connection :: "DuckDBConnectionConfig \<Rightarrow> ConnectionConfig" where
  "duckdb_connection c =
     \<lparr> cc_concurrent_tasks = concurrent_tasks c,
       cc_dict = [(''database'', opt_str (database c)),
                  (''concurrent_tasks'', PInt (concurrent_tasks c)),
                  (''type_'', PStr (type_tag c))],
       cc_connection_kwargs_keys = {''database''},
       cc_engine_adapter = ''DuckDBEngineAdapter'',
       cc_static_connection_kwargs = [],
       cc_extra_engine_config = [] \<rparr>"

text \<open>
  What the validation of a configuration takes from outside these files: how pydantic
  validates a field declared \<open>Optional[str]\<close>, given the entry of the dictionary or
  \<open>None\<close> when the key is absent, and which sets of keys the model configuration of
  \<open>BaseConfig\<close> lets through.
\<close>

record Pydantic =
  optional_str :: "pyval option \<Rightarrow> error + string option"
  accepts_keys :: "string list \<Rightarrow> bool"

text \<open>
  Field validation of \<open>DuckDBConnectionConfig\<close> as its declarations give it:
  \<open>database: Optional[str]\<close>, \<open>concurrent_tasks: Literal[1] = 1\<close> and
  \<open>type_: Literal["duckdb"]\<close> with alias \<open>type\<close> and default \<open>duckdb\<close>.  A
  \<open>Literal\<close> field accepts its listed constant only; a missing key takes the default.
\<close>

definition validate_database :: "Pydantic \<Rightarrow> raw_values \<Rightarrow> error + string option" where
  "validate_database P values = optional_str P (values ''database'')"

definition validate_concurrent_tasks :: "raw_values \<Rightarrow> error + int" where
  "validate_concurrent_tasks values =
     (case values ''concurrent_tasks'' of
        None \<Rightarrow> Inr 1
      | Some v \<Rightarrow> (if v = PInt 1 then Inr 1 else Inl (ValidationError ''concurrent_tasks'')))"

definition validate_type :: "raw_values \<Rightarrow> error + string" where
  "validate_type values =
     (case values ''type'' of
        None \<Rightarrow> Inr ''duckdb''
      | Some v \<Rightarrow> (if v = PStr ''duckdb'' then Inr ''duckdb'' else Inl (ValidationError ''type'')))"

text \<open>
  \<open>DuckDBConnectionConfig(**data)\<close>: the keys are checked, then the fields are
  validated in the order of their declaration.
\<close>

definition new_DuckDBConnectionConfig :: "Pydantic \<Rightarrow> (string \<times> pyval) list
    \<Rightarrow> error + DuckDBConnectionConfig" where
  "new_DuckDBConnectionConfig P data =
     (let values = map_of data
      in if \<not> accepts_keys P (map fst data) then Inl (ValidationError ''extra fields not permitted'')
         else
           (case validate_database P values of
              Inl e \<Rightarrow> Inl e
            | Inr db \<Rightarrow>
                (case validate_concurrent_tasks values of
                   Inl e \<Rightarrow> Inl e
                 | Inr n \<Rightarrow>
                     (case validate_type values of
                        Inl e \<Rightarrow> Inl e
                      | Inr ty \<Rightarrow> Inr \<lparr> database = db, concurrent_tasks = n, type_tag = ty \<rparr>))))"

section \<open>State reader (sqlmesh/core/state_sync/base.py)\<close>

subsection \<open>Times\<close>

text \<open>
  A \<open>TimeLike\<close> value: a \<open>datetime\<close> (kept as the microseconds since the epoch), an
  integer, or a date string.  Python's \<open>a or b\<close> tests truthiness: a \<open>datetime\<close> is
  always truthy, an integer when it is not zero, a string when it is not empty.
\<close>

datatype TimeLike = Datetime int | TimeInt int | DateStr string

fun time_truthy :: "TimeLike \<Rightarrow> bool" where
  "time_truthy (Datetime t) = True"
| "time_truthy (TimeInt i) = (i \<noteq> 0)"
| "time_truthy (DateStr s) = (s \<noteq> [])"

definition py_or :: "TimeLike option \<Rightarrow> TimeLike option \<Rightarrow> TimeLike option" where
  "py_or a b = (case a of None \<Rightarrow> b | Some x \<Rightarrow> (if time_truthy x then Some x else b))"

definition py_or_else :: "TimeLike option \<Rightarrow> TimeLike \<Rightarrow> TimeLike" where
  "py_or_else a b = (case a of None \<Rightarrow> b | Some x \<Rightarrow> (if time_truthy x then x else b))"

text \<open>
  What the two modules import from \<open>sqlmesh.utils.date\<close>, which is not among these
  files: \<open>to_datetime\<close>, \<open>make_inclusive\<close> and \<open>now\<close>.  How \<open>to_datetime\<close> reads an
  integer or a string is its own business.
\<close>

record DateUtils =
  to_datetime :: "TimeLike \<Rightarrow> int"
  make_inclusive :: "TimeLike \<Rightarrow> TimeLike \<Rightarrow> int \<times> int"
  now :: TimeLike

subsection \<open>Snapshots and environments\<close>

type_synonym Interval = "int \<times> int"

type_synonym SnapshotId = "string \<times> string"

record Model =
  model_name :: string
  is_seed :: bool
  kind_is_external :: bool
  view_name :: string

record Snapshot =
  name :: string
  fingerprint :: string
  version :: "string option"
  intervals :: "Interval list"
  model :: Model

definition snapshot_id :: "Snapshot \<Rightarrow> SnapshotId" where
  "snapshot_id s = (name s, fingerprint s)"

text \<open>\<open>not snapshot.version\<close>: the version is \<open>None\<close> or the empty string.\<close>

definition has_version :: "Snapshot \<Rightarrow> bool" where
  "has_version s = (case version s of None \<Rightarrow> False | Some v \<Rightarrow> v \<noteq> [])"

record SnapshotIntervals =
  si_name :: string
  si_version :: string
  si_intervals :: "Interval list"
  si_dev_intervals :: "Interval list"

record Environment =
  env_name :: string
  env_snapshots :: "SnapshotId list"
  start_at :: TimeLike
  end_at :: "TimeLike option"

record Versions =
  schema_version :: int
  sqlglot_version :: string

text \<open>The first argument of \<open>missing_intervals\<close>: \<open>str | Environment | Iterable[Snapshot]\<close>.\<close>

datatype EnvOrSnapshots = EnvName string | Env Environment | Snapshots "Snapshot list"

text \<open>
  The abstract methods of \<open>StateReader\<close> that the two concrete methods call, as a
  concrete state store supplies them.
\<close>

record StateReader =
  get_environment :: "string \<Rightarrow> Environment option"
  get_snapshots :: "SnapshotId list \<Rightarrow> (SnapshotId \<times> Snapshot) list"
  get_snapshot_intervals :: "Snapshot list \<Rightarrow> SnapshotIntervals list"
  get_versions_stored :: Versions

text \<open>
  What \<open>missing_intervals\<close> imports from \<open>sqlmesh.core.scheduler\<close> and
  \<open>sqlmesh.core.snapshot\<close>, besides the date functions.  \<open>remove_interval\<close> mutates
  the snapshot in place; here it returns the snapshot after the removal.
\<close>

record SnapshotOps = DateUtils +
  earliest_start_date :: "Snapshot list \<Rightarrow> TimeLike"
  start_date :: "Snapshot \<Rightarrow> Snapshot list \<Rightarrow> TimeLike option"
  hydrate_with_intervals_by_version :: "Snapshot list \<Rightarrow> SnapshotIntervals list \<Rightarrow> Snapshot list"
  remove_interval :: "Snapshot \<Rightarrow> int \<Rightarrow> TimeLike \<Rightarrow> TimeLike option \<Rightarrow> Snapshot"
  snapshot_missing_intervals ::
    "Snapshot \<Rightarrow> int \<Rightarrow> TimeLike \<Rightarrow> TimeLike option \<Rightarrow> string set \<Rightarrow> Interval list"

subsection \<open>StateReader.missing_intervals\<close>

text \<open>\<open>{snapshot.snapshot_id: snapshot for snapshot in snapshots}\<close>\<close>

definition by_id :: "Snapshot list \<Rightarrow> (SnapshotId \<times> Snapshot) list" where
  "by_id snapshots = dict_merge [] (map (\<lambda>snapshot. (snapshot_id snapshot, snapshot)) snapshots)"

definition dict_values :: "('k \<times> 'v) list \<Rightarrow> 'v list" where
  "dict_values d = map snd d"

text \<open>The snapshot as the loop body sees it once a restated snapshot has lost its interval.\<close>

definition restated :: "SnapshotOps \<Rightarrow> string set \<Rightarrow> int \<Rightarrow> TimeLike \<Rightarrow> TimeLike option
    \<Rightarrow> Snapshot \<Rightarrow> Snapshot" where
  "restated ops restatements start_date' end_date latest snapshot =
     (if name snapshot \<in> restatements
      then remove_interval ops snapshot start_date' end_date latest
      else snapshot)"

text \<open>The \<open>snapshot.missing_intervals(max(...), end_date, latest=..., restatements=...)\<close> call.\<close>

definition intervals_wanted :: "SnapshotOps \<Rightarrow> Snapshot list \<Rightarrow> string set \<Rightarrow> int \<Rightarrow> TimeLike
    \<Rightarrow> TimeLike option \<Rightarrow> Snapshot \<Rightarrow> Interval list" where
  "intervals_wanted ops all_snapshots restatements start_date' end_date latest snapshot =
     snapshot_missing_intervals ops snapshot
       (max start_date'
          (to_datetime ops
             (py_or_else (start_date ops snapshot all_snapshots) (Datetime start_date'))))
       end_date latest restatements"

text \<open>
  The \<open>for snapshot in ...\<close> loop; \<open>missing\<close> is the dictionary being filled.  The
  hash and the equality of \<open>Snapshot\<close> are defined outside these files; the keys are
  compared here as values.
\<close>

fun missing_loop :: "SnapshotOps \<Rightarrow> Snapshot list \<Rightarrow> string set \<Rightarrow> int \<Rightarrow> TimeLike
    \<Rightarrow> TimeLike option \<Rightarrow> Snapshot list \<Rightarrow> (Snapshot \<times> Interval list) list
    \<Rightarrow> (Snapshot \<times> Interval list) list" where
  "missing_loop ops all_snapshots restatements start_date' end_date latest [] missing = missing"
| "missing_loop ops all_snapshots restatements start_date' end_date latest (snapshot # rest) missing =
     (let snapshot' = restated ops restatements start_date' end_date latest snapshot;
          intervals' = intervals_wanted ops all_snapshots restatements start_date' end_date latest snapshot'
      in missing_loop ops all_snapshots restatements start_date' end_date latest rest
           (if intervals' \<noteq> [] then AList.update snapshot' intervals' missing else missing))"

text \<open>
  The snapshots the loop works on: the given ones, with those that carry no version
  replaced by what the store holds for them.
\<close>

definition with_stored :: "StateReader \<Rightarrow> (SnapshotId \<times> Snapshot) list \<Rightarrow> (SnapshotId \<times> Snapshot) list" where
  "with_stored self snapshots_by_id =
     (let unversioned = filter (\<lambda>snapshot. \<not> has_version snapshot) (dict_values snapshots_by_id)
      in dict_merge snapshots_by_id
           (if unversioned \<noteq> [] then get_snapshots self (map snapshot_id unversioned) else []))"

text \<open>\<open>start_date\<close> and \<open>end_date\<close> of the method body.\<close>

definition window_start :: "SnapshotOps \<Rightarrow> TimeLike option \<Rightarrow> (SnapshotId \<times> Snapshot) list \<Rightarrow> int" where
  "window_start ops start snapshots_by_id =
     to_datetime ops
       (py_or_else start (earliest_start_date ops (dict_values snapshots_by_id)))"

definition window_end :: "SnapshotOps \<Rightarrow> TimeLike option \<Rightarrow> TimeLike" where
  "window_end ops end = py_or_else end (now ops)"

text \<open>The snapshots the loop iterates over.\<close>

definition hydrated :: "StateReader \<Rightarrow> SnapshotOps \<Rightarrow> (SnapshotId \<times> Snapshot) list \<Rightarrow> Snapshot list" where
  "hydrated self ops snapshots_by_id =
     hydrate_with_intervals_by_version ops (dict_values snapshots_by_id)
       (get_snapshot_intervals self (dict_values snapshots_by_id))"

text \<open>The part of \<open>missing_intervals\<close> after \<open>snapshots_by_id\<close>, \<open>start\<close> and \<open>end\<close> are fixed.\<close>

definition missing_from :: "StateReader \<Rightarrow> SnapshotOps \<Rightarrow> (SnapshotId \<times> Snapshot) list
    \<Rightarrow> TimeLike option \<Rightarrow> TimeLike option \<Rightarrow> TimeLike option \<Rightarrow> string list
    \<Rightarrow> (Snapshot \<times> Interval list) list" where
  "missing_from self ops snapshots_by_id0 start end latest restatements =
     (if snapshots_by_id0 = [] then []
      else
        let snapshots_by_id = with_stored self snapshots_by_id0;
            start_date' = window_start ops start snapshots_by_id;
            end_date = window_end ops end
        in missing_loop ops (dict_values snapshots_by_id) (set restatements) start_date' end_date latest
             (hydrated self ops snapshots_by_id) [])"

definition missing_intervals :: "StateReader \<Rightarrow> SnapshotOps \<Rightarrow> EnvOrSnapshots
    \<Rightarrow> TimeLike option \<Rightarrow> TimeLike option \<Rightarrow> TimeLike option \<Rightarrow> string list
    \<Rightarrow> error + (Snapshot \<times> Interval list) list" where
  "missing_intervals self ops env_or_snapshots start end latest restatements =
     (let env = (case env_or_snapshots of
                   EnvName n \<Rightarrow> get_environment self n
                 | Env e \<Rightarrow> Some e
                 | Snapshots ss \<Rightarrow> None)
      in case env of
           Some e \<Rightarrow>
             Inr (missing_from self ops (get_snapshots self (env_snapshots e))
                    (py_or start (Some (start_at e))) (py_or end (end_at e)) latest restatements)
         | None \<Rightarrow>
             (case env_or_snapshots of
                EnvName n \<Rightarrow> Inr (missing_from self ops [] start end latest restatements)
              | Snapshots ss \<Rightarrow> Inr (missing_from self ops (by_id ss) start end latest restatements)
              | Env e \<Rightarrow> Inl (SQLMeshError ''This should not be possible.'')))"

text \<open>
  What the specification says of the dictionary that \<open>missing_intervals\<close> returns for
  the snapshots \<open>given\<close> (by identifier) and the window arguments: its keys are the
  snapshots of the loop, each after \<open>remove_interval\<close> when its name is restated, whose
  missing intervals are not empty, and a key's value is its missing intervals.
\<close>

definition is_missing_of :: "StateReader \<Rightarrow> SnapshotOps \<Rightarrow> (SnapshotId \<times> Snapshot) list
    \<Rightarrow> TimeLike option \<Rightarrow> TimeLike option \<Rightarrow> TimeLike option \<Rightarrow> string list
    \<Rightarrow> (Snapshot \<times> Interval list) list \<Rightarrow> bool" where
  "is_missing_of self ops given start end latest restatements missing =
     (distinct (map fst missing)
      \<and> (\<forall>k ivs. (map_of missing k = Some ivs) =
           (given \<noteq> []
            \<and> (let unversioned = filter (\<lambda>snapshot. \<not> has_version snapshot) (dict_values given);
                    snapshots_by_id =
                      dict_merge given
                        (if unversioned \<noteq> [] then get_snapshots self (map snapshot_id unversioned) else []);
                    all_snapshots = dict_values snapshots_by_id;
                    start_date' = to_datetime ops (py_or_else start (earliest_start_date ops all_snapshots));
                    end_date = py_or_else end (now ops)
                in (\<exists>snapshot \<in> set (hydrate_with_intervals_by_version ops all_snapshots
                                         (get_snapshot_intervals self all_snapshots)).
                      k = (if name snapshot \<in> set restatements
                           then remove_interval ops snapshot start_date' end_date latest
                           else snapshot))
                 \<and> ivs = snapshot_missing_intervals ops k
                           (max start_date'
                              (to_datetime ops
                                 (py_or_else (start_date ops k all_snapshots) (Datetime start_date'))))
                           end_date latest (set restatements)
                 \<and> ivs \<noteq> []))))"

subsection \<open>StateReader.get_versions\<close>

text \<open>
  The module-level names \<open>get_versions\<close> reads: \<open>SQLGLOT_VERSION\<close>, the names of the
  modules of the \<open>migrations\<close> package as \<open>pkgutil.iter_modules\<close> lists them, and
  \<open>major_minor\<close> of \<open>sqlmesh.utils\<close>.
\<close>

record Globals =
  SQLGLOT_VERSION :: string
  migration_modules :: "string list"
  major_minor :: "string \<Rightarrow> int \<times> int"

definition MIGRATIONS :: "Globals \<Rightarrow> string list" where
  "MIGRATIONS g = map (\<lambda>migration. ''sqlmesh.migrations.'' @ migration) (sort (migration_modules g))"

definition SCHEMA_VERSION :: "Globals \<Rightarrow> int" where
  "SCHEMA_VERSION g = int (length (MIGRATIONS g))"

text \<open>Python compares tuples lexicographically.\<close>

definition tuple_less :: "int \<times> int \<Rightarrow> int \<times> int \<Rightarrow> bool" where
  "tuple_less a b = (fst a < fst b \<or> (fst a = fst b \<and> snd a < snd b))"

definition sq :: string where
  "sq = [CHR 0x27]"

definition raise_error :: "string \<Rightarrow> string \<Rightarrow> string \<Rightarrow> bool \<Rightarrow> error" where
  "raise_error lib local remote ahead =
     (if ahead
      then SQLMeshError (lib @ '' (local) is using version '' @ sq @ local @ sq
             @ '' which is ahead of '' @ sq @ remote @ sq @ '' (remote). Please run a migration.'')
      else SQLMeshError (lib @ '' (local) is using version '' @ sq @ local @ sq
             @ '' which is behind '' @ sq @ remote @ sq @ '' (remote). Please upgrade '' @ lib @ ''.''))"

definition get_versions :: "Globals \<Rightarrow> StateReader \<Rightarrow> bool \<Rightarrow> error + Versions" where
  "get_versions g self validate =
     (let versions = get_versions_stored self in
      if SCHEMA_VERSION g < schema_version versions
      then Inl (raise_error ''SQLMesh'' (str_int (SCHEMA_VERSION g)) (str_int (schema_version versions)) False)
      else if tuple_less (major_minor g (SQLGLOT_VERSION g)) (major_minor g (sqlglot_version versions))
      then Inl (raise_error ''SQLGlot'' (SQLGLOT_VERSION g) (sqlglot_version versions) False)
      else if validate \<and> SCHEMA_VERSION g > schema_version versions
      then Inl (raise_error ''SQLMesh'' (str_int (SCHEMA_VERSION g)) (str_int (schema_version versions)) True)
      else if validate \<and> tuple_less (major_minor g (sqlglot_version versions)) (major_minor g (SQLGLOT_VERSION g))
      then Inl (raise_error ''SQLGlot'' (SQLGLOT_VERSION g) (sqlglot_version versions) True)
      else Inr versions)"

text \<open>What an error message tells the user to do.\<close>

definition says_upgrade :: "string \<Rightarrow> error \<Rightarrow> bool" where
  "says_upgrade lib e =
     (case e of SQLMeshError msg \<Rightarrow> suffix (''Please upgrade '' @ lib @ ''.'') msg \<and> prefix lib msg
              | _ \<Rightarrow> False)"

definition says_migrate :: "string \<Rightarrow> error \<Rightarrow> bool" where
  "says_migrate lib e =
     (case e of SQLMeshError msg \<Rightarrow> suffix ''Please run a migration.'' msg \<and> prefix lib msg
              | _ \<Rightarrow> False)"

section \<open>Renderer (sqlmesh/core/renderer.py)\<close>

subsection \<open>Expressions\<close>

text \<open>
  The part of the sqlglot syntax tree that the renderer itself builds or inspects.
  \<open>Table n a\<close> is a table reference whose \<open>exp.table_name\<close> is \<open>n\<close> and whose alias is
  \<open>a\<close> (empty when it has none); \<open>Select\<close> carries its projections, its \<open>FROM\<close> items,
  its \<open>WHERE\<close> condition and its \<open>WITH\<close> clause; \<open>Union\<close> carries its two operands
  and its \<open>WITH\<close> clause.  \<open>Jinja\<close> is the node of \<open>sqlmesh.core.dialect\<close> that holds a
  template.  \<open>Select\<close> and \<open>Union\<close> are the \<open>Subqueryable\<close> expressions.
\<close>

datatype Expression =
    Jinja string
  | Column string
  | Star
  | Literal string
  | Alias Expression string
  | Table string string
  | Subquery Expression string
  | Between Expression Expression Expression
  | With "Expression list"
  | Select "Expression list" "Expression list" "Expression option" "Expression option"
  | Union Expression Expression "Expression option"

fun is_Subqueryable :: "Expression \<Rightarrow> bool" where
  "is_Subqueryable (Select ss fs w wi) = True"
| "is_Subqueryable (Union l r wi) = True"
| "is_Subqueryable e = False"

fun is_Alias :: "Expression \<Rightarrow> bool" where
  "is_Alias (Alias e a) = True"
| "is_Alias e = False"

text \<open>\<open>query.args.pop("with", None)\<close>: the clause taken out, and the query without it.\<close>

fun pop_with :: "Expression \<Rightarrow> Expression option \<times> Expression" where
  "pop_with (Select ss fs w wi) = (wi, Select ss fs w None)"
| "pop_with (Union l r wi) = (wi, Union l r None)"
| "pop_with e = (None, e)"

text \<open>\<open>query.set("with", with_)\<close>\<close>

fun set_with :: "Expression \<Rightarrow> Expression \<Rightarrow> Expression" where
  "set_with (Select ss fs w wi) with' = Select ss fs w (Some with')"
| "set_with (Union l r wi) with' = Union l r (Some with')"
| "set_with e with' = e"

text \<open>
  \<open>query.subquery(alias, copy=False)\<close>, a method of \<open>Subqueryable\<close> only: any other
  expression has no such attribute.
\<close>

definition subquery :: "Expression \<Rightarrow> string \<Rightarrow> error + Expression" where
  "subquery query alias =
     (if is_Subqueryable query then Inr (Subquery query alias) else Inl (AttributeError ''subquery''))"

text \<open>
  \<open>query.selects\<close> read and replaced in place, as the loop
  \<open>for select in query.selects: select.replace(...)\<close> does: the projections of a
  \<open>Select\<close>, and those of the left operand of a \<open>Union\<close>.  Any other expression has no
  attribute \<open>selects\<close>.
\<close>

fun map_selects :: "(Expression \<Rightarrow> Expression) \<Rightarrow> Expression \<Rightarrow> error + Expression" where
  "map_selects f (Select ss fs w wi) = Inr (Select (map f ss) fs w wi)"
| "map_selects f (Union l r wi) =
     (case map_selects f l of Inl ex \<Rightarrow> Inl ex | Inr l' \<Rightarrow> Inr (Union l' r wi))"
| "map_selects f e = Inl (AttributeError ''selects'')"

fun selects :: "Expression \<Rightarrow> Expression list" where
  "selects (Select ss fs w wi) = ss"
| "selects (Union l r wi) = selects l"
| "selects e = []"

subsection \<open>Traversal\<close>

text \<open>A list traversal that stops at the first exception.\<close>

fun mapM :: "('a \<Rightarrow> error + 'b) \<Rightarrow> 'a list \<Rightarrow> error + 'b list" where
  "mapM f [] = Inr []"
| "mapM f (x # xs) =
     (case f x of
        Inl ex \<Rightarrow> Inl ex
      | Inr y \<Rightarrow> (case mapM f xs of Inl ex \<Rightarrow> Inl ex | Inr ys \<Rightarrow> Inr (y # ys)))"

fun mapM_option :: "('a \<Rightarrow> error + 'b) \<Rightarrow> 'a option \<Rightarrow> error + 'b option" where
  "mapM_option f None = Inr None"
| "mapM_option f (Some x) = (case f x of Inl ex \<Rightarrow> Inl ex | Inr y \<Rightarrow> Inr (Some y))"

lemma mapM_cong [fundef_cong]:
  "xs = ys \<Longrightarrow> (\<And>x. x \<in> set ys \<Longrightarrow> f x = g x) \<Longrightarrow> mapM f xs = mapM g ys"
  by (induction ys arbitrary: xs) (auto split: sum.splits)

lemma mapM_option_cong [fundef_cong]:
  "x = y \<Longrightarrow> (\<And>z. y = Some z \<Longrightarrow> f z = g z) \<Longrightarrow> mapM_option f x = mapM_option g y"
  by (cases y) (auto split: sum.splits)

text \<open>
  \<open>expression.transform(fun, copy=False)\<close>: \<open>fun\<close> is applied to a node before its
  children; a node that \<open>fun\<close> replaces (\<open>Some\<close>) is not descended into, a node that it
  returns as it is (\<open>None\<close>) has its children transformed in turn.  An exception of
  \<open>fun\<close> ends the traversal.
\<close>

fun transform :: "(Expression \<Rightarrow> error + Expression option) \<Rightarrow> Expression \<Rightarrow> error + Expression" where
  "transform f (Alias e a) =
     (case f (Alias e a) of
        Inl ex \<Rightarrow> Inl ex
      | Inr (Some n) \<Rightarrow> Inr n
      | Inr None \<Rightarrow> (case transform f e of Inl ex \<Rightarrow> Inl ex | Inr e' \<Rightarrow> Inr (Alias e' a)))"
| "transform f (Subquery e a) =
     (case f (Subquery e a) of
        Inl ex \<Rightarrow> Inl ex
      | Inr (Some n) \<Rightarrow> Inr n
      | Inr None \<Rightarrow> (case transform f e of Inl ex \<Rightarrow> Inl ex | Inr e' \<Rightarrow> Inr (Subquery e' a)))"
| "transform f (Between e lo hi) =
     (case f (Between e lo hi) of
        Inl ex \<Rightarrow> Inl ex
      | Inr (Some n) \<Rightarrow> Inr n
      | Inr None \<Rightarrow>
          (case transform f e of
             Inl ex \<Rightarrow> Inl ex
           | Inr e' \<Rightarrow>
               (case transform f lo of
                  Inl ex \<Rightarrow> Inl ex
                | Inr lo' \<Rightarrow>
                    (case transform f hi of Inl ex \<Rightarrow> Inl ex | Inr hi' \<Rightarrow> Inr (Between e' lo' hi')))))"
| "transform f (With es) =
     (case f (With es) of
        Inl ex \<Rightarrow> Inl ex
      | Inr (Some n) \<Rightarrow> Inr n
      | Inr None \<Rightarrow> (case mapM (transform f) es of Inl ex \<Rightarrow> Inl ex | Inr es' \<Rightarrow> Inr (With es')))"
| "transform f (Select ss fs w wi) =
     (case f (Select ss fs w wi) of
        Inl ex \<Rightarrow> Inl ex
      | Inr (Some n) \<Rightarrow> Inr n
      | Inr None \<Rightarrow>
          (case mapM (transform f) ss of
             Inl ex \<Rightarrow> Inl ex
           | Inr ss' \<Rightarrow>
               (case mapM (transform f) fs of
                  Inl ex \<Rightarrow> Inl ex
                | Inr fs' \<Rightarrow>
                    (case mapM_option (transform f) w of
                       Inl ex \<Rightarrow> Inl ex
                     | Inr w' \<Rightarrow>
                         (case mapM_option (transform f) wi of
                            Inl ex \<Rightarrow> Inl ex
                          | Inr wi' \<Rightarrow> Inr (Select ss' fs' w' wi'))))))"
| "transform f (Union l r wi) =
     (case f (Union l r wi) of
        Inl ex \<Rightarrow> Inl ex
      | Inr (Some n) \<Rightarrow> Inr n
      | Inr None \<Rightarrow>
          (case transform f l of
             Inl ex \<Rightarrow> Inl ex
           | Inr l' \<Rightarrow>
               (case transform f r of
                  Inl ex \<Rightarrow> Inl ex
                | Inr r' \<Rightarrow>
                    (case mapM_option (transform f) wi of
                       Inl ex \<Rightarrow> Inl ex
                     | Inr wi' \<Rightarrow> Inr (Union l' r' wi')))))"
| "transform f e =
     (case f e of Inl ex \<Rightarrow> Inl ex | Inr (Some n) \<Rightarrow> Inr n | Inr None \<Rightarrow> Inr e)"

subsection \<open>What the renderer imports\<close>

type_synonym pydict = "string \<rightharpoonup> string"

type_synonym Schema = "(string \<times> (string \<times> string) list) list"

type_synonym Dates = "int \<times> int \<times> int"

text \<open>The arguments \<open>start\<close>, \<open>end\<close> and \<open>latest\<close> of a call.\<close>

type_synonym Window = "TimeLike option \<times> TimeLike option \<times> TimeLike option"

text \<open>
  The template environment that \<open>JinjaMacroRegistry.build_environment\<close> builds is
  determined by the registry and by the arguments of the call.
\<close>

record JinjaEnv =
  je_registry :: string
  je_kwargs :: pydict
  je_snapshots :: "(string \<times> Snapshot) list"
  je_is_dev :: bool

record MacroEvaluator =
  me_dialect :: string
  me_python_env :: pydict
  me_jinja_env :: JinjaEnv
  locals :: pydict

text \<open>
  The functions of sqlglot, jinja and the rest of sqlmesh that \<open>renderer.py\<close> calls.
  The passes of the optimizer rewrite the expression they are given in place; here each
  returns the rewritten expression.  \<open>template_render\<close> is
  \<open>jinja_env.from_string(name).render()\<close>, \<open>parse\<close> is sqlglot's parser (an entry
  \<open>None\<close> is an empty statement), \<open>evaluate\<close> and \<open>macro_transform\<close> are the methods of
  \<open>MacroEvaluator\<close>, \<open>render_query\<close> is \<open>Model.render_query\<close>, and
  \<open>expression_str\<close> is \<open>str\<close> of an expression.  \<open>iteration_order\<close> is the order in
  which a \<open>for\<close> loop goes through a set of names, which Python leaves open.
\<close>

record Lib = DateUtils +
  EPOCH :: TimeLike
  date_dict :: "Dates \<Rightarrow> bool \<Rightarrow> pydict"
  prepare_env :: "pydict \<Rightarrow> pydict"
  template_render :: "JinjaEnv \<Rightarrow> string \<Rightarrow> error + string"
  parse :: "string \<Rightarrow> string \<Rightarrow> error + Expression option list"
  evaluate :: "MacroEvaluator \<Rightarrow> string \<Rightarrow> error + MacroEvaluator"
  macro_transform :: "MacroEvaluator \<Rightarrow> Expression \<Rightarrow> error + Expression option"
  expression_str :: "Expression \<Rightarrow> string"
  qualify_tables :: "Expression \<Rightarrow> Expression"
  normalize_identifiers :: "Expression \<Rightarrow> string \<Rightarrow> Expression"
  quote_identifiers :: "Expression \<Rightarrow> string \<Rightarrow> Expression"
  qualify :: "Expression \<Rightarrow> string \<Rightarrow> Schema \<Rightarrow> error + Expression"
  simplify :: "Expression \<Rightarrow> error + Expression"
  annotate_types :: "Expression \<Rightarrow> Schema \<Rightarrow> Expression"
  find_tables :: "Expression \<Rightarrow> string \<Rightarrow> string set"
  iteration_order :: "string set \<Rightarrow> string list"
  output_name :: "Expression \<Rightarrow> string"
  to_table_mapping :: "Snapshot list \<Rightarrow> bool \<Rightarrow> (string \<times> string) list"
  render_query :: "Model \<Rightarrow> (string \<times> Snapshot) list \<Rightarrow> string set \<Rightarrow> bool \<Rightarrow> Window
                     \<Rightarrow> pydict \<Rightarrow> error + Expression option"

text \<open>\<open>str(ex)\<close> of an exception: its message.\<close>

fun error_str :: "error \<Rightarrow> string" where
  "error_str (ConfigError m) = m"
| "error_str (SQLMeshError m) = m"
| "error_str (MacroEvalError m) = m"
| "error_str (ParsetimeAdapterCallError m) = m"
| "error_str (SqlglotError m) = m"
| "error_str (ValueError m) = m"
| "error_str (ValidationError m) = m"
| "error_str (AttributeError m) = m"
| "error_str (OtherError m) = m"

text \<open>\<open>raise_config_error(msg, location)\<close> of \<open>sqlmesh.utils.errors\<close>, called with a path.\<close>

definition raise_config_error :: "string \<Rightarrow> string \<Rightarrow> error" where
  "raise_config_error msg location = ConfigError (msg @ '' at '' @ sq @ location @ sq)"

subsection \<open>The renderer objects\<close>

record BaseExpressionRenderer =
  self_expression :: Expression
  self_dialect :: string
  self_macro_definitions :: "string list"
  self_path :: string
  self_jinja_macro_registry :: string
  self_python_env :: pydict
  self_only_latest :: bool
  self_cache :: "Dates \<rightharpoonup> Expression list"

record QueryRenderer = BaseExpressionRenderer +
  self_model_name :: "string option"
  self_time_column :: "string option"
  self_time_converter :: "int \<Rightarrow> Expression"
  self_optimized_cache :: "Dates \<rightharpoonup> Expression"
  self_schema :: Schema

subsection \<open>_dates\<close>

definition dates :: "Lib \<Rightarrow> TimeLike option \<Rightarrow> TimeLike option \<Rightarrow> TimeLike option \<Rightarrow> Dates" where
  "dates L start end latest =
     (let inclusive = make_inclusive L (py_or_else start (EPOCH L)) (py_or_else end (EPOCH L))
      in (fst inclusive, snd inclusive, to_datetime L (py_or_else latest (EPOCH L))))"

subsection \<open>_normalize_and_quote\<close>

text \<open>
  The generator-based context manager.  The body of the \<open>with\<close> statement gets the
  query after \<open>qualify_tables\<close> and \<open>normalize_identifiers\<close>; it leaves the query object
  in some state and either completes with a value or raises.  When it completes
  (also by \<open>return\<close>) the generator is resumed and \<open>quote_identifiers\<close> runs on the query
  object.  When it raises, the exception is thrown into the generator at its \<open>yield\<close>,
  which has no \<open>try\<close> around it: the generator ends there and the exception goes on.
  The result is the final state of the query object and the outcome of the body.
\<close>

definition normalize_and_quote :: "Lib \<Rightarrow> Expression \<Rightarrow> string
    \<Rightarrow> (Expression \<Rightarrow> Expression \<times> (error + 'a)) \<Rightarrow> Expression \<times> (error + 'a)" where
  "normalize_and_quote L query dialect body =
     (let query1 = qualify_tables L query;
          query2 = normalize_identifiers L query1 dialect;
          after = body query2
      in case snd after of
           Inl ex \<Rightarrow> (fst after, Inl ex)
         | Inr v \<Rightarrow> (quote_identifiers L (fst after) dialect, Inr v))"

text \<open>The body \<open>pass\<close>.\<close>

definition pass :: "Expression \<Rightarrow> Expression \<times> (error + unit)" where
  "pass query = (query, Inr ())"

subsection \<open>_resolve_tables (module level)\<close>

text \<open>\<open>_expand\<close>, the function the first traversal applies to every node.\<close>

fun expand_node :: "Lib \<Rightarrow> (string \<times> Snapshot) list \<Rightarrow> string set \<Rightarrow> bool \<Rightarrow> Window \<Rightarrow> pydict
    \<Rightarrow> Expression \<Rightarrow> error + Expression option" where
  "expand_node L snapshots expand is_dev window render_kwargs (Table n a) =
     (if snapshots \<noteq> [] then
        (case map_of snapshots n of
           Some snapshot \<Rightarrow>
             (if n \<in> expand \<and> \<not> is_seed (model snapshot) \<and> \<not> kind_is_external (model snapshot)
              then (case render_query L (model snapshot) snapshots expand is_dev window render_kwargs of
                      Inl ex \<Rightarrow> Inl ex
                    | Inr (Some nested_query) \<Rightarrow>
                        (case subquery nested_query (if a \<noteq> [] then a else view_name (model snapshot)) of
                           Inl ex \<Rightarrow> Inl ex
                         | Inr sub \<Rightarrow> Inr (Some sub))
                    | Inr None \<Rightarrow> Inr None)
              else Inr None)
         | None \<Rightarrow> Inr None)
      else Inr None)"
| "expand_node L snapshots expand is_dev window render_kwargs node = Inr None"

text \<open>
  \<open>exp.replace_tables(expression, mapping, copy=False)\<close>: a table whose name has a
  non-empty entry in the mapping becomes a reference to that entry, keeping its alias.
\<close>

fun replace_node :: "(string \<times> string) list \<Rightarrow> Expression \<Rightarrow> error + Expression option" where
  "replace_node mapping (Table n a) =
     (case map_of mapping n of
        Some new_name \<Rightarrow> (if new_name \<noteq> [] then Inr (Some (Table new_name a)) else Inr None)
      | None \<Rightarrow> Inr None)"
| "replace_node mapping node = Inr None"

definition resolve_tables :: "Lib \<Rightarrow> Expression \<Rightarrow> (string \<times> Snapshot) list \<Rightarrow> string list \<Rightarrow> bool
    \<Rightarrow> Window \<Rightarrow> pydict \<Rightarrow> error + Expression" where
  "resolve_tables L expression snapshots expand is_dev window render_kwargs =
     (let mapping = to_table_mapping L (dict_values snapshots) is_dev;
          expand' = set expand \<union> {n \<in> set (map fst snapshots). map_of mapping n = None}
      in case (if expand' \<noteq> {}
               then transform (expand_node L snapshots expand' is_dev window render_kwargs) expression
               else Inr expression) of
           Inl ex \<Rightarrow> Inl ex
         | Inr expanded \<Rightarrow>
             (if mapping \<noteq> [] then transform (replace_node mapping) expanded else Inr expanded))"

subsection \<open>BaseExpressionRenderer._resolve_tables\<close>

text \<open>
  Whether a traversal that does not copy hands back a new object instead of the one it
  was given: it does when the function replaces the root.
\<close>

definition replaces :: "(Expression \<Rightarrow> error + Expression option) \<Rightarrow> Expression \<Rightarrow> bool" where
  "replaces f e = (case f e of Inr (Some n) \<Rightarrow> True | _ \<Rightarrow> False)"

definition root_replaced :: "Lib \<Rightarrow> Expression \<Rightarrow> (string \<times> Snapshot) list \<Rightarrow> string list \<Rightarrow> bool
    \<Rightarrow> Window \<Rightarrow> pydict \<Rightarrow> bool" where
  "root_replaced L expression snapshots expand is_dev window render_kwargs =
     (let mapping = to_table_mapping L (dict_values snapshots) is_dev;
          expand' = set expand \<union> {n \<in> set (map fst snapshots). map_of mapping n = None}
      in (expand' \<noteq> {} \<and> replaces (expand_node L snapshots expand' is_dev window render_kwargs) expression)
         \<or> (mapping \<noteq> [] \<and> replaces (replace_node mapping) expression))"

text \<open>
  The body of the \<open>with\<close> statement is \<open>return _resolve_tables(...)\<close>.  The traversals
  rewrite the copy in place, so when they succeed the query object is the expression
  they return (the value \<open>None\<close> below), unless the root was replaced: then the object
  is as it was on entry and the value returned is a new one.  The copy is local: when the
  body raises, it is dropped with the exception, and its state is given as on entry.
\<close>

definition resolve_body :: "Lib \<Rightarrow> (string \<times> Snapshot) list \<Rightarrow> string list \<Rightarrow> bool \<Rightarrow> Window \<Rightarrow> pydict
    \<Rightarrow> Expression \<Rightarrow> Expression \<times> (error + Expression option)" where
  "resolve_body L snapshots expand is_dev window render_kwargs query =
     (case resolve_tables L query snapshots expand is_dev window render_kwargs of
        Inl ex \<Rightarrow> (query, Inl ex)
      | Inr resolved \<Rightarrow>
          (if root_replaced L query snapshots expand is_dev window render_kwargs
           then (query, Inr (Some resolved))
           else (resolved, Inr None)))"

definition BaseExpressionRenderer_resolve_tables :: "Lib \<Rightarrow> 'a BaseExpressionRenderer_scheme
    \<Rightarrow> Expression \<Rightarrow> (string \<times> Snapshot) list \<Rightarrow> string list \<Rightarrow> bool \<Rightarrow> Window \<Rightarrow> pydict
    \<Rightarrow> error + Expression" where
  "BaseExpressionRenderer_resolve_tables L self expression snapshots expand is_dev window kwargs =
     (if snapshots = [] \<and> expand = [] then Inr expression
      else
        (case normalize_and_quote L expression (self_dialect self)
                (resolve_body L snapshots expand is_dev window kwargs) of
           (query, Inl ex) \<Rightarrow> Inl ex
         | (query, Inr (Some fresh)) \<Rightarrow> Inr fresh
         | (query, Inr None) \<Rightarrow> Inr query))"

subsection \<open>BaseExpressionRenderer._render\<close>

text \<open>
  \<open>not rendered_expression.strip()\<close>: the text consists of white space only.
  \<open>str.strip()\<close> removes the characters that \<open>str.isspace()\<close> accepts; among the code
  points below 256, which are the characters here, those are the tab, the line feed, the
  vertical tab, the form feed, the carriage return, the four separators \<open>0x1C\<close> to
  \<open>0x1F\<close>, the space, the next-line character \<open>0x85\<close> and the no-break space \<open>0xA0\<close>.
\<close>

definition is_space :: "char \<Rightarrow> bool" where
  "is_space c = (c \<in> {CHR 0x09, CHR 0x0A, CHR 0x0B, CHR 0x0C, CHR 0x0D,
                       CHR 0x1C, CHR 0x1D, CHR 0x1E, CHR 0x1F, CHR 0x20, CHR 0x85, CHR 0xA0})"

definition blank :: "string \<Rightarrow> bool" where
  "blank s = list_all is_space s"

text \<open>
  The \<open>try\<close> block for a template.  Its result is \<open>None\<close> when the template renders to
  nothing (the method then caches and returns the empty list) and the parsed statements
  otherwise.
\<close>

definition try_template :: "Lib \<Rightarrow> 'a BaseExpressionRenderer_scheme \<Rightarrow> JinjaEnv \<Rightarrow> string
    \<Rightarrow> error + Expression list option" where
  "try_template L self jinja_env template =
     (case template_render L jinja_env template of
        Inl ex \<Rightarrow> Inl ex
      | Inr rendered_expression \<Rightarrow>
          (if blank rendered_expression then Inr None
           else
             (case parse L rendered_expression (self_dialect self) of
                Inl ex \<Rightarrow> Inl ex
              | Inr parsed \<Rightarrow>
                  (let parsed_expressions = List.map_filter id parsed
                   in if parsed_expressions = []
                      then Inl (ConfigError (''Failed to parse an expression ''
                                  @ expression_str L (self_expression self)))
                      else Inr (Some parsed_expressions)))))"

text \<open>
  The \<open>try\<close> block with its two \<open>except\<close> clauses: a \<open>ParsetimeAdapterCallError\<close> is
  raised again as it is, any other exception becomes a \<open>ConfigError\<close>.
\<close>

definition render_template :: "Lib \<Rightarrow> 'a BaseExpressionRenderer_scheme \<Rightarrow> JinjaEnv \<Rightarrow> string
    \<Rightarrow> error + Expression list option" where
  "render_template L self jinja_env template =
     (case try_template L self jinja_env template of
        Inl (ParsetimeAdapterCallError m) \<Rightarrow> Inl (ParsetimeAdapterCallError m)
      | Inl ex \<Rightarrow>
          Inl (ConfigError (''Invalid expression. '' @ error_str ex @ '' at '' @ sq @ self_path self @ sq))
      | Inr r \<Rightarrow> Inr r)"

text \<open>The loop over the macro definitions.\<close>

fun evaluate_definitions :: "Lib \<Rightarrow> string \<Rightarrow> MacroEvaluator \<Rightarrow> string list \<Rightarrow> error + MacroEvaluator" where
  "evaluate_definitions L path macro_evaluator [] = Inr macro_evaluator"
| "evaluate_definitions L path macro_evaluator (definition' # rest) =
     (case evaluate L macro_evaluator definition' of
        Inl (MacroEvalError m) \<Rightarrow>
          Inl (raise_config_error (''Failed to evaluate macro '' @ sq @ definition' @ sq @ ''. '' @ m) path)
      | Inl ex \<Rightarrow> Inl ex
      | Inr macro_evaluator' \<Rightarrow> evaluate_definitions L path macro_evaluator' rest)"

text \<open>The loop that fills \<open>resolved_expressions\<close>.\<close>

fun resolve_expressions :: "Lib \<Rightarrow> string \<Rightarrow> string \<Rightarrow> MacroEvaluator \<Rightarrow> Expression list
    \<Rightarrow> error + Expression list" where
  "resolve_expressions L path dialect macro_evaluator [] = Inr []"
| "resolve_expressions L path dialect macro_evaluator (expression # rest) =
     (case macro_transform L macro_evaluator expression of
        Inl (MacroEvalError m) \<Rightarrow>
          Inl (raise_config_error (''Failed to resolve macro for expression. '' @ m) path)
      | Inl ex \<Rightarrow> Inl ex
      | Inr transformed \<Rightarrow>
          (case resolve_expressions L path dialect macro_evaluator rest of
             Inl ex \<Rightarrow> Inl ex
           | Inr resolved \<Rightarrow>
               Inr ((case transformed of
                       None \<Rightarrow> []
                     | Some expression' \<Rightarrow> [fst (normalize_and_quote L expression' dialect pass)])
                    @ resolved)))"

text \<open>
  The template environment that \<open>_render\<close> builds: \<open>render_kwargs\<close> is
  \<open>{**date_dict(...), **kwargs}\<close>, and the environment gets
  \<open>{**render_kwargs, **env}\<close>, the snapshots and \<open>is_dev\<close>.
\<close>

definition jinja_env_of :: "Lib \<Rightarrow> 'a BaseExpressionRenderer_scheme \<Rightarrow> Dates \<Rightarrow> (string \<times> Snapshot) list
    \<Rightarrow> bool \<Rightarrow> pydict \<Rightarrow> JinjaEnv" where
  "jinja_env_of L self dates' snapshots is_dev kwargs =
     \<lparr> je_registry = self_jinja_macro_registry self,
       je_kwargs = (date_dict L dates' (self_only_latest self) ++ kwargs) ++ prepare_env L (self_python_env self),
       je_snapshots = snapshots,
       je_is_dev = is_dev \<rparr>"

text \<open>
  The body of \<open>if cache_key not in self._cache\<close>: the expressions that the method
  stores in the cache and returns, or the exception raised.  A template that renders to
  nothing gives the empty list at once.
\<close>

definition render_uncached :: "Lib \<Rightarrow> 'a BaseExpressionRenderer_scheme \<Rightarrow> Dates
    \<Rightarrow> (string \<times> Snapshot) list \<Rightarrow> bool \<Rightarrow> pydict \<Rightarrow> error + Expression list" where
  "render_uncached L self dates' snapshots is_dev kwargs =
     (let expressions = [self_expression self];
          render_kwargs = date_dict L dates' (self_only_latest self) ++ kwargs;
          jinja_env = jinja_env_of L self dates' snapshots is_dev kwargs
      in case (case self_expression self of
                 Jinja template \<Rightarrow> render_template L self jinja_env template
               | _ \<Rightarrow> Inr (Some expressions)) of
           Inl ex \<Rightarrow> Inl ex
         | Inr None \<Rightarrow> Inr []
         | Inr (Some expressions') \<Rightarrow>
             (let macro_evaluator = \<lparr> me_dialect = self_dialect self,
                                       me_python_env = self_python_env self,
                                       me_jinja_env = jinja_env,
                                       locals = Map.empty \<rparr>
              in case evaluate_definitions L (self_path self) macro_evaluator
                        (self_macro_definitions self) of
                   Inl ex \<Rightarrow> Inl ex
                 | Inr macro_evaluator' \<Rightarrow>
                     resolve_expressions L (self_path self) (self_dialect self)
                       (macro_evaluator'\<lparr>locals := locals macro_evaluator' ++ render_kwargs\<rparr>)
                       expressions'))"

text \<open>
  The method returns the renderer, whose cache it may have filled, and the rendered
  expressions or the exception raised.
\<close>

definition BaseExpressionRenderer_render :: "Lib \<Rightarrow> 'a BaseExpressionRenderer_scheme
    \<Rightarrow> TimeLike option \<Rightarrow> TimeLike option \<Rightarrow> TimeLike option \<Rightarrow> (string \<times> Snapshot) list \<Rightarrow> bool
    \<Rightarrow> pydict \<Rightarrow> 'a BaseExpressionRenderer_scheme \<times> (error + Expression list)" where
  "BaseExpressionRenderer_render L self start end latest snapshots is_dev kwargs =
     (let dates' = dates L start end latest;
          cache_key = dates'
      in case self_cache self cache_key of
           Some cached \<Rightarrow> (self, Inr cached)
         | None \<Rightarrow>
             (case render_uncached L self dates' snapshots is_dev kwargs of
                Inl ex \<Rightarrow> (self, Inl ex)
              | Inr resolved_expressions \<Rightarrow>
                  (self\<lparr>self_cache := (self_cache self)(cache_key \<mapsto> resolved_expressions)\<rparr>,
                   Inr resolved_expressions)))"

definition BaseExpressionRenderer_update_cache :: "Lib \<Rightarrow> 'a BaseExpressionRenderer_scheme \<Rightarrow> Expression
    \<Rightarrow> TimeLike option \<Rightarrow> TimeLike option \<Rightarrow> TimeLike option \<Rightarrow> 'a BaseExpressionRenderer_scheme" where
  "BaseExpressionRenderer_update_cache L self expression start end latest =
     self\<lparr>self_cache := (self_cache self)(dates L start end latest \<mapsto> [expression])\<rparr>"

subsection \<open>QueryRenderer._optimize_query\<close>

datatype log_record = Warning string | Error string

text \<open>\<open>MappingSchema.find\<close> and \<open>MappingSchema.empty\<close> on the schema kept by table name.\<close>

definition schema_find :: "Schema \<Rightarrow> string \<Rightarrow> (string \<times> string) list option" where
  "schema_find schema table = map_of schema table"

definition schema_empty :: "Schema \<Rightarrow> bool" where
  "schema_empty schema = (schema = [])"

text \<open>The replacement the loop over \<open>query.selects\<close> makes for one projection.\<close>

definition alias_select :: "Lib \<Rightarrow> Expression \<Rightarrow> Expression" where
  "alias_select L select =
     (if \<not> is_Alias select \<and> output_name L select \<notin> {''*'', ''''}
      then Alias select (output_name L select)
      else select)"

text \<open>The body of the \<open>with\<close> statement in the \<open>finally\<close> block.\<close>

definition alias_body :: "Lib \<Rightarrow> Expression \<Rightarrow> Expression \<times> (error + unit)" where
  "alias_body L query =
     (case map_selects (alias_select L) query of
        Inl ex \<Rightarrow> (query, Inl ex)
      | Inr query' \<Rightarrow> (query', Inr ()))"

text \<open>The query that the \<open>finally\<close> block builds from the original one.\<close>

definition unoptimized :: "Lib \<Rightarrow> string \<Rightarrow> Expression \<Rightarrow> error + Expression" where
  "unoptimized L dialect original =
     (case normalize_and_quote L original dialect (alias_body L) of
        (query, Inl ex) \<Rightarrow> Inl ex
      | (query, Inr u) \<Rightarrow> Inr query)"

definition dependencies :: "Lib \<Rightarrow> 'a QueryRenderer_scheme \<Rightarrow> Expression \<Rightarrow> string set" where
  "dependencies L self query =
     find_tables L query (self_dialect self)
       - (case self_model_name self of None \<Rightarrow> {} | Some model_name' \<Rightarrow> {model_name'})"

text \<open>
  The schema after the loop over the dependencies, and the warning the loop logs.  The
  loop stops at the first dependency without a schema, so it logs at most once, and
  names that dependency and the model.
\<close>

definition schema_for :: "Lib \<Rightarrow> 'a QueryRenderer_scheme \<Rightarrow> Expression \<Rightarrow> Schema" where
  "schema_for L self query =
     (if \<exists>dependency \<in> dependencies L self query. schema_find (self_schema self) dependency = None
      then [] else self_schema self)"

definition should_optimize :: "Lib \<Rightarrow> 'a QueryRenderer_scheme \<Rightarrow> Expression \<Rightarrow> bool" where
  "should_optimize L self query =
     (\<not> schema_empty (schema_for L self query) \<or> dependencies L self query = {})"

definition missing_schema_warning :: "Lib \<Rightarrow> 'a QueryRenderer_scheme \<Rightarrow> Expression \<Rightarrow> log_record list" where
  "missing_schema_warning L self query =
     (if (\<exists>dependency \<in> dependencies L self query. schema_find (self_schema self) dependency = None)
         \<and> self_model_name self \<noteq> None
      then [Warning (''Query cannot be optimized due to missing schema for model '' @ sq
                      @ (case find (\<lambda>dependency. schema_find (self_schema self) dependency = None)
                                 (iteration_order L (dependencies L self query)) of
                           Some dependency \<Rightarrow> dependency
                         | None \<Rightarrow> [])
                      @ sq @ ''. Make sure that the model '' @ sq
                      @ (case self_model_name self of Some model_name' \<Rightarrow> model_name' | None \<Rightarrow> [])
                      @ sq @ '' can be rendered at parse time'')]
      else [])"

text \<open>
  The \<open>try\<close> block: \<open>simplify(qualify(query.copy(), ...))\<close>, both rewriting the copy
  in place.
\<close>

definition try_optimize :: "Lib \<Rightarrow> 'a QueryRenderer_scheme \<Rightarrow> Expression \<Rightarrow> error + Expression" where
  "try_optimize L self query =
     (if should_optimize L self query
      then (case qualify L query (self_dialect self) (schema_for L self query) of
              Inl ex \<Rightarrow> Inl ex
            | Inr qualified \<Rightarrow> simplify L qualified)
      else Inr query)"

text \<open>
  The method returns what it logged and the annotated query or the exception raised.
  Only a \<open>SqlglotError\<close> is caught; after any other exception the \<open>finally\<close> block
  finds \<open>failure\<close> unset and \<open>should_optimize\<close> set, and the exception goes on.
\<close>

definition QueryRenderer_optimize_query :: "Lib \<Rightarrow> 'a QueryRenderer_scheme \<Rightarrow> Expression
    \<Rightarrow> log_record list \<times> (error + Expression)" where
  "QueryRenderer_optimize_query L self query =
     (let schema = schema_for L self query;
          original = query;
          warned = missing_schema_warning L self query
      in case try_optimize L self query of
           Inl (SqlglotError m) \<Rightarrow>
             (warned @ [Error (m @ '' for '' @ sq @ self_path self @ sq
                              @ '', the column may not exist or is ambiguous'')],
              (case unoptimized L (self_dialect self) original of
                 Inl ex \<Rightarrow> Inl ex
               | Inr query' \<Rightarrow> Inr (annotate_types L query' schema)))
         | Inl ex \<Rightarrow> (warned, Inl ex)
         | Inr optimized \<Rightarrow>
             (warned,
              if \<not> should_optimize L self query
              then (case unoptimized L (self_dialect self) original of
                      Inl ex \<Rightarrow> Inl ex
                    | Inr query' \<Rightarrow> Inr (annotate_types L query' schema))
              else Inr (annotate_types L optimized schema)))"

subsection \<open>QueryRenderer.render\<close>

definition QueryRenderer_time_column_filter :: "'a QueryRenderer_scheme \<Rightarrow> int \<Rightarrow> int \<Rightarrow> error + Expression" where
  "QueryRenderer_time_column_filter self start end =
     (case self_time_column self of
        None \<Rightarrow>
          Inl (SQLMeshError ''Cannot produce time column filter because model does not have a time column.'')
      | Some column \<Rightarrow>
          Inr (Between (Column column) (self_time_converter self start) (self_time_converter self end)))"

text \<open>
  What \<open>render\<close> makes of the outcome of \<open>_render\<close>: \<open>None\<close> after a
  \<open>ParsetimeAdapterCallError\<close>, the single rendered statement, or an exception.
\<close>

definition single_statement :: "Lib \<Rightarrow> 'a BaseExpressionRenderer_scheme \<Rightarrow> error + Expression list
    \<Rightarrow> error + Expression option" where
  "single_statement L self outcome =
     (case outcome of
        Inl (ParsetimeAdapterCallError m) \<Rightarrow> Inr None
      | Inl ex \<Rightarrow> Inl ex
      | Inr [] \<Rightarrow>
          Inl (ConfigError (''Failed to render query:'' @ [CHR 0x0A]
                              @ expression_str L (self_expression self)))
      | Inr [query] \<Rightarrow> Inr (Some query)
      | Inr (query # others) \<Rightarrow>
          Inl (ConfigError (''Too many statements in query:'' @ [CHR 0x0A]
                              @ expression_str L (self_expression self))))"

text \<open>
  The \<open>if optimize:\<close> block: the query is optimized and, unless the cache is skipped,
  stored in the optimized cache.  What \<open>_optimize_query\<close> logs is not part of the result.
\<close>

definition optimized_and_cached :: "Lib \<Rightarrow> 'a QueryRenderer_scheme \<Rightarrow> Expression \<Rightarrow> Dates \<Rightarrow> bool \<Rightarrow> bool
    \<Rightarrow> 'a QueryRenderer_scheme \<times> (error + Expression option)" where
  "optimized_and_cached L self query cache_key skip_cache optimize =
     (if optimize
      then (case snd (QueryRenderer_optimize_query L self query) of
              Inl ex \<Rightarrow> (self, Inl ex)
            | Inr query' \<Rightarrow>
                (if \<not> skip_cache
                 then self\<lparr>self_optimized_cache := (self_optimized_cache self)(cache_key \<mapsto> query')\<rparr>
                 else self,
                 Inr (Some query')))
      else (self, Inr (Some query)))"

text \<open>
  The first part of \<open>render\<close>, up to the query that goes into table resolution: the
  entry of the optimized cache, or the single rendered expression, optimized when
  asked.  The result is \<open>None\<close> when the method returns \<open>None\<close> at this point.
\<close>

definition rendered_query :: "Lib \<Rightarrow> 'a QueryRenderer_scheme
    \<Rightarrow> TimeLike option \<Rightarrow> TimeLike option \<Rightarrow> TimeLike option \<Rightarrow> (string \<times> Snapshot) list \<Rightarrow> bool
    \<Rightarrow> string list \<Rightarrow> bool \<Rightarrow> pydict \<Rightarrow> 'a QueryRenderer_scheme \<times> (error + Expression option)" where
  "rendered_query L self start end latest snapshots is_dev expand optimize kwargs =
     (let cache_key = dates L start end latest;
          skip_cache = (snapshots \<noteq> [] \<or> expand \<noteq> [])
      in case (if skip_cache \<or> \<not> optimize then None else self_optimized_cache self cache_key) of
           Some cached \<Rightarrow> (self, Inr (Some cached))
         | None \<Rightarrow>
             (let rendered = BaseExpressionRenderer_render L self start end latest snapshots is_dev kwargs
              in case single_statement L self (snd rendered) of
                   Inl ex \<Rightarrow> (fst rendered, Inl ex)
                 | Inr None \<Rightarrow> (fst rendered, Inr None)
                 | Inr (Some query) \<Rightarrow>
                     optimized_and_cached L (fst rendered) query cache_key skip_cache optimize))"

text \<open>The incremental filter around a query.\<close>

definition incremental_filter :: "Lib \<Rightarrow> 'a QueryRenderer_scheme \<Rightarrow> Expression
    \<Rightarrow> TimeLike option \<Rightarrow> TimeLike option \<Rightarrow> TimeLike option \<Rightarrow> error + Expression" where
  "incremental_filter L self query start end latest =
     (let dates' = dates L start end latest;
          with' = fst (pop_with query)
      in case subquery (snd (pop_with query)) ''_subquery'' of
           Inl ex \<Rightarrow> Inl ex
         | Inr sub \<Rightarrow>
             (case QueryRenderer_time_column_filter self (fst dates') (fst (snd dates')) of
                Inl ex \<Rightarrow> Inl ex
              | Inr condition \<Rightarrow>
                  (let wrapped = Select [Star] [sub] (Some condition) None
                   in Inr (case with' of None \<Rightarrow> wrapped | Some w \<Rightarrow> set_with wrapped w))))"

text \<open>The rest of \<open>render\<close>: table resolution, the incremental filter, the final check.\<close>

definition render_finish :: "Lib \<Rightarrow> 'a QueryRenderer_scheme \<Rightarrow> Expression
    \<Rightarrow> TimeLike option \<Rightarrow> TimeLike option \<Rightarrow> TimeLike option \<Rightarrow> (string \<times> Snapshot) list \<Rightarrow> bool
    \<Rightarrow> string list \<Rightarrow> bool \<Rightarrow> pydict \<Rightarrow> error + Expression" where
  "render_finish L self query start end latest snapshots is_dev expand add_incremental_filter kwargs =
     (case BaseExpressionRenderer_resolve_tables L self query snapshots expand is_dev
             (start, end, latest) kwargs of
        Inl ex \<Rightarrow> Inl ex
      | Inr resolved \<Rightarrow>
          (case (if add_incremental_filter \<and> self_time_column self \<noteq> None
                 then incremental_filter L self resolved start end latest
                 else Inr resolved) of
             Inl ex \<Rightarrow> Inl ex
           | Inr query' \<Rightarrow>
               (if \<not> is_Subqueryable query'
                then Inl (raise_config_error
                       (''Query needs to be a SELECT or a UNION '' @ expression_str L query' @ ''.'')
                       (self_path self))
                else Inr query')))"

text \<open>
  The method returns the renderer, whose caches it may have filled, and the query,
  \<open>None\<close>, or the exception raised.
\<close>

definition QueryRenderer_render :: "Lib \<Rightarrow> 'a QueryRenderer_scheme
    \<Rightarrow> TimeLike option \<Rightarrow> TimeLike option \<Rightarrow> TimeLike option \<Rightarrow> (string \<times> Snapshot) list \<Rightarrow> bool
    \<Rightarrow> string list \<Rightarrow> bool \<Rightarrow> bool \<Rightarrow> pydict
    \<Rightarrow> 'a QueryRenderer_scheme \<times> (error + Expression option)" where
  "QueryRenderer_render L self start end latest snapshots is_dev expand add_incremental_filter
       optimize kwargs =
     (case rendered_query L self start end latest snapshots is_dev expand optimize kwargs of
        (self', Inl ex) \<Rightarrow> (self', Inl ex)
      | (self', Inr None) \<Rightarrow> (self', Inr None)
      | (self', Inr (Some query)) \<Rightarrow>
          (case render_finish L self' query start end latest snapshots is_dev expand
                  add_incremental_filter kwargs of
             Inl ex \<Rightarrow> (self', Inl ex)
           | Inr query' \<Rightarrow> (self', Inr (Some query'))))"

definition QueryRenderer_update_cache :: "Lib \<Rightarrow> 'a QueryRenderer_scheme \<Rightarrow> Expression
    \<Rightarrow> TimeLike option \<Rightarrow> TimeLike option \<Rightarrow> TimeLike option \<Rightarrow> bool \<Rightarrow> 'a QueryRenderer_scheme" where
  "QueryRenderer_update_cache L self expression start end latest optimized =
     (if \<not> optimized
      then BaseExpressionRenderer_update_cache L self expression start end latest
      else self\<lparr>self_optimized_cache :=
                  (self_optimized_cache self)(dates L start end latest \<mapsto> expression)\<rparr>)"

subsection \<open>Names for the theorems\<close>

fun is_ParsetimeAdapterCallError :: "error \<Rightarrow> bool" where
  "is_ParsetimeAdapterCallError (ParsetimeAdapterCallError m) = True"
| "is_ParsetimeAdapterCallError e = False"

definition invalid_expression :: "'a BaseExpressionRenderer_scheme \<Rightarrow> error \<Rightarrow> error" where
  "invalid_expression self ex =
     ConfigError (''Invalid expression. '' @ error_str ex @ '' at '' @ sq @ self_path self @ sq)"

text \<open>
  The query with the incremental filter, in the words of the specification:
  \<open>SELECT * FROM (<orig>) AS _subquery WHERE <condition>\<close>, with the \<open>WITH\<close> clause of
  the original query moved to the outer query.
\<close>

fun filtered :: "Expression \<Rightarrow> Expression \<Rightarrow> Expression" where
  "filtered (Select ss fs w wi) condition =
     Select [Star] [Subquery (Select ss fs w None) ''_subquery''] (Some condition) wi"
| "filtered (Union l r wi) condition =
     Select [Star] [Subquery (Union l r None) ''_subquery''] (Some condition) wi"
| "filtered e condition = e"

text \<open>Whether \<open>query.selects\<close> exists.\<close>

fun has_selects :: "Expression \<Rightarrow> bool" where
  "has_selects (Select ss fs w wi) = True"
| "has_selects (Union l r wi) = has_selects l"
| "has_selects e = False"

fun is_SqlglotError :: "error \<Rightarrow> bool" where
  "is_SqlglotError (SqlglotError m) = True"
| "is_SqlglotError e = False"

text \<open>The non-optimized branch: the aliased query, annotated.\<close>

definition fallback :: "Lib \<Rightarrow> 'a QueryRenderer_scheme \<Rightarrow> Expression \<Rightarrow> error + Expression" where
  "fallback L self query =
     (case unoptimized L (self_dialect self) query of
        Inl ex \<Rightarrow> Inl ex
      | Inr query' \<Rightarrow> Inr (annotate_types L query' (schema_for L self query)))"

fun is_Table :: "Expression \<Rightarrow> bool" where
  "is_Table (Table n a) = True"
| "is_Table e = False"

text \<open>An expression with every table reference replaced by what \<open>g\<close> gives for it.\<close>

fun subst_tables :: "(string \<Rightarrow> string \<Rightarrow> Expression) \<Rightarrow> Expression \<Rightarrow> Expression" where
  "subst_tables g (Table n a) = g n a"
| "subst_tables g (Alias e a) = Alias (subst_tables g e) a"
| "subst_tables g (Subquery e a) = Subquery (subst_tables g e) a"
| "subst_tables g (Between e lo hi) = Between (subst_tables g e) (subst_tables g lo) (subst_tables g hi)"
| "subst_tables g (With es) = With (map (subst_tables g) es)"
| "subst_tables g (Select ss fs w wi) =
     Select (map (subst_tables g) ss) (map (subst_tables g) fs)
       (map_option (subst_tables g) w) (map_option (subst_tables g) wi)"
| "subst_tables g (Union l r wi) =
     Union (subst_tables g l) (subst_tables g r) (map_option (subst_tables g) wi)"
| "subst_tables g e = e"

text \<open>The names to expand: those asked for, and those of the snapshots without a physical table.\<close>

definition names_to_expand :: "Lib \<Rightarrow> (string \<times> Snapshot) list \<Rightarrow> string list \<Rightarrow> bool \<Rightarrow> string set" where
  "names_to_expand L snapshots expand is_dev =
     set expand
       \<union> {n \<in> set (map fst snapshots). map_of (to_table_mapping L (dict_values snapshots) is_dev) n = None}"

text \<open>
  A reference to a table by its physical name, when the mapping has a non-empty one for it.
\<close>

definition physical :: "(string \<times> string) list \<Rightarrow> string \<Rightarrow> string \<Rightarrow> Expression" where
  "physical mapping n a =
     (case map_of mapping n of
        Some new_name \<Rightarrow> (if new_name \<noteq> [] then Table new_name a else Table n a)
      | None \<Rightarrow> Table n a)"

text \<open>
  The subquery that stands for a reference to the table \<open>n\<close> with alias \<open>a\<close>, when there is
  one: the name is one to expand, the snapshots hold a model for it that is neither a
  seed nor external, and the query of the model renders.
\<close>

definition inlined :: "Lib \<Rightarrow> (string \<times> Snapshot) list \<Rightarrow> string list \<Rightarrow> bool \<Rightarrow> Window \<Rightarrow> pydict
    \<Rightarrow> string \<Rightarrow> string \<Rightarrow> Expression option" where
  "inlined L snapshots expand is_dev window kwargs n a =
     (case map_of snapshots n of
        None \<Rightarrow> None
      | Some snapshot \<Rightarrow>
          (if n \<in> names_to_expand L snapshots expand is_dev
              \<and> \<not> is_seed (model snapshot) \<and> \<not> kind_is_external (model snapshot)
           then (case render_query L (model snapshot) snapshots
                        (names_to_expand L snapshots expand is_dev) is_dev window kwargs of
                   Inr (Some nested_query) \<Rightarrow>
                     Some (Subquery nested_query (if a \<noteq> [] then a else view_name (model snapshot)))
                 | _ \<Rightarrow> None)
           else None))"

text \<open>What table resolution puts in the place of a reference to the table \<open>n\<close> with alias \<open>a\<close>.\<close>

definition resolved_reference :: "Lib \<Rightarrow> (string \<times> Snapshot) list \<Rightarrow> string list \<Rightarrow> bool \<Rightarrow> Window
    \<Rightarrow> pydict \<Rightarrow> string \<Rightarrow> string \<Rightarrow> Expression" where
  "resolved_reference L snapshots expand is_dev window kwargs n a =
     (case inlined L snapshots expand is_dev window kwargs n a of
        Some sub \<Rightarrow> subst_tables (physical (to_table_mapping L (dict_values snapshots) is_dev)) sub
      | None \<Rightarrow> physical (to_table_mapping L (dict_values snapshots) is_dev) n a)"

text \<open>The names of the tables an expression refers to, in the order of the traversal.\<close>

fun table_names :: "Expression \<Rightarrow> string list" where
  "table_names (Table n a) = [n]"
| "table_names (Alias e a) = table_names e"
| "table_names (Subquery e a) = table_names e"
| "table_names (Between e lo hi) = table_names e @ table_names lo @ table_names hi"
| "table_names (With es) = concat (map table_names es)"
| "table_names (Select ss fs w wi) =
     concat (map table_names ss) @ concat (map table_names fs)
       @ (case w of None \<Rightarrow> [] | Some e \<Rightarrow> table_names e)
       @ (case wi of None \<Rightarrow> [] | Some e \<Rightarrow> table_names e)"
| "table_names (Union l r wi) =
     table_names l @ table_names r @ (case wi of None \<Rightarrow> [] | Some e \<Rightarrow> table_names e)"
| "table_names e = []"

text \<open>
  Whether \<open>_expand\<close> gets through a reference to the table \<open>n\<close>: it does unless it
  renders the model of the name and that raises, or gives something that has no
  \<open>subquery\<close> method.  It renders the model only when the snapshots hold the name, the
  name is one to expand, and the model is neither a seed nor external.
\<close>

definition renders :: "Lib \<Rightarrow> (string \<times> Snapshot) list \<Rightarrow> string list \<Rightarrow> bool \<Rightarrow> Window
    \<Rightarrow> pydict \<Rightarrow> string \<Rightarrow> bool" where
  "renders L snapshots expand is_dev window kwargs n =
     (case map_of snapshots n of
        None \<Rightarrow> True
      | Some snapshot \<Rightarrow>
          (if n \<in> names_to_expand L snapshots expand is_dev
              \<and> \<not> is_seed (model snapshot) \<and> \<not> kind_is_external (model snapshot)
           then (case render_query L (model snapshot) snapshots
                        (names_to_expand L snapshots expand is_dev) is_dev window kwargs of
                   Inl ex \<Rightarrow> False
                 | Inr None \<Rightarrow> True
                 | Inr (Some nested_query) \<Rightarrow> is_Subqueryable nested_query)
           else True))"

text \<open>The same for every table reference of an expression.\<close>

definition nested_render_ok :: "Lib \<Rightarrow> (string \<times> Snapshot) list \<Rightarrow> string list \<Rightarrow> bool \<Rightarrow> Window
    \<Rightarrow> pydict \<Rightarrow> Expression \<Rightarrow> bool" where
  "nested_render_ok L snapshots expand is_dev window kwargs expression =
     list_all (renders L snapshots expand is_dev window kwargs) (table_names expression)"

section \<open>Example inputs\<close>

subsection \<open>Connection configuration\<close>

text \<open>
  A pydantic for the examples: a string field keeps a string and takes an integer as its
  decimal text, and keys that are not fields of the DuckDB configuration are refused.
\<close>

definition ex_pydantic :: Pydantic where
  "ex_pydantic =
     \<lparr> optional_str = (\<lambda>v. case v of
                           None \<Rightarrow> Inr None
                         | Some PNone \<Rightarrow> Inr None
                         | Some (PStr s) \<Rightarrow> Inr (Some s)
                         | Some (PInt i) \<Rightarrow> Inr (Some (str_int i))),
       accepts_keys = (\<lambda>keys. list_all (\<lambda>k. k \<in> {''database'', ''concurrent_tasks'', ''type''}) keys) \<rparr>"

subsection \<open>State reader\<close>

text \<open>
  An implementation of \<open>major_minor\<close> for the examples:
  \<open>tuple(int(part) for part in version.split(".")[0:2])\<close>.
\<close>

fun split_on :: "char \<Rightarrow> string \<Rightarrow> string list" where
  "split_on c [] = [[]]"
| "split_on c (x # xs) =
     (if x = c then [] # split_on c xs
      else (case split_on c xs of [] \<Rightarrow> [[x]] | p # ps \<Rightarrow> (x # p) # ps))"

definition int_of_digits :: "string \<Rightarrow> int" where
  "int_of_digits ds = foldl (\<lambda>a c. 10 * a + (of_char c - 48)) 0 ds"

definition ex_major_minor :: "string \<Rightarrow> int \<times> int" where
  "ex_major_minor v =
     (case split_on (CHR ''.'') v of
        a # b # rest \<Rightarrow> (int_of_digits a, int_of_digits b)
      | _ \<Rightarrow> (0, 0))"

definition ex_globals :: Globals where
  "ex_globals =
     \<lparr> SQLGLOT_VERSION = ''11.5.2'',
       migration_modules = [''v0002_add_intervals'', ''v0001_init'', ''v0003_move_batch_size''],
       major_minor = ex_major_minor \<rparr>"

text \<open>A state store that holds no environments or snapshots, and the given versions row.\<close>

definition ex_reader :: "Versions \<Rightarrow> StateReader" where
  "ex_reader stored =
     \<lparr> get_environment = (\<lambda>n. None),
       get_snapshots = (\<lambda>ids. []),
       get_snapshot_intervals = (\<lambda>snapshots. []),
       get_versions_stored = stored \<rparr>"

definition ex_versions :: "int \<Rightarrow> string \<Rightarrow> Versions" where
  "ex_versions n v = \<lparr> schema_version = n, sqlglot_version = v \<rparr>"

text \<open>
  Date functions for the examples.  \<open>to_datetime\<close> keeps a \<open>datetime\<close>, reads an integer
  above the threshold of \<open>sqlmesh.utils.date\<close> as milliseconds and any other as seconds,
  and reads every string as the epoch; \<open>make_inclusive\<close> takes one microsecond off the
  end, as it does for an end that is not a calendar date.
\<close>

definition ex_to_datetime :: "TimeLike \<Rightarrow> int" where
  "ex_to_datetime value =
     (case value of
        Datetime t \<Rightarrow> t
      | TimeInt i \<Rightarrow> (if i > 300000000000 then i * 1000 else i * 1000000)
      | DateStr s \<Rightarrow> 0)"

definition ex_make_inclusive :: "TimeLike \<Rightarrow> TimeLike \<Rightarrow> int \<times> int" where
  "ex_make_inclusive start end = (ex_to_datetime start, ex_to_datetime end - 1)"

text \<open>
  Snapshot operations for the examples: removing an interval clears the snapshot's
  intervals, and a snapshot misses the whole window when it has no intervals and
  nothing otherwise.
\<close>

definition ex_ops :: SnapshotOps where
  "ex_ops =
     \<lparr> to_datetime = ex_to_datetime,
       make_inclusive = ex_make_inclusive,
       now = Datetime 10,
       earliest_start_date = (\<lambda>snapshots. Datetime 1),
       start_date = (\<lambda>snapshot snapshots. None),
       hydrate_with_intervals_by_version = (\<lambda>snapshots snapshot_intervals. snapshots),
       remove_interval = (\<lambda>snapshot s e latest. snapshot\<lparr>intervals := []\<rparr>),
       snapshot_missing_intervals =
         (\<lambda>snapshot s e latest restatements.
            if intervals snapshot = [] then [(s, ex_to_datetime e)] else []) \<rparr>"

definition ex_model :: "string \<Rightarrow> Model" where
  "ex_model n = \<lparr> model_name = n, is_seed = False, kind_is_external = False, view_name = n \<rparr>"

definition ex_snapshot :: "string \<Rightarrow> Interval list \<Rightarrow> Snapshot" where
  "ex_snapshot n ivs =
     \<lparr> name = n, fingerprint = ''1'', version = Some ''1'', intervals = ivs, model = ex_model n \<rparr>"

text \<open>
  A state store with the environment \<open>prod\<close>, which starts at 3 and holds the snapshot
  \<open>a\<close>; every snapshot it is asked for has no intervals.
\<close>

definition ex_env_reader :: StateReader where
  "ex_env_reader =
     \<lparr> get_environment =
         (\<lambda>n. if n = ''prod''
              then Some \<lparr> env_name = ''prod'', env_snapshots = [(''a'', ''1'')],
                          start_at = Datetime 3, end_at = None \<rparr>
              else None),
       get_snapshots = (\<lambda>ids. map (\<lambda>i. (i, ex_snapshot (fst i) [])) ids),
       get_snapshot_intervals = (\<lambda>snapshots. []),
       get_versions_stored = ex_versions 3 ''11.5.2'' \<rparr>"

subsection \<open>Renderer\<close>

definition dq :: string where
  "dq = [CHR 0x22]"

text \<open>A quoting pass for the examples: every column name is put in double quotes.\<close>

fun ex_quote :: "Expression \<Rightarrow> Expression" where
  "ex_quote (Column c) = Column (dq @ c @ dq)"
| "ex_quote (Alias e a) = Alias (ex_quote e) a"
| "ex_quote (Subquery e a) = Subquery (ex_quote e) a"
| "ex_quote (Between e lo hi) = Between (ex_quote e) (ex_quote lo) (ex_quote hi)"
| "ex_quote (With es) = With (map ex_quote es)"
| "ex_quote (Select ss fs w wi) =
     Select (map ex_quote ss) (map ex_quote fs) (map_option ex_quote w) (map_option ex_quote wi)"
| "ex_quote (Union l r wi) = Union (ex_quote l) (ex_quote r) (map_option ex_quote wi)"
| "ex_quote e = e"

fun ex_output_name :: "Expression \<Rightarrow> string" where
  "ex_output_name (Column c) = c"
| "ex_output_name (Alias e a) = a"
| "ex_output_name Star = ''*''"
| "ex_output_name e = ''''"

text \<open>The physical table of a snapshot that has a version.\<close>

definition ex_table_name :: "Snapshot \<Rightarrow> string" where
  "ex_table_name s = ''sqlmesh.'' @ name s @ ''__'' @ (case version s of None \<Rightarrow> '''' | Some v \<Rightarrow> v)"

definition ex_to_table_mapping :: "Snapshot list \<Rightarrow> bool \<Rightarrow> (string \<times> string) list" where
  "ex_to_table_mapping snapshots is_dev =
     map (\<lambda>s. (name s, ex_table_name s)) (filter has_version snapshots)"

text \<open>
  Templates for the examples.  \<open>{{ adapter.run() }}\<close> needs a live adapter,
  \<open>{{ undefined() }}\<close> fails in jinja, \<open>{{ nothing }}\<close> renders to a blank, and
  \<open>{{ resolve_table() }}\<close> renders a query on the table \<open>db.t\<close>, by its physical name
  when the snapshots of the call hold it.  Any other template renders to itself.
\<close>

definition ex_template_render :: "JinjaEnv \<Rightarrow> string \<Rightarrow> error + string" where
  "ex_template_render env template =
     (if template = ''{{ adapter.run() }}'' then Inl (ParsetimeAdapterCallError ''adapter.run'')
      else if template = ''{{ undefined() }}'' then Inl (OtherError ''undefined is not callable'')
      else if template = ''{{ nothing }}'' then Inr ''  ''
      else if template = ''{{ resolve_table() }}''
      then Inr (''SELECT * FROM ''
                @ (case map_of (je_snapshots env) ''db.t'' of
                     None \<Rightarrow> ''db.t''
                   | Some s \<Rightarrow> ex_table_name s))
      else Inr template)"

text \<open>
  A parser for the examples: it reads \<open>SELECT * FROM <table>\<close>, reads \<open>;\<close> as an empty
  statement, and fails on anything else.
\<close>

definition ex_parse :: "string \<Rightarrow> string \<Rightarrow> error + Expression option list" where
  "ex_parse sql dialect =
     (if take 14 sql = ''SELECT * FROM '' then Inr [Some (Select [Star] [Table (drop 14 sql) ''''] None None)]
      else if sql = '';'' then Inr [None]
      else Inl (SqlglotError ''Invalid expression / Unexpected token''))"

text \<open>
  \<open>qualify\<close> for the examples fails on a query that selects the column \<open>ambiguous\<close>,
  and breaks down with another exception on one that selects the column \<open>crash\<close>.
\<close>

definition ex_qualify :: "Expression \<Rightarrow> string \<Rightarrow> Schema \<Rightarrow> error + Expression" where
  "ex_qualify query dialect schema =
     (if Column ''ambiguous'' \<in> set (selects query) then Inl (SqlglotError ''Column ambiguous'')
      else if Column ''crash'' \<in> set (selects query) then Inl (OtherError ''maximum recursion depth exceeded'')
      else Inr query)"

text \<open>
  \<open>Model.render_query\<close> for the examples: the model \<open>broken\<close> fails to render, the
  model \<open>deferred\<close> renders to \<open>None\<close>, any other model selects from its raw table.
\<close>

definition ex_render_query :: "Model \<Rightarrow> (string \<times> Snapshot) list \<Rightarrow> string set \<Rightarrow> bool \<Rightarrow> Window
    \<Rightarrow> pydict \<Rightarrow> error + Expression option" where
  "ex_render_query m snapshots expand is_dev window kwargs =
     (if model_name m = ''broken'' then Inl (ConfigError ''Failed to render query'')
      else if model_name m = ''deferred'' then Inr None
      else Inr (Some (Select [Star] [Table (''raw.'' @ model_name m) ''''] None None)))"

definition ex_lib :: Lib where
  "ex_lib =
     \<lparr> to_datetime = ex_to_datetime,
       make_inclusive = ex_make_inclusive,
       now = Datetime 10,
       EPOCH = Datetime 0,
       date_dict = (\<lambda>d only_latest. Map.empty),
       prepare_env = (\<lambda>env. env),
       template_render = ex_template_render,
       parse = ex_parse,
       evaluate = (\<lambda>evaluator definition'. Inr evaluator),
       macro_transform = (\<lambda>evaluator expression. Inr (Some expression)),
       expression_str = (\<lambda>expression. ''<expression>''),
       qualify_tables = (\<lambda>expression. expression),
       normalize_identifiers = (\<lambda>expression dialect. expression),
       quote_identifiers = (\<lambda>expression dialect. ex_quote expression),
       qualify = ex_qualify,
       simplify = Inr,
       annotate_types = (\<lambda>expression schema. expression),
       find_tables = (\<lambda>expression dialect. set (table_names expression)),
       iteration_order = sorted_list_of_set,
       output_name = ex_output_name,
       to_table_mapping = ex_to_table_mapping,
       render_query = ex_render_query \<rparr>"

definition ex_renderer :: "Expression \<Rightarrow> QueryRenderer" where
  "ex_renderer query =
     \<lparr> self_expression = query,
       self_dialect = ''duckdb'',
       self_macro_definitions = [],
       self_path = ''models/m.sql'',
       self_jinja_macro_registry = '''',
       self_python_env = Map.empty,
       self_only_latest = False,
       self_cache = Map.empty,
       self_model_name = Some ''db.m'',
       self_time_column = Some ''ds'',
       self_time_converter = (\<lambda>t. Literal (str_int t)),
       self_optimized_cache = Map.empty,
       self_schema = [] \<rparr>"

text \<open>A body of a \<open>with\<close> statement that raises.\<close>

definition ex_raise :: "Expression \<Rightarrow> Expression \<times> (error + unit)" where
  "ex_raise query = (query, Inl (OtherError ''boom''))"

definition ex_versioned :: "string \<Rightarrow> string \<Rightarrow> Snapshot" where
  "ex_versioned n v = (ex_snapshot n [])\<lparr>version := Some v\<rparr>"

definition ex_seed :: "string \<Rightarrow> Snapshot" where
  "ex_seed n = (ex_snapshot n [])\<lparr>model := (ex_model n)\<lparr>is_seed := True\<rparr>\<rparr>"

definition ex_unversioned :: "string \<Rightarrow> Snapshot" where
  "ex_unversioned n = (ex_snapshot n [])\<lparr>version := None\<rparr>"

text \<open>A query with a \<open>WITH\<close> clause, before and after the example quoting pass.\<close>

definition ex_with_query :: Expression where
  "ex_with_query =
     Select [Column ''a''] [Table ''db.t'' ''''] None
       (Some (With [Subquery (Select [Star] [Table ''db.u'' ''''] None None) ''cte'']))"

definition ex_with_query_quoted :: Expression where
  "ex_with_query_quoted =
     Select [Column (dq @ ''a'' @ dq)] [Table ''db.t'' ''''] None
       (Some (With [Subquery (Select [Star] [Table ''db.u'' ''''] None None) ''cte'']))"

text \<open>A renderer that knows the columns of the table \<open>db.t\<close>.\<close>

definition ex_schema_renderer :: "Expression \<Rightarrow> QueryRenderer" where
  "ex_schema_renderer query = (ex_renderer query)\<lparr>self_schema := [(''db.t'', [(''a'', ''int'')])]\<rparr>"

text \<open>
  Snapshots for table resolution: \<open>db.a\<close> and \<open>db.c\<close> have physical tables, \<open>db.b\<close>
  has no version and so no physical table, and \<open>db.seed\<close> is a seed.
\<close>

definition ex_snapshots :: "(string \<times> Snapshot) list" where
  "ex_snapshots =
     [(''db.a'', ex_versioned ''db.a'' ''1''),
      (''db.b'', ex_unversioned ''db.b''),
      (''db.c'', ex_versioned ''db.c'' ''7''),
      (''db.seed'', ex_seed ''db.seed'')]"

definition ex_join :: Expression where
  "ex_join =
     Select [Star]
       [Table ''db.a'' ''x'', Table ''db.b'' '''', Table ''db.c'' '''', Table ''db.d'' '''',
        Table ''db.seed'' '''']
       None None"

text \<open>A model whose query is a template that resolves the table \<open>db.t\<close> while rendering.\<close>

definition ex_template_renderer :: QueryRenderer where
  "ex_template_renderer = ex_renderer (Jinja ''{{ resolve_table() }}'')"

definition ex_select_star :: "string \<Rightarrow> Expression" where
  "ex_select_star table = Select [Star] [Table table ''''] None None"

section \<open>Connection configuration: theorems\<close>

text \<open>
  C9.  For a Snowflake configuration dictionary, \<open>_validate_authenticator\<close> raises a
  \<open>ConfigError\<close> exactly when no (non-empty) authenticator is given and the user or the
  password is missing or empty; in every other case the dictionary passes unchanged.
\<close>

theorem snowflake_authenticator_rule:
  assumes "is_snowflake_values values"
  shows "((\<exists>msg. validate_authenticator values = Inl (ConfigError msg))
            = (\<not> truthy (dict_get values ''authenticator'')
               \<and> (\<not> truthy (dict_get values ''user'') \<or> \<not> truthy (dict_get values ''password''))))
       \<and> ((validate_authenticator values = Inr values)
            = (truthy (dict_get values ''authenticator'')
               \<or> (truthy (dict_get values ''user'') \<and> truthy (dict_get values ''password''))))
       \<and> (\<forall>e. validate_authenticator values = Inl e \<longrightarrow> (\<exists>msg. e = ConfigError msg))"
  using assms
  by (auto simp: validate_authenticator_def is_snowflake_values_def dict_get_def Let_def)

theorem snowflake_authenticator_rule_witness:
  "is_snowflake_values [''type'' \<mapsto> PStr ''snowflake'', ''user'' \<mapsto> PStr ''u'']
   \<and> (\<exists>msg. validate_authenticator [''type'' \<mapsto> PStr ''snowflake'', ''user'' \<mapsto> PStr ''u'']
              = Inl (ConfigError msg))
   \<and> validate_authenticator [''account'' \<mapsto> PStr ''a'', ''authenticator'' \<mapsto> PStr ''externalbrowser'']
       = Inr [''account'' \<mapsto> PStr ''a'', ''authenticator'' \<mapsto> PStr ''externalbrowser'']
   \<and> validate_authenticator [''user'' \<mapsto> PStr ''u'', ''password'' \<mapsto> PStr ''p'']
       = Inr [''user'' \<mapsto> PStr ''u'', ''password'' \<mapsto> PStr ''p'']"
proof -
  have a: "is_snowflake_values [''type'' \<mapsto> PStr ''snowflake'', ''user'' \<mapsto> PStr ''u'']"
    by (simp add: is_snowflake_values_def)
  have b: "is_snowflake_values [''account'' \<mapsto> PStr ''a'', ''authenticator'' \<mapsto> PStr ''externalbrowser'']"
    by (simp add: is_snowflake_values_def)
  have c: "is_snowflake_values [''user'' \<mapsto> PStr ''u'', ''password'' \<mapsto> PStr ''p'']"
    by (simp add: is_snowflake_values_def)
  show ?thesis
    using a snowflake_authenticator_rule[OF a] snowflake_authenticator_rule[OF b]
      snowflake_authenticator_rule[OF c]
    by (simp add: dict_get_def)
qed

text \<open>
  C10.  Every DuckDB configuration that passes validation has \<open>concurrent_tasks = 1\<close>,
  so the engine adapter that \<open>create_engine_adapter\<close> builds for it is never
  multithreaded.
\<close>

theorem duckdb_never_multithreaded:
  assumes "new_DuckDBConnectionConfig P data = Inr c"
  shows "concurrent_tasks c = 1
       \<and> multithreaded (create_engine_adapter (duckdb_connection c)) = (concurrent_tasks c > 1)
       \<and> multithreaded (create_engine_adapter (duckdb_connection c)) = False"
  using assms
  by (auto simp: new_DuckDBConnectionConfig_def validate_concurrent_tasks_def
      create_engine_adapter_def duckdb_connection_def Let_def
      split: sum.splits option.splits if_splits)

theorem duckdb_never_multithreaded_witness:
  "new_DuckDBConnectionConfig ex_pydantic [(''database'', PStr ''db.duckdb'')]
     = Inr \<lparr> database = Some ''db.duckdb'', concurrent_tasks = 1, type_tag = ''duckdb'' \<rparr>
   \<and> multithreaded (create_engine_adapter (duckdb_connection
        \<lparr> database = Some ''db.duckdb'', concurrent_tasks = 1, type_tag = ''duckdb'' \<rparr>)) = False
   \<and> (\<exists>e. new_DuckDBConnectionConfig ex_pydantic [(''concurrent_tasks'', PInt 2)] = Inl e)"
proof -
  have h: "new_DuckDBConnectionConfig ex_pydantic [(''database'', PStr ''db.duckdb'')]
     = Inr \<lparr> database = Some ''db.duckdb'', concurrent_tasks = 1, type_tag = ''duckdb'' \<rparr>"
    by (simp add: new_DuckDBConnectionConfig_def validate_database_def ex_pydantic_def
        validate_concurrent_tasks_def validate_type_def)
  have e: "\<exists>e. new_DuckDBConnectionConfig ex_pydantic [(''concurrent_tasks'', PInt 2)] = Inl e"
    by (simp add: new_DuckDBConnectionConfig_def validate_database_def ex_pydantic_def
        validate_concurrent_tasks_def validate_type_def)
  show ?thesis
    using h e duckdb_never_multithreaded[OF h] by simp
qed

section \<open>State reader: theorems\<close>

lemma dict_merge_Nil [simp]: "dict_merge a [] = a" by (simp add: dict_merge_def)
lemma dict_merge_Cons [simp]: "dict_merge a (kv # b) = dict_merge (AList.update (fst kv) (snd kv) a) b"
  by (simp add: dict_merge_def)

lemma dict_merge_not_Nil: "a \<noteq> [] \<Longrightarrow> dict_merge a b \<noteq> []"
  by (induction b arbitrary: a) auto

lemma by_id_Nil_iff: "(by_id ss = []) = (ss = [])"
  by (cases ss) (auto simp: by_id_def dict_merge_not_Nil)

lemma missing_loop_distinct:
  "distinct (map fst acc) \<Longrightarrow> distinct (map fst (missing_loop ops al R sd ed lt hs acc))"
  by (induction hs arbitrary: acc) (auto simp: Let_def distinct_update)

lemma missing_loop_map_of:
  "map_of (missing_loop ops al R sd ed lt hs acc) k =
     (if k \<in> restated ops R sd ed lt ` set hs \<and> intervals_wanted ops al R sd ed lt k \<noteq> []
      then Some (intervals_wanted ops al R sd ed lt k) else map_of acc k)"
  by (induction hs arbitrary: acc) (auto simp: Let_def update_conv')

lemma missing_from_is_missing_of:
  "is_missing_of self ops given start end latest restatements
     (missing_from self ops given start end latest restatements)"
proof -
  have folded: "is_missing_of self ops given start end latest restatements missing =
     (distinct (map fst missing)
      \<and> (\<forall>k ivs. (map_of missing k = Some ivs) =
           (given \<noteq> []
            \<and> (let snapshots_by_id = with_stored self given;
                    all_snapshots = dict_values snapshots_by_id;
                    start_date' = window_start ops start snapshots_by_id;
                    end_date = window_end ops end
                in (\<exists>snapshot \<in> set (hydrated self ops snapshots_by_id).
                      k = restated ops (set restatements) start_date' end_date latest snapshot)
                 \<and> ivs = intervals_wanted ops all_snapshots (set restatements) start_date' end_date
                           latest k
                 \<and> ivs \<noteq> []))))" for missing
    by (simp add: is_missing_of_def with_stored_def window_start_def window_end_def hydrated_def
        restated_def intervals_wanted_def Let_def)
  have d: "distinct (map fst (missing_from self ops given start end latest restatements))"
    by (simp add: missing_from_def Let_def missing_loop_distinct)
  have m: "\<forall>k ivs. (map_of (missing_from self ops given start end latest restatements) k = Some ivs) =
           (given \<noteq> []
            \<and> (let snapshots_by_id = with_stored self given;
                    all_snapshots = dict_values snapshots_by_id;
                    start_date' = window_start ops start snapshots_by_id;
                    end_date = window_end ops end
                in (\<exists>snapshot \<in> set (hydrated self ops snapshots_by_id).
                      k = restated ops (set restatements) start_date' end_date latest snapshot)
                 \<and> ivs = intervals_wanted ops all_snapshots (set restatements) start_date' end_date
                           latest k
                 \<and> ivs \<noteq> []))"
    by (auto simp: missing_from_def Let_def missing_loop_map_of)
  show ?thesis
    unfolding folded using d m by blast
qed

text \<open>
  C3.  Every call of \<open>missing_intervals\<close> returns a dictionary, and the dictionary is as
  the specification says, for the snapshots and the window that the first argument
  selects.  For a collection of snapshots these are the snapshots by identifier and the
  given \<open>start\<close> and \<open>end\<close>.  For an environment, or the name of one that the store
  holds, they are the snapshots that the store returns for the environment and
  \<open>start or env.start_at\<close>, \<open>end or env.end_at\<close>.  For a name that the store does not
  hold the dictionary is empty.  In each case every snapshot whose name is restated
  first has \<open>remove_interval(start_date, end_date, latest)\<close> applied, the missing
  intervals of a snapshot are taken from \<open>max(start_date, start_date(snapshot) or
  start_date)\<close> to \<open>end_date\<close> with the given \<open>latest\<close> and restatements, and the keys
  are exactly the snapshots whose missing intervals are not empty.
\<close>

theorem missing_intervals_every_call:
  "(case env_or_snapshots of
      Snapshots snapshots \<Rightarrow>
        (\<exists>missing. missing_intervals self ops env_or_snapshots start end latest restatements = Inr missing
            \<and> is_missing_of self ops (by_id snapshots) start end latest restatements missing)
    | Env env \<Rightarrow>
        (\<exists>missing. missing_intervals self ops env_or_snapshots start end latest restatements = Inr missing
            \<and> is_missing_of self ops (get_snapshots self (env_snapshots env))
                 (py_or start (Some (start_at env))) (py_or end (end_at env)) latest restatements missing)
    | EnvName n \<Rightarrow>
        (case get_environment self n of
           None \<Rightarrow> missing_intervals self ops env_or_snapshots start end latest restatements = Inr []
         | Some env \<Rightarrow>
             (\<exists>missing. missing_intervals self ops env_or_snapshots start end latest restatements = Inr missing
                 \<and> is_missing_of self ops (get_snapshots self (env_snapshots env))
                      (py_or start (Some (start_at env))) (py_or end (end_at env)) latest restatements
                      missing)))"
proof (cases env_or_snapshots)
  case (EnvName n)
  show ?thesis
  proof (cases "get_environment self n")
    case None
    with EnvName show ?thesis by (simp add: missing_intervals_def missing_from_def)
  next
    case (Some env)
    with EnvName show ?thesis by (simp add: missing_intervals_def missing_from_is_missing_of)
  qed
next
  case (Env env)
  then show ?thesis by (simp add: missing_intervals_def missing_from_is_missing_of)
next
  case (Snapshots snapshots)
  then show ?thesis by (simp add: missing_intervals_def missing_from_is_missing_of)
qed


theorem missing_intervals_every_call_witness:
  "missing_intervals (ex_reader (ex_versions 3 ''11.5.2'')) ex_ops
       (Snapshots [ex_snapshot ''a'' [(0, 5)], ex_snapshot ''b'' [(0, 5)]])
       (Some (Datetime 2)) None None [''a'']
     = Inr [(ex_snapshot ''a'' [], [(2, 10)])]
   \<and> is_missing_of (ex_reader (ex_versions 3 ''11.5.2'')) ex_ops
         (by_id [ex_snapshot ''a'' [(0, 5)], ex_snapshot ''b'' [(0, 5)]])
         (Some (Datetime 2)) None None [''a''] [(ex_snapshot ''a'' [], [(2, 10)])]
   \<and> missing_intervals ex_env_reader ex_ops (EnvName ''prod'') None None None []
     = Inr [(ex_snapshot ''a'' [], [(3, 10)])]
   \<and> missing_intervals ex_env_reader ex_ops (EnvName ''dev'') None None None [] = Inr []
   \<and> missing_intervals ex_env_reader ex_ops (Snapshots []) None None None [] = Inr []"
proof -
  have ev: "missing_intervals (ex_reader (ex_versions 3 ''11.5.2'')) ex_ops
           (Snapshots [ex_snapshot ''a'' [(0, 5)], ex_snapshot ''b'' [(0, 5)]])
           (Some (Datetime 2)) None None [''a''] = Inr [(ex_snapshot ''a'' [], [(2, 10)])]"
    by (simp add: missing_intervals_def missing_from_def by_id_def with_stored_def
        window_start_def window_end_def hydrated_def dict_values_def has_version_def
        restated_def intervals_wanted_def py_or_else_def snapshot_id_def
        ex_reader_def ex_ops_def ex_to_datetime_def ex_snapshot_def ex_model_def Let_def)
  have prod: "missing_intervals ex_env_reader ex_ops (EnvName ''prod'') None None None []
     = Inr [(ex_snapshot ''a'' [], [(3, 10)])]"
    by (simp add: missing_intervals_def missing_from_def with_stored_def
        window_start_def window_end_def hydrated_def dict_values_def has_version_def
        restated_def intervals_wanted_def py_or_else_def py_or_def snapshot_id_def
        ex_env_reader_def ex_ops_def ex_to_datetime_def ex_snapshot_def ex_model_def Let_def)
  have dev: "missing_intervals ex_env_reader ex_ops (EnvName ''dev'') None None None [] = Inr []"
    using missing_intervals_every_call[where env_or_snapshots="EnvName ''dev''" and self=ex_env_reader
        and ops=ex_ops and start=None and ?end=None and latest=None and restatements="[]"]
    by (simp add: ex_env_reader_def)
  have none: "missing_intervals ex_env_reader ex_ops (Snapshots []) None None None [] = Inr []"
    by (simp add: missing_intervals_def missing_from_def by_id_def)
  from missing_intervals_every_call[where
      env_or_snapshots="Snapshots [ex_snapshot ''a'' [(0, 5)], ex_snapshot ''b'' [(0, 5)]]"
      and self="ex_reader (ex_versions 3 ''11.5.2'')" and ops=ex_ops and start="Some (Datetime 2)"
      and ?end=None and latest=None and restatements="[''a'']"]
  have "is_missing_of (ex_reader (ex_versions 3 ''11.5.2'')) ex_ops
         (by_id [ex_snapshot ''a'' [(0, 5)], ex_snapshot ''b'' [(0, 5)]])
         (Some (Datetime 2)) None None [''a''] [(ex_snapshot ''a'' [], [(2, 10)])]"
    unfolding ev by simp
  with ev prod dev none show ?thesis by blast
qed

lemma length_MIGRATIONS: "length (MIGRATIONS g) = length (migration_modules g)"
  by (simp add: MIGRATIONS_def)

lemma says_upgrade_raise: "says_upgrade lib (raise_error lib l r False)"
  by (simp add: says_upgrade_def raise_error_def suffix_def)

lemma says_migrate_raise: "says_migrate lib (raise_error lib l r True)"
  by (simp add: says_migrate_def raise_error_def suffix_def)

text \<open>
  C8 (amended).  The local schema version is the number of migration modules.
  \<open>get_versions\<close> raises an error that asks to upgrade the library whenever the local
  schema version is behind the stored one, and whenever it is not but the local sqlglot
  \<open>major.minor\<close> is behind the stored one.  With \<open>validate\<close> set and nothing behind, it
  raises an error that asks to run a migration whenever the local schema version or the
  local sqlglot \<open>major.minor\<close> is ahead.  Without \<open>validate\<close>, versions that are ahead
  are accepted and the stored versions are returned.
\<close>

theorem get_versions_gate:
  "SCHEMA_VERSION g = int (length (migration_modules g)) \<and>
   (let local = SCHEMA_VERSION g;
        remote = schema_version (get_versions_stored self);
        local_glot = major_minor g (SQLGLOT_VERSION g);
        remote_glot = major_minor g (sqlglot_version (get_versions_stored self))
    in (local < remote \<longrightarrow>
          (\<exists>e. get_versions g self validate = Inl e \<and> says_upgrade ''SQLMesh'' e))
     \<and> (\<not> local < remote \<and> tuple_less local_glot remote_glot \<longrightarrow>
          (\<exists>e. get_versions g self validate = Inl e \<and> says_upgrade ''SQLGlot'' e))
     \<and> (validate \<and> remote < local \<and> \<not> tuple_less local_glot remote_glot \<longrightarrow>
          (\<exists>e. get_versions g self validate = Inl e \<and> says_migrate ''SQLMesh'' e))
     \<and> (validate \<and> local = remote \<and> tuple_less remote_glot local_glot \<longrightarrow>
          (\<exists>e. get_versions g self validate = Inl e \<and> says_migrate ''SQLGlot'' e))
     \<and> (\<not> validate \<and> \<not> local < remote \<and> \<not> tuple_less local_glot remote_glot \<longrightarrow>
          get_versions g self validate = Inr (get_versions_stored self))
     \<and> (local = remote \<and> local_glot = remote_glot \<longrightarrow>
          get_versions g self validate = Inr (get_versions_stored self)))"
  by (auto simp: get_versions_def SCHEMA_VERSION_def length_MIGRATIONS Let_def
      says_upgrade_raise says_migrate_raise tuple_less_def)

lemma ex_schema_version: "SCHEMA_VERSION ex_globals = 3"
  by (simp add: SCHEMA_VERSION_def length_MIGRATIONS ex_globals_def)

lemma ex_mm_1152: "ex_major_minor ''11.5.2'' = (11, 5)"
  by (simp add: ex_major_minor_def int_of_digits_def)

lemma ex_mm_1141: "ex_major_minor ''11.4.1'' = (11, 4)"
  by (simp add: ex_major_minor_def int_of_digits_def)

lemma ex_mm_1160: "ex_major_minor ''11.6.0'' = (11, 6)"
  by (simp add: ex_major_minor_def int_of_digits_def)

theorem get_versions_gate_witness:
  "SCHEMA_VERSION ex_globals = 3
   \<and> (\<exists>e. get_versions ex_globals (ex_reader (ex_versions 5 ''11.5.2'')) False = Inl e
          \<and> says_upgrade ''SQLMesh'' e)
   \<and> (\<exists>e. get_versions ex_globals (ex_reader (ex_versions 2 ''11.6.0'')) True = Inl e
          \<and> says_upgrade ''SQLGlot'' e)
   \<and> (\<exists>e. get_versions ex_globals (ex_reader (ex_versions 2 ''11.5.2'')) True = Inl e
          \<and> says_migrate ''SQLMesh'' e)
   \<and> (\<exists>e. get_versions ex_globals (ex_reader (ex_versions 3 ''11.4.1'')) True = Inl e
          \<and> says_migrate ''SQLGlot'' e)
   \<and> get_versions ex_globals (ex_reader (ex_versions 2 ''11.4.1'')) False = Inr (ex_versions 2 ''11.4.1'')
   \<and> get_versions ex_globals (ex_reader (ex_versions 3 ''11.5.2'')) True = Inr (ex_versions 3 ''11.5.2'')"
  using get_versions_gate[of ex_globals "ex_reader (ex_versions 5 ''11.5.2'')" False]
    get_versions_gate[of ex_globals "ex_reader (ex_versions 2 ''11.6.0'')" True]
    get_versions_gate[of ex_globals "ex_reader (ex_versions 2 ''11.5.2'')" True]
    get_versions_gate[of ex_globals "ex_reader (ex_versions 3 ''11.4.1'')" True]
    get_versions_gate[of ex_globals "ex_reader (ex_versions 2 ''11.4.1'')" False]
    get_versions_gate[of ex_globals "ex_reader (ex_versions 3 ''11.5.2'')" True]
  by (simp add: ex_schema_version ex_mm_1152 ex_mm_1141 ex_mm_1160 ex_reader_def ex_versions_def
      ex_globals_def tuple_less_def Let_def)

text \<open>
  The claim as stated fails: with \<open>validate = False\<close> a local schema version ahead of
  the stored one raises nothing.
\<close>

theorem get_versions_ahead_unvalidated_counterexample:
  "schema_version (ex_versions 2 ''11.5.2'') < SCHEMA_VERSION ex_globals
   \<and> get_versions ex_globals (ex_reader (ex_versions 2 ''11.5.2'')) False = Inr (ex_versions 2 ''11.5.2'')"
  by (simp add: get_versions_def ex_schema_version ex_mm_1152 ex_reader_def ex_versions_def
      tuple_less_def Let_def) (simp add: ex_globals_def ex_mm_1152)

section \<open>Renderer: theorems\<close>

subsection \<open>Evaluating the examples\<close>

lemma ex_dates [simp]: "dates ex_lib None None None = (0, - 1, 0)"
  by (simp add: dates_def ex_lib_def ex_make_inclusive_def ex_to_datetime_def py_or_else_def Let_def)

lemma ex_renderer_simps [simp]:
  "self_expression (ex_renderer q) = q"
  "self_cache (ex_renderer q) = Map.empty"
  "self_optimized_cache (ex_renderer q) = Map.empty"
  "self_path (ex_renderer q) = ''models/m.sql''"
  "self_dialect (ex_renderer q) = ''duckdb''"
  "self_time_column (ex_renderer q) = Some ''ds''"
  "self_model_name (ex_renderer q) = Some ''db.m''"
  "self_schema (ex_renderer q) = []"
  "self_macro_definitions (ex_renderer q) = []"
  by (simp_all add: ex_renderer_def)

lemma ex_lib_simps [simp]:
  "template_render ex_lib = ex_template_render"
  "parse ex_lib = ex_parse"
  "expression_str ex_lib = (\<lambda>e. ''<expression>'')"
  "qualify_tables ex_lib = (\<lambda>e. e)"
  "normalize_identifiers ex_lib = (\<lambda>e d. e)"
  "quote_identifiers ex_lib = (\<lambda>e d. ex_quote e)"
  "qualify ex_lib = ex_qualify"
  "simplify ex_lib = Inr"
  "annotate_types ex_lib = (\<lambda>e s. e)"
  "find_tables ex_lib = (\<lambda>e d. set (table_names e))"
  "output_name ex_lib = ex_output_name"
  "to_table_mapping ex_lib = ex_to_table_mapping"
  "render_query ex_lib = ex_render_query"
  "evaluate ex_lib = (\<lambda>ev d. Inr ev)"
  "macro_transform ex_lib = (\<lambda>ev e. Inr (Some e))"
  by (simp_all add: ex_lib_def)

subsection \<open>The scoped normalize-and-quote pass\<close>

text \<open>
  C2 (amended).  \<open>_normalize_and_quote\<close> hands the body of the \<open>with\<close> statement the
  query after \<open>qualify_tables\<close> and \<open>normalize_identifiers\<close>.  When the body completes,
  \<open>quote_identifiers\<close> runs on the query as the body left it.  When the body raises, the
  exception goes on and the query stays as the body left it: the quote pass does not run.
\<close>

theorem normalize_and_quote_exits:
  "(let entered = normalize_identifiers L (qualify_tables L query) dialect
    in (\<forall>query' v. body entered = (query', Inr v) \<longrightarrow>
            normalize_and_quote L query dialect body = (quote_identifiers L query' dialect, Inr v))
     \<and> (\<forall>query' ex. body entered = (query', Inl ex) \<longrightarrow>
            normalize_and_quote L query dialect body = (query', Inl ex)))
   \<and> fst (normalize_and_quote L query dialect pass)
       = quote_identifiers L (normalize_identifiers L (qualify_tables L query) dialect) dialect"
  by (simp add: normalize_and_quote_def Let_def pass_def)

theorem normalize_and_quote_exits_witness:
  "normalize_and_quote ex_lib (Select [Column ''a''] [Table ''t'' ''''] None None) ''duckdb'' pass
     = (Select [Column (dq @ ''a'' @ dq)] [Table ''t'' ''''] None None, Inr ())
   \<and> normalize_and_quote ex_lib (Select [Column ''a''] [Table ''t'' ''''] None None) ''duckdb'' ex_raise
     = (Select [Column ''a''] [Table ''t'' ''''] None None, Inl (OtherError ''boom''))"
  using normalize_and_quote_exits[of ex_lib "Select [Column ''a''] [Table ''t'' ''''] None None" "''duckdb''" pass]
    normalize_and_quote_exits[of ex_lib "Select [Column ''a''] [Table ''t'' ''''] None None" "''duckdb''" ex_raise]
  by (simp add: ex_lib_def pass_def ex_raise_def Let_def)

text \<open>
  The claim as stated fails: after a body that raises, the query is not the quoted one.
\<close>

theorem quote_skipped_on_raise_counterexample:
  "fst (normalize_and_quote ex_lib (Select [Column ''a''] [Table ''t'' ''''] None None) ''duckdb'' ex_raise)
     \<noteq> quote_identifiers ex_lib
          (fst (ex_raise (normalize_identifiers ex_lib
                  (qualify_tables ex_lib (Select [Column ''a''] [Table ''t'' ''''] None None)) ''duckdb'')))
          ''duckdb''
   \<and> snd (normalize_and_quote ex_lib (Select [Column ''a''] [Table ''t'' ''''] None None) ''duckdb'' ex_raise)
     = Inl (OtherError ''boom'')"
  by (simp add: normalize_and_quote_def ex_lib_def ex_raise_def Let_def dq_def)

subsection \<open>Template failures\<close>

lemma render_template_error:
  "try_template L self env t = Inl ex \<Longrightarrow>
   render_template L self env t =
     (if is_ParsetimeAdapterCallError ex then Inl ex else Inl (invalid_expression self ex))"
  by (cases ex) (simp_all add: render_template_def invalid_expression_def)

lemma base_render_template_error:
  assumes "self_expression self = Jinja t"
    and "self_cache self (dates L start end latest) = None"
    and "render_template L self (jinja_env_of L self (dates L start end latest) snapshots is_dev kwargs) t = Inl ex"
  shows "BaseExpressionRenderer_render L self start end latest snapshots is_dev kwargs = (self, Inl ex)"
  using assms by (simp add: BaseExpressionRenderer_render_def render_uncached_def Let_def)

lemma rendered_query_error:
  assumes "snapshots \<noteq> [] \<or> expand \<noteq> [] \<or> \<not> optimize
           \<or> self_optimized_cache self (dates L start end latest) = None"
    and "BaseExpressionRenderer_render L self start end latest snapshots is_dev kwargs = (self', Inl ex)"
  shows "rendered_query L self start end latest snapshots is_dev expand optimize kwargs =
           (if is_ParsetimeAdapterCallError ex then (self', Inr None) else (self', Inl ex))"
  using assms by (cases ex) (auto simp: rendered_query_def single_statement_def Let_def)

lemma render_of_rendered_query_error:
  "rendered_query L self start end latest snapshots is_dev expand optimize kwargs = (self', Inl ex) \<Longrightarrow>
   QueryRenderer_render L self start end latest snapshots is_dev expand add_incremental_filter optimize kwargs
     = (self', Inl ex)"
  "rendered_query L self start end latest snapshots is_dev expand optimize kwargs = (self', Inr None) \<Longrightarrow>
   QueryRenderer_render L self start end latest snapshots is_dev expand add_incremental_filter optimize kwargs
     = (self', Inr None)"
  by (simp_all add: QueryRenderer_render_def)

lemma try_template_cases:
  "try_template L self env t =
     (case template_render L env t of
        Inl ex \<Rightarrow> Inl ex
      | Inr text \<Rightarrow>
          if blank text then Inr None
          else (case parse L text (self_dialect self) of
                  Inl ex \<Rightarrow> Inl ex
                | Inr parsed \<Rightarrow>
                    if List.map_filter id parsed = []
                    then Inl (ConfigError (''Failed to parse an expression '' @ expression_str L (self_expression self)))
                    else Inr (Some (List.map_filter id parsed))))"
  by (simp add: try_template_def Let_def split: sum.splits)

text \<open>
  C7.  When the \<open>try\<close> block of a template (rendering, then parsing) raises a
  \<open>ParsetimeAdapterCallError\<close>, \<open>_render\<close> raises it unchanged and
  \<open>QueryRenderer.render\<close> returns \<open>None\<close>.  When it raises any other exception,
  both raise a \<open>ConfigError\<close> whose message holds the exception's text and ends with the
  path of the model.
\<close>

theorem template_errors:
  assumes "self_expression self = Jinja t"
    and "self_cache self (dates L start end latest) = None"
    and "snapshots \<noteq> [] \<or> expand \<noteq> [] \<or> \<not> optimize
           \<or> self_optimized_cache self (dates L start end latest) = None"
    and "try_template L self (jinja_env_of L self (dates L start end latest) snapshots is_dev kwargs) t = Inl ex"
  shows "(is_ParsetimeAdapterCallError ex \<longrightarrow>
            BaseExpressionRenderer_render L self start end latest snapshots is_dev kwargs = (self, Inl ex)
          \<and> QueryRenderer_render L self start end latest snapshots is_dev expand add_incremental_filter
               optimize kwargs = (self, Inr None))
       \<and> (\<not> is_ParsetimeAdapterCallError ex \<longrightarrow>
            BaseExpressionRenderer_render L self start end latest snapshots is_dev kwargs
              = (self, Inl (ConfigError (''Invalid expression. '' @ error_str ex @ '' at ''
                                           @ sq @ self_path self @ sq)))
          \<and> QueryRenderer_render L self start end latest snapshots is_dev expand add_incremental_filter
               optimize kwargs
              = (self, Inl (ConfigError (''Invalid expression. '' @ error_str ex @ '' at ''
                                           @ sq @ self_path self @ sq))))"
proof -
  let ?env = "jinja_env_of L self (dates L start end latest) snapshots is_dev kwargs"
  have rt: "render_template L self ?env t =
      (if is_ParsetimeAdapterCallError ex then Inl ex else Inl (invalid_expression self ex))"
    using assms(4) by (rule render_template_error)
  show ?thesis
  proof (cases "is_ParsetimeAdapterCallError ex")
    case True
    with rt have "render_template L self ?env t = Inl ex" by simp
    from base_render_template_error[OF assms(1,2) this]
    have b: "BaseExpressionRenderer_render L self start end latest snapshots is_dev kwargs = (self, Inl ex)" .
    from rendered_query_error[OF assms(3) b] True
    have "rendered_query L self start end latest snapshots is_dev expand optimize kwargs = (self, Inr None)"
      by simp
    then have "QueryRenderer_render L self start end latest snapshots is_dev expand add_incremental_filter
               optimize kwargs = (self, Inr None)"
      by (rule render_of_rendered_query_error)
    with b True show ?thesis by simp
  next
    case False
    with rt have "render_template L self ?env t = Inl (invalid_expression self ex)" by simp
    from base_render_template_error[OF assms(1,2) this]
    have b: "BaseExpressionRenderer_render L self start end latest snapshots is_dev kwargs
               = (self, Inl (invalid_expression self ex))" .
    from rendered_query_error[OF assms(3) b]
    have "rendered_query L self start end latest snapshots is_dev expand optimize kwargs
            = (self, Inl (invalid_expression self ex))"
      by (simp add: invalid_expression_def)
    then have "QueryRenderer_render L self start end latest snapshots is_dev expand add_incremental_filter
               optimize kwargs = (self, Inl (invalid_expression self ex))"
      by (rule render_of_rendered_query_error)
    with b False show ?thesis by (simp add: invalid_expression_def)
  qed
qed

lemma ex_try_adapter:
  "try_template ex_lib (ex_renderer (Jinja ''{{ adapter.run() }}'')) env ''{{ adapter.run() }}''
     = Inl (ParsetimeAdapterCallError ''adapter.run'')"
  by (simp add: try_template_def ex_template_render_def)

lemma ex_try_undefined:
  "try_template ex_lib (ex_renderer (Jinja ''{{ undefined() }}'')) env ''{{ undefined() }}''
     = Inl (OtherError ''undefined is not callable'')"
  by (simp add: try_template_def ex_template_render_def)

lemma ex_try_unparsable:
  "try_template ex_lib (ex_renderer (Jinja ''SELEC 1'')) env ''SELEC 1''
     = Inl (SqlglotError ''Invalid expression / Unexpected token'')"
  by (simp add: try_template_def ex_template_render_def ex_parse_def blank_def is_space_def)

lemma ex_try_empty_statement:
  "try_template ex_lib (ex_renderer (Jinja '';'')) env '';''
     = Inl (ConfigError ''Failed to parse an expression <expression>'')"
  by (simp add: try_template_def ex_template_render_def ex_parse_def blank_def is_space_def)

theorem template_errors_witness:
  "QueryRenderer_render ex_lib (ex_renderer (Jinja ''{{ adapter.run() }}'')) None None None [] False []
       False True Map.empty
     = (ex_renderer (Jinja ''{{ adapter.run() }}''), Inr None)
   \<and> BaseExpressionRenderer_render ex_lib (ex_renderer (Jinja ''{{ adapter.run() }}'')) None None None []
       False Map.empty
     = (ex_renderer (Jinja ''{{ adapter.run() }}''), Inl (ParsetimeAdapterCallError ''adapter.run''))
   \<and> QueryRenderer_render ex_lib (ex_renderer (Jinja ''{{ undefined() }}'')) None None None [] False []
       False True Map.empty
     = (ex_renderer (Jinja ''{{ undefined() }}''),
        Inl (ConfigError (''Invalid expression. undefined is not callable at '' @ sq @ ''models/m.sql'' @ sq)))
   \<and> QueryRenderer_render ex_lib (ex_renderer (Jinja ''SELEC 1'')) None None None [] False []
       False True Map.empty
     = (ex_renderer (Jinja ''SELEC 1''),
        Inl (ConfigError (''Invalid expression. Invalid expression / Unexpected token at ''
                            @ sq @ ''models/m.sql'' @ sq)))
   \<and> QueryRenderer_render ex_lib (ex_renderer (Jinja '';'')) None None None [] False []
       False True Map.empty
     = (ex_renderer (Jinja '';''),
        Inl (ConfigError (''Invalid expression. Failed to parse an expression <expression> at ''
                            @ sq @ ''models/m.sql'' @ sq)))"
  using template_errors[of "ex_renderer (Jinja ''{{ adapter.run() }}'')" "''{{ adapter.run() }}''" ex_lib
      None None None "[]" "[]" True False Map.empty "ParsetimeAdapterCallError ''adapter.run''" False,
      OF _ _ _ ex_try_adapter]
    template_errors[of "ex_renderer (Jinja ''{{ undefined() }}'')" "''{{ undefined() }}''" ex_lib
      None None None "[]" "[]" True False Map.empty "OtherError ''undefined is not callable''" False,
      OF _ _ _ ex_try_undefined]
    template_errors[of "ex_renderer (Jinja ''SELEC 1'')" "''SELEC 1''" ex_lib
      None None None "[]" "[]" True False Map.empty "SqlglotError ''Invalid expression / Unexpected token''" False,
      OF _ _ _ ex_try_unparsable]
    template_errors[of "ex_renderer (Jinja '';'')" "'';''" ex_lib
      None None None "[]" "[]" True False Map.empty "ConfigError ''Failed to parse an expression <expression>''" False,
      OF _ _ _ ex_try_empty_statement]
  by simp

subsection \<open>What a call does to the renderer\<close>

lemma base_render_hit:
  "self_cache self (dates L start end latest) = Some cached \<Longrightarrow>
   BaseExpressionRenderer_render L self start end latest snapshots is_dev kwargs = (self, Inr cached)"
  by (simp add: BaseExpressionRenderer_render_def Let_def)

lemma base_render_state:
  "fst (BaseExpressionRenderer_render L self start end latest snapshots is_dev kwargs) = self
   \<or> (self_cache self (dates L start end latest) = None
      \<and> (\<exists>es. BaseExpressionRenderer_render L self start end latest snapshots is_dev kwargs
               = (self\<lparr>self_cache := (self_cache self)(dates L start end latest \<mapsto> es)\<rparr>, Inr es)))"
  by (simp add: BaseExpressionRenderer_render_def Let_def split: option.split sum.split)

lemma base_render_miss:
  assumes "self_cache self (dates L start end latest) = None"
    and "BaseExpressionRenderer_render L self start end latest snapshots is_dev kwargs = (self', outcome)"
  shows "case outcome of
           Inl ex \<Rightarrow> self' = self
         | Inr es \<Rightarrow> self' = self\<lparr>self_cache := (self_cache self)(dates L start end latest \<mapsto> es)\<rparr>"
  using assms
  by (auto simp: BaseExpressionRenderer_render_def Let_def split: option.splits sum.splits)

lemma base_render_shape:
  "\<exists>c. fst (BaseExpressionRenderer_render L self start end latest snapshots is_dev kwargs)
         = self\<lparr>self_cache := c\<rparr>
       \<and> (\<forall>k. k \<noteq> dates L start end latest \<longrightarrow> c k = self_cache self k)"
proof -
  have "self = self\<lparr>self_cache := self_cache self\<rparr>" by simp
  then show ?thesis
    using base_render_state[of L self start "end" latest snapshots is_dev kwargs]
    by (metis fst_conv fun_upd_other)
qed

lemma optimized_and_cached_state:
  "fst (optimized_and_cached L self query cache_key skip_cache optimize) = self
   \<or> (\<not> skip_cache \<and> optimize
      \<and> (\<exists>query'. optimized_and_cached L self query cache_key skip_cache optimize
             = (self\<lparr>self_optimized_cache := (self_optimized_cache self)(cache_key \<mapsto> query')\<rparr>,
                Inr (Some query'))))"
  by (simp add: optimized_and_cached_def split: sum.split)

lemma optimized_and_cached_shape:
  "\<exists>oc. fst (optimized_and_cached L self query cache_key skip_cache optimize)
          = self\<lparr>self_optimized_cache := oc\<rparr>
        \<and> (skip_cache \<longrightarrow> oc = self_optimized_cache self)
        \<and> (\<forall>k. k \<noteq> cache_key \<longrightarrow> oc k = self_optimized_cache self k)"
proof -
  have "self = self\<lparr>self_optimized_cache := self_optimized_cache self\<rparr>" by simp
  then show ?thesis
    using optimized_and_cached_state[of L self query cache_key skip_cache optimize]
    by (metis fst_conv fun_upd_other)
qed

lemma rendered_query_hit:
  assumes "snapshots = []" "expand = []" "optimize"
    and "self_optimized_cache self (dates L start end latest) = Some cached"
  shows "rendered_query L self start end latest snapshots is_dev expand optimize kwargs
           = (self, Inr (Some cached))"
  using assms by (simp add: rendered_query_def Let_def)

lemma rendered_query_miss:
  assumes "snapshots \<noteq> [] \<or> expand \<noteq> [] \<or> \<not> optimize
           \<or> self_optimized_cache self (dates L start end latest) = None"
  shows "rendered_query L self start end latest snapshots is_dev expand optimize kwargs
           = (case single_statement L self
                     (snd (BaseExpressionRenderer_render L self start end latest snapshots is_dev kwargs)) of
                Inl ex \<Rightarrow>
                  (fst (BaseExpressionRenderer_render L self start end latest snapshots is_dev kwargs), Inl ex)
              | Inr None \<Rightarrow>
                  (fst (BaseExpressionRenderer_render L self start end latest snapshots is_dev kwargs), Inr None)
              | Inr (Some query) \<Rightarrow>
                  optimized_and_cached L
                    (fst (BaseExpressionRenderer_render L self start end latest snapshots is_dev kwargs))
                    query (dates L start end latest) (snapshots \<noteq> [] \<or> expand \<noteq> []) optimize)"
proof (cases "snapshots \<noteq> [] \<or> expand \<noteq> [] \<or> \<not> optimize")
  case True
  then have "(if (snapshots \<noteq> [] \<or> expand \<noteq> []) \<or> \<not> optimize then None
              else self_optimized_cache self (dates L start end latest)) = None"
    by auto
  then show ?thesis
    unfolding rendered_query_def Let_def by (simp only: option.case)
next
  case False
  with assms have "self_optimized_cache self (dates L start end latest) = None" by blast
  then have "(if (snapshots \<noteq> [] \<or> expand \<noteq> []) \<or> \<not> optimize then None
              else self_optimized_cache self (dates L start end latest)) = None"
    by simp
  then show ?thesis
    unfolding rendered_query_def Let_def by (simp only: option.case)
qed

lemma rendered_query_state:
  "fst (rendered_query L self start end latest snapshots is_dev expand optimize kwargs) = self
   \<or> (\<exists>query. fst (rendered_query L self start end latest snapshots is_dev expand optimize kwargs)
        = fst (optimized_and_cached L
                 (fst (BaseExpressionRenderer_render L self start end latest snapshots is_dev kwargs))
                 query (dates L start end latest) (snapshots \<noteq> [] \<or> expand \<noteq> []) optimize))
   \<or> fst (rendered_query L self start end latest snapshots is_dev expand optimize kwargs)
        = fst (BaseExpressionRenderer_render L self start end latest snapshots is_dev kwargs)"
proof (cases "snapshots \<noteq> [] \<or> expand \<noteq> [] \<or> \<not> optimize
           \<or> self_optimized_cache self (dates L start end latest) = None")
  case True
  show ?thesis
    unfolding rendered_query_miss[OF True]
    by (cases "single_statement L self
                 (snd (BaseExpressionRenderer_render L self start end latest snapshots is_dev kwargs))")
       (auto split: option.split)
next
  case False
  then obtain cached where "self_optimized_cache self (dates L start end latest) = Some cached"
    by auto
  with False show ?thesis by (simp add: rendered_query_hit)
qed

lemma rendered_query_shape:
  "\<exists>c oc. fst (rendered_query L self start end latest snapshots is_dev expand optimize kwargs)
         = self\<lparr>self_cache := c, self_optimized_cache := oc\<rparr>
       \<and> (\<forall>k. k \<noteq> dates L start end latest \<longrightarrow> c k = self_cache self k)
       \<and> (\<forall>k. k \<noteq> dates L start end latest \<longrightarrow> oc k = self_optimized_cache self k)
       \<and> (snapshots \<noteq> [] \<or> expand \<noteq> [] \<longrightarrow> oc = self_optimized_cache self)"
proof -
  let ?b = "fst (BaseExpressionRenderer_render L self start end latest snapshots is_dev kwargs)"
  obtain c where c: "?b = self\<lparr>self_cache := c\<rparr>"
    and ck: "\<forall>k. k \<noteq> dates L start end latest \<longrightarrow> c k = self_cache self k"
    using base_render_shape by blast
  have s0: "self = self\<lparr>self_cache := self_cache self, self_optimized_cache := self_optimized_cache self\<rparr>"
    by simp
  have s1: "self\<lparr>self_cache := c\<rparr>
              = self\<lparr>self_cache := c, self_optimized_cache := self_optimized_cache self\<rparr>"
    by simp
  consider (same) "fst (rendered_query L self start end latest snapshots is_dev expand optimize kwargs) = self"
    | (opt) query where "fst (rendered_query L self start end latest snapshots is_dev expand optimize kwargs)
        = fst (optimized_and_cached L ?b query (dates L start end latest)
                 (snapshots \<noteq> [] \<or> expand \<noteq> []) optimize)"
    | (base) "fst (rendered_query L self start end latest snapshots is_dev expand optimize kwargs) = ?b"
    using rendered_query_state by blast
  then show ?thesis
  proof cases
    case same
    show ?thesis
      apply (rule exI[of _ "self_cache self"], rule exI[of _ "self_optimized_cache self"])
      using same by simp
  next
    case (opt query)
    obtain oc where oc: "fst (optimized_and_cached L ?b query (dates L start end latest)
                 (snapshots \<noteq> [] \<or> expand \<noteq> []) optimize) = ?b\<lparr>self_optimized_cache := oc\<rparr>"
      and os: "(snapshots \<noteq> [] \<or> expand \<noteq> []) \<longrightarrow> oc = self_optimized_cache ?b"
      and ok: "\<forall>k. k \<noteq> dates L start end latest \<longrightarrow> oc k = self_optimized_cache ?b k"
      using optimized_and_cached_shape by blast
    show ?thesis
      apply (rule exI[of _ c], rule exI[of _ oc])
      using opt oc os ok c ck by simp
  next
    case base
    show ?thesis
      apply (rule exI[of _ c], rule exI[of _ "self_optimized_cache self"])
      using base c ck by simp
  qed
qed

lemma render_state:
  "fst (QueryRenderer_render L self start end latest snapshots is_dev expand add_incremental_filter
          optimize kwargs)
     = fst (rendered_query L self start end latest snapshots is_dev expand optimize kwargs)"
  by (simp add: QueryRenderer_render_def split: prod.split sum.split option.split)

subsection \<open>The incremental filter\<close>

lemma incremental_filter_filtered:
  assumes "is_Subqueryable query" and "self_time_column self = Some column"
  shows "incremental_filter L self query start end latest
           = Inr (filtered query
                    (Between (Column column)
                       (self_time_converter self (fst (dates L start end latest)))
                       (self_time_converter self (fst (snd (dates L start end latest))))))"
  using assms
  by (cases query; cases "fst (pop_with query)")
     (simp_all add: incremental_filter_def subquery_def QueryRenderer_time_column_filter_def Let_def)

lemma filtered_Subqueryable: "is_Subqueryable query \<Longrightarrow> is_Subqueryable (filtered query c)"
  by (cases query) simp_all

lemma rendered_query_fields:
  assumes "rendered_query L self start end latest snapshots is_dev expand optimize kwargs = (self', r)"
  shows "self_time_column self' = self_time_column self"
    and "self_time_converter self' = self_time_converter self"
    and "self_dialect self' = self_dialect self"
    and "self_path self' = self_path self"
proof -
  from rendered_query_shape[of L self start "end" latest snapshots is_dev expand optimize kwargs] assms
  obtain c oc where "self' = self\<lparr>self_cache := c, self_optimized_cache := oc\<rparr>" by auto
  then show "self_time_column self' = self_time_column self"
    and "self_time_converter self' = self_time_converter self"
    and "self_dialect self' = self_dialect self"
    and "self_path self' = self_path self" by simp_all
qed

text \<open>
  C6.  Let \<open>render\<close> get as far as a resolved query that is a \<open>SELECT\<close> or a
  \<open>UNION\<close>.  For a model with a time column and \<open>add_incremental_filter\<close> set, the
  result is \<open>SELECT * FROM (<resolved>) AS _subquery WHERE <column> BETWEEN <s> AND <e>\<close>,
  where \<open>s\<close> and \<open>e\<close> are the model's \<open>time_converter\<close> applied to the first two
  components of \<open>_dates(start, end, latest)\<close>, with the \<open>WITH\<close> clause of the resolved
  query moved to the outer query.  Without a time column, or with
  \<open>add_incremental_filter\<close> unset, the result is the resolved query itself.
\<close>

theorem incremental_filter_wraps:
  assumes "rendered_query L self start end latest snapshots is_dev expand optimize kwargs
             = (self', Inr (Some query))"
    and "BaseExpressionRenderer_resolve_tables L self' query snapshots expand is_dev
             (start, end, latest) kwargs = Inr resolved"
    and "is_Subqueryable resolved"
  shows "(\<forall>column. self_time_column self = Some column \<longrightarrow>
            QueryRenderer_render L self start end latest snapshots is_dev expand True optimize kwargs
              = (self', Inr (Some (filtered resolved
                   (Between (Column column)
                      (self_time_converter self (fst (dates L start end latest)))
                      (self_time_converter self (fst (snd (dates L start end latest)))))))))
       \<and> (self_time_column self = None \<longrightarrow>
            QueryRenderer_render L self start end latest snapshots is_dev expand True optimize kwargs
              = (self', Inr (Some resolved)))
       \<and> QueryRenderer_render L self start end latest snapshots is_dev expand False optimize kwargs
              = (self', Inr (Some resolved))"
proof -
  note f = rendered_query_fields[OF assms(1)]
  have off: "QueryRenderer_render L self start end latest snapshots is_dev expand False optimize kwargs
              = (self', Inr (Some resolved))"
    using assms by (simp add: QueryRenderer_render_def render_finish_def)
  have none: "self_time_column self = None \<Longrightarrow>
            QueryRenderer_render L self start end latest snapshots is_dev expand True optimize kwargs
              = (self', Inr (Some resolved))"
    using assms f by (simp add: QueryRenderer_render_def render_finish_def)
  have on: "QueryRenderer_render L self start end latest snapshots is_dev expand True optimize kwargs
              = (self', Inr (Some (filtered resolved
                   (Between (Column column)
                      (self_time_converter self (fst (dates L start end latest)))
                      (self_time_converter self (fst (snd (dates L start end latest))))))))"
    if "self_time_column self = Some column" for column
  proof -
    have tc: "self_time_column self' = Some column" using that f by simp
    show ?thesis
      using assms tc f(2)
      by (simp add: QueryRenderer_render_def render_finish_def
          incremental_filter_filtered[OF assms(3) tc] filtered_Subqueryable)
  qed
  from off none on show ?thesis by blast
qed

lemma ex_dates_5_8 [simp]: "dates ex_lib (Some (Datetime 5)) (Some (Datetime 9)) None = (5, 8, 0)"
  by (simp add: dates_def ex_lib_def ex_make_inclusive_def ex_to_datetime_def py_or_else_def Let_def)

lemma str_int_5: "str_int 5 = ''5''"
  by code_simp

lemma str_int_8: "str_int 8 = ''8''"
  by code_simp

lemma ex_base_render_plain:
  "self_cache self (dates ex_lib start end latest) = None \<Longrightarrow>
   self_macro_definitions self = [] \<Longrightarrow>
   self_expression self = Select ss fs w wi \<Longrightarrow>
   BaseExpressionRenderer_render ex_lib self start end latest snapshots is_dev kwargs
     = (self\<lparr>self_cache := (self_cache self)(dates ex_lib start end latest \<mapsto> [ex_quote (Select ss fs w wi)])\<rparr>,
        Inr [ex_quote (Select ss fs w wi)])"
  by (simp add: BaseExpressionRenderer_render_def render_uncached_def Let_def normalize_and_quote_def
      pass_def)

lemma ex_rendered_with_query:
  "rendered_query ex_lib (ex_renderer ex_with_query) (Some (Datetime 5)) (Some (Datetime 9)) None [] False []
      False Map.empty
     = ((ex_renderer ex_with_query)\<lparr>self_cache := [(5, 8, 0) \<mapsto> [ex_with_query_quoted]]\<rparr>,
        Inr (Some ex_with_query_quoted))"
  by (simp add: rendered_query_miss ex_base_render_plain[where ss="[Column ''a'']"] ex_with_query_def
      ex_with_query_quoted_def single_statement_def optimized_and_cached_def)

theorem incremental_filter_wraps_witness:
  "QueryRenderer_render ex_lib (ex_renderer ex_with_query) (Some (Datetime 5)) (Some (Datetime 9)) None [] False []
      True False Map.empty
     = ((ex_renderer ex_with_query)\<lparr>self_cache := [(5, 8, 0) \<mapsto> [ex_with_query_quoted]]\<rparr>,
        Inr (Some (Select [Star]
                     [Subquery (Select [Column (dq @ ''a'' @ dq)] [Table ''db.t'' ''''] None None) ''_subquery'']
                     (Some (Between (Column ''ds'') (Literal ''5'') (Literal ''8'')))
                     (Some (With [Subquery (Select [Star] [Table ''db.u'' ''''] None None) ''cte''])))))
   \<and> QueryRenderer_render ex_lib (ex_renderer ex_with_query) (Some (Datetime 5)) (Some (Datetime 9)) None [] False []
      False False Map.empty
     = ((ex_renderer ex_with_query)\<lparr>self_cache := [(5, 8, 0) \<mapsto> [ex_with_query_quoted]]\<rparr>,
        Inr (Some ex_with_query_quoted))"
proof -
  have r: "BaseExpressionRenderer_resolve_tables ex_lib
             ((ex_renderer ex_with_query)\<lparr>self_cache := [(5, 8, 0) \<mapsto> [ex_with_query_quoted]]\<rparr>)
             ex_with_query_quoted [] [] False (Some (Datetime 5), Some (Datetime 9), None) Map.empty
           = Inr ex_with_query_quoted"
    by (simp add: BaseExpressionRenderer_resolve_tables_def)
  have s: "is_Subqueryable ex_with_query_quoted" by (simp add: ex_with_query_quoted_def)
  show ?thesis
    using incremental_filter_wraps[OF ex_rendered_with_query r s]
    by (simp add: ex_with_query_quoted_def ex_renderer_def str_int_5 str_int_8)
qed

subsection \<open>Optimization and its fallback\<close>

lemma map_selects_ok:
  "has_selects e \<Longrightarrow>
   \<exists>e'. map_selects f e = Inr e' \<and> selects e' = map f (selects e) \<and> has_selects e'"
  by (induction e) auto

lemma missing_dependency_skips:
  assumes "\<exists>dependency \<in> dependencies L self query. schema_find (self_schema self) dependency = None"
  shows "schema_for L self query = []" and "\<not> should_optimize L self query"
  using assms by (auto simp: schema_for_def should_optimize_def schema_empty_def)

lemma optimize_query_skipped:
  assumes "\<not> should_optimize L self query"
  shows "snd (QueryRenderer_optimize_query L self query) = fallback L self query"
  using assms by (simp add: QueryRenderer_optimize_query_def try_optimize_def fallback_def Let_def)

lemma optimize_query_failed:
  assumes "try_optimize L self query = Inl (SqlglotError m)"
  shows "QueryRenderer_optimize_query L self query
           = (missing_schema_warning L self query
                @ [Error (m @ '' for '' @ sq @ self_path self @ sq
                            @ '', the column may not exist or is ambiguous'')],
              fallback L self query)"
  using assms by (simp add: QueryRenderer_optimize_query_def fallback_def Let_def)

lemma optimize_query_propagates:
  assumes "try_optimize L self query = Inl ex" and "\<not> is_SqlglotError ex"
  shows "QueryRenderer_optimize_query L self query = (missing_schema_warning L self query, Inl ex)"
  using assms by (cases ex) (simp_all add: QueryRenderer_optimize_query_def Let_def)

lemma optimize_query_annotated:
  assumes "snd (QueryRenderer_optimize_query L self query) = Inr result"
  shows "\<exists>q. result = annotate_types L q (schema_for L self query)"
proof (cases "try_optimize L self query")
  case (Inl ex)
  show ?thesis
  proof (cases "is_SqlglotError ex")
    case True
    then obtain m where "ex = SqlglotError m" by (cases ex) auto
    with Inl assms show ?thesis
      by (auto simp: optimize_query_failed fallback_def split: sum.splits)
  next
    case False
    with Inl assms show ?thesis by (simp add: optimize_query_propagates)
  qed
next
  case (Inr optimized)
  with assms show ?thesis
    by (auto simp: QueryRenderer_optimize_query_def Let_def split: sum.splits if_splits)
qed

lemma unoptimized_aliases:
  assumes "has_selects (normalize_identifiers L (qualify_tables L query) dialect)"
  shows "\<exists>aliased. unoptimized L dialect query = Inr (quote_identifiers L aliased dialect)
           \<and> selects aliased
               = map (alias_select L) (selects (normalize_identifiers L (qualify_tables L query) dialect))"
proof -
  from map_selects_ok[OF assms, of "alias_select L"]
  obtain e' where "map_selects (alias_select L) (normalize_identifiers L (qualify_tables L query) dialect) = Inr e'"
    and "selects e' = map (alias_select L) (selects (normalize_identifiers L (qualify_tables L query) dialect))"
    by blast
  then show ?thesis
    by (intro exI[of _ e']) (simp add: unoptimized_def normalize_and_quote_def alias_body_def Let_def)
qed

text \<open>
  C4 (amended).  In \<open>_optimize_query\<close>: when a dependency other than the model itself
  has no schema entry, \<open>qualify\<close> and \<open>simplify\<close> are not run and the result is the
  non-optimized branch.  When \<open>qualify\<close> or \<open>simplify\<close> raises a \<open>SqlglotError\<close>, the
  error is logged and the result is the same non-optimized branch; any other exception
  is raised on, and nothing is logged for it.  The non-optimized branch is the original
  query, normalized, in which every top-level projection that is not an alias and whose
  output name is neither \<open>*\<close> nor empty is wrapped in an alias of that name, then quoted.
  Every query the method returns is annotated.
\<close>

theorem optimize_query_branches:
  "((\<exists>dependency \<in> dependencies L self query. schema_find (self_schema self) dependency = None) \<longrightarrow>
       try_optimize L self query = Inr query
     \<and> snd (QueryRenderer_optimize_query L self query) = fallback L self query)
   \<and> (\<forall>m. try_optimize L self query = Inl (SqlglotError m) \<longrightarrow>
         QueryRenderer_optimize_query L self query
           = (missing_schema_warning L self query
                @ [Error (m @ '' for '' @ sq @ self_path self @ sq
                            @ '', the column may not exist or is ambiguous'')],
              fallback L self query))
   \<and> (\<forall>ex. try_optimize L self query = Inl ex \<and> \<not> is_SqlglotError ex \<longrightarrow>
         QueryRenderer_optimize_query L self query = (missing_schema_warning L self query, Inl ex))
   \<and> (has_selects (normalize_identifiers L (qualify_tables L query) (self_dialect self)) \<longrightarrow>
        (\<exists>aliased.
            fallback L self query
              = Inr (annotate_types L (quote_identifiers L aliased (self_dialect self))
                       (schema_for L self query))
          \<and> selects aliased
              = map (\<lambda>select. if \<not> is_Alias select \<and> output_name L select \<noteq> ''*''
                                   \<and> output_name L select \<noteq> ''''
                                then Alias select (output_name L select) else select)
                  (selects (normalize_identifiers L (qualify_tables L query) (self_dialect self)))))
   \<and> (\<forall>result. snd (QueryRenderer_optimize_query L self query) = Inr result \<longrightarrow>
         (\<exists>q. result = annotate_types L q (schema_for L self query)))"
proof -
  have a: "(\<exists>dependency \<in> dependencies L self query. schema_find (self_schema self) dependency = None) \<longrightarrow>
       try_optimize L self query = Inr query
     \<and> snd (QueryRenderer_optimize_query L self query) = fallback L self query"
    using missing_dependency_skips(2)[of L self query] optimize_query_skipped[of L self query]
    by (auto simp: try_optimize_def)
  have d: "has_selects (normalize_identifiers L (qualify_tables L query) (self_dialect self)) \<Longrightarrow>
        (\<exists>aliased.
            fallback L self query
              = Inr (annotate_types L (quote_identifiers L aliased (self_dialect self))
                       (schema_for L self query))
          \<and> selects aliased
              = map (\<lambda>select. if \<not> is_Alias select \<and> output_name L select \<noteq> ''*''
                                   \<and> output_name L select \<noteq> ''''
                                then Alias select (output_name L select) else select)
                  (selects (normalize_identifiers L (qualify_tables L query) (self_dialect self))))"
  proof -
    assume h: "has_selects (normalize_identifiers L (qualify_tables L query) (self_dialect self))"
    have eq: "alias_select L = (\<lambda>select. if \<not> is_Alias select \<and> output_name L select \<noteq> ''*''
                                   \<and> output_name L select \<noteq> ''''
                                then Alias select (output_name L select) else select)"
      by (rule ext) (simp add: alias_select_def)
    from unoptimized_aliases[OF h] obtain aliased where
      "unoptimized L (self_dialect self) query = Inr (quote_identifiers L aliased (self_dialect self))"
      "selects aliased = map (alias_select L)
          (selects (normalize_identifiers L (qualify_tables L query) (self_dialect self)))"
      by blast
    then show ?thesis unfolding eq[symmetric] by (auto simp: fallback_def)
  qed
  show ?thesis
    using a d optimize_query_failed[of L self query] optimize_query_propagates[of L self query]
      optimize_query_annotated[of L self query]
    by blast
qed

lemma ex_schema_renderer_simps [simp]:
  "self_expression (ex_schema_renderer q) = q"
  "self_path (ex_schema_renderer q) = ''models/m.sql''"
  "self_dialect (ex_schema_renderer q) = ''duckdb''"
  "self_model_name (ex_schema_renderer q) = Some ''db.m''"
  "self_schema (ex_schema_renderer q) = [(''db.t'', [(''a'', ''int'')])]"
  by (simp_all add: ex_schema_renderer_def ex_renderer_def)

lemma ex_missing_dependency:
  "\<exists>dependency \<in> dependencies ex_lib (ex_renderer q)
        (Select [Column ''a'', Star, Alias (Column ''b'') ''c''] [Table ''db.t'' ''''] None None).
      schema_find (self_schema (ex_renderer q)) dependency = None"
  by (simp add: dependencies_def schema_find_def)

lemma ex_fallback_aliased:
  "fallback ex_lib (ex_renderer q)
      (Select [Column ''a'', Star, Alias (Column ''b'') ''c''] [Table ''db.t'' ''''] None None)
     = Inr (Select [Alias (Column (dq @ ''a'' @ dq)) ''a'', Star, Alias (Column (dq @ ''b'' @ dq)) ''c'']
              [Table ''db.t'' ''''] None None)"
  by (simp add: fallback_def unoptimized_def normalize_and_quote_def alias_body_def alias_select_def
      Let_def)

lemma ex_try_ambiguous:
  "try_optimize ex_lib (ex_schema_renderer q) (Select [Column ''ambiguous''] [Table ''db.t'' ''''] None None)
     = Inl (SqlglotError ''Column ambiguous'')"
  by (simp add: try_optimize_def should_optimize_def schema_for_def dependencies_def schema_find_def
      schema_empty_def ex_qualify_def)

lemma ex_fallback_ambiguous:
  "fallback ex_lib (ex_schema_renderer q) (Select [Column ''ambiguous''] [Table ''db.t'' ''''] None None)
     = Inr (Select [Alias (Column (dq @ ''ambiguous'' @ dq)) ''ambiguous''] [Table ''db.t'' ''''] None None)"
  by (simp add: fallback_def unoptimized_def normalize_and_quote_def alias_body_def alias_select_def
      Let_def)

theorem optimize_query_branches_witness:
  "snd (QueryRenderer_optimize_query ex_lib (ex_renderer (Select [Column ''a'', Star, Alias (Column ''b'') ''c''] [Table ''db.t'' ''''] None None))
          (Select [Column ''a'', Star, Alias (Column ''b'') ''c''] [Table ''db.t'' ''''] None None))
     = Inr (Select [Alias (Column (dq @ ''a'' @ dq)) ''a'', Star, Alias (Column (dq @ ''b'' @ dq)) ''c'']
              [Table ''db.t'' ''''] None None)
   \<and> QueryRenderer_optimize_query ex_lib (ex_schema_renderer (Select [Column ''ambiguous''] [Table ''db.t'' ''''] None None))
          (Select [Column ''ambiguous''] [Table ''db.t'' ''''] None None)
     = ([Error (''Column ambiguous for '' @ sq @ ''models/m.sql'' @ sq
                  @ '', the column may not exist or is ambiguous'')],
        Inr (Select [Alias (Column (dq @ ''ambiguous'' @ dq)) ''ambiguous''] [Table ''db.t'' ''''] None None))"
  using optimize_query_branches[of ex_lib "ex_renderer (Select [Column ''a'', Star, Alias (Column ''b'') ''c''] [Table ''db.t'' ''''] None None)"
      "Select [Column ''a'', Star, Alias (Column ''b'') ''c''] [Table ''db.t'' ''''] None None"]
    optimize_query_branches[of ex_lib "ex_schema_renderer (Select [Column ''ambiguous''] [Table ''db.t'' ''''] None None)"
      "Select [Column ''ambiguous''] [Table ''db.t'' ''''] None None"]
    ex_missing_dependency[of "Select [Column ''a'', Star, Alias (Column ''b'') ''c''] [Table ''db.t'' ''''] None None"] ex_try_ambiguous[of "Select [Column ''ambiguous''] [Table ''db.t'' ''''] None None"]
  by (simp add: ex_fallback_aliased ex_fallback_ambiguous missing_schema_warning_def dependencies_def
      schema_find_def)

text \<open>
  The claim as stated fails: when \<open>qualify\<close> raises an exception that is not a
  \<open>SqlglotError\<close>, nothing is logged and no fallback is used; the exception is raised on.
\<close>

theorem optimize_query_other_exception_counterexample:
  "qualify ex_lib (Select [Column ''crash''] [Table ''db.t'' ''''] None None) ''duckdb''
       [(''db.t'', [(''a'', ''int'')])]
     = Inl (OtherError ''maximum recursion depth exceeded'')
   \<and> QueryRenderer_optimize_query ex_lib
        (ex_schema_renderer (Select [Column ''crash''] [Table ''db.t'' ''''] None None))
        (Select [Column ''crash''] [Table ''db.t'' ''''] None None)
     = ([], Inl (OtherError ''maximum recursion depth exceeded''))"
  by (simp add: QueryRenderer_optimize_query_def try_optimize_def should_optimize_def schema_for_def
      dependencies_def schema_find_def schema_empty_def ex_qualify_def missing_schema_warning_def Let_def)

subsection \<open>Table resolution\<close>

lemma mapM_Inr: "(\<And>x. x \<in> set xs \<Longrightarrow> h x = Inr (k x)) \<Longrightarrow> mapM h xs = Inr (map k xs)"
  by (induction xs) auto

lemma mapM_option_Inr: "(\<And>x. y = Some x \<Longrightarrow> h x = Inr (k x)) \<Longrightarrow> mapM_option h y = Inr (map_option k y)"
  by (cases y) auto

lemma transform_tables:
  assumes nt: "\<And>e. \<not> is_Table e \<Longrightarrow> f e = Inr None"
    and t: "\<And>n a. f (Table n a) = Inr (r n a)"
  shows "transform f e
           = Inr (subst_tables (\<lambda>n a. case r n a of None \<Rightarrow> Table n a | Some x \<Rightarrow> x) e)"
proof (induction e)
  case (Table n a)
  then show ?case by (simp add: t split: option.split)
next
  case (With es)
  then show ?case by (simp add: nt mapM_Inr)
next
  case (Select ss fs w wi)
  then show ?case by (simp add: nt mapM_Inr mapM_option_Inr)
next
  case (Union l r wi)
  then show ?case by (simp add: nt mapM_option_Inr)
qed (simp_all add: nt)

lemma map_option_idI: "(\<And>x. y = Some x \<Longrightarrow> f x = x) \<Longrightarrow> map_option f y = y"
  by (cases y) auto

lemma map_option_eqI: "(\<And>x. y = Some x \<Longrightarrow> f x = g x) \<Longrightarrow> map_option f y = map_option g y"
  by (cases y) auto

lemma subst_tables_id: "subst_tables Table e = e"
  by (induction e) (auto intro!: map_idI map_option_idI)

lemma subst_tables_comp:
  "subst_tables g2 (subst_tables g1 e) = subst_tables (\<lambda>n a. subst_tables g2 (g1 n a)) e"
  by (induction e) (auto simp: option.map_comp comp_def intro!: map_option_eqI)

lemma expand_node_not_table: "\<not> is_Table e \<Longrightarrow> expand_node L snapshots ex is_dev window kwargs e = Inr None"
  by (cases e) simp_all

lemma replace_node_not_table: "\<not> is_Table e \<Longrightarrow> replace_node mapping e = Inr None"
  by (cases e) simp_all

lemma replace_node_table:
  "replace_node mapping (Table n a)
     = Inr (case map_of mapping n of
              Some new_name \<Rightarrow> (if new_name \<noteq> [] then Some (Table new_name a) else None)
            | None \<Rightarrow> None)"
  by (simp split: option.split)

lemma transform_replace:
  "transform (replace_node mapping) e = Inr (subst_tables (physical mapping) e)"
proof -
  have "(\<lambda>n a. case (case map_of mapping n of
              Some new_name \<Rightarrow> (if new_name \<noteq> [] then Some (Table new_name a) else None)
            | None \<Rightarrow> None) of None \<Rightarrow> Table n a | Some x \<Rightarrow> x) = physical mapping"
    by (intro ext) (simp add: physical_def split: option.split)
  then show ?thesis
    using transform_tables[of "replace_node mapping", OF replace_node_not_table replace_node_table, of e]
    by simp
qed

lemma inlined_nothing_to_expand:
  "names_to_expand L snapshots expand is_dev = {} \<Longrightarrow>
   inlined L snapshots expand is_dev window kwargs n a = None"
  by (simp add: inlined_def split: option.split)

lemma physical_empty: "physical [] = Table"
  by (intro ext) (simp add: physical_def)

lemma replaces_None: "f e = Inr None \<Longrightarrow> \<not> replaces f e"
  by (simp add: replaces_def)

lemma root_not_replaced:
  "\<not> is_Table e \<Longrightarrow> \<not> root_replaced L e snapshots expand is_dev window kwargs"
  by (simp add: root_replaced_def Let_def replaces_None expand_node_not_table replace_node_not_table)

lemma resolved_reference_inlined:
  assumes "map_of snapshots n = Some snapshot"
    and "n \<in> names_to_expand L snapshots expand is_dev"
    and "\<not> is_seed (model snapshot)" and "\<not> kind_is_external (model snapshot)"
    and "render_query L (model snapshot) snapshots (names_to_expand L snapshots expand is_dev)
           is_dev window kwargs = Inr (Some nested_query)"
  shows "resolved_reference L snapshots expand is_dev window kwargs n a
           = Subquery (subst_tables (physical (to_table_mapping L (dict_values snapshots) is_dev)) nested_query)
               (if a \<noteq> [] then a else view_name (model snapshot))"
  using assms by (simp add: resolved_reference_def inlined_def)

lemma resolved_reference_physical:
  assumes "case map_of snapshots n of
             None \<Rightarrow> True
           | Some snapshot \<Rightarrow>
               n \<notin> names_to_expand L snapshots expand is_dev
               \<or> is_seed (model snapshot) \<or> kind_is_external (model snapshot)
               \<or> render_query L (model snapshot) snapshots (names_to_expand L snapshots expand is_dev)
                    is_dev window kwargs = Inr None"
  shows "resolved_reference L snapshots expand is_dev window kwargs n a
           = (case map_of (to_table_mapping L (dict_values snapshots) is_dev) n of
                Some new_name \<Rightarrow> (if new_name \<noteq> [] then Table new_name a else Table n a)
              | None \<Rightarrow> Table n a)"
  using assms
  by (auto simp: resolved_reference_def inlined_def physical_def split: option.splits)

lemma render_finish_ignores_caches:
  "render_finish L (self\<lparr>self_cache := c, self_optimized_cache := oc\<rparr>) query start end latest snapshots
       is_dev expand add_incremental_filter kwargs
     = render_finish L self query start end latest snapshots is_dev expand add_incremental_filter kwargs"
  by (simp add: render_finish_def BaseExpressionRenderer_resolve_tables_def incremental_filter_def
      QueryRenderer_time_column_filter_def Let_def
      cong: sum.case_cong option.case_cong if_cong prod.case_cong)

lemma mapM_Inl: "\<exists>x \<in> set xs. \<exists>ex. h x = Inl ex \<Longrightarrow> \<exists>ex. mapM h xs = Inl ex"
proof (induction xs)
  case Nil
  then show ?case by simp
next
  case (Cons a xs)
  show ?case
  proof (cases "h a")
    case (Inl ex)
    then show ?thesis by simp
  next
    case (Inr y)
    with Cons.prems have "\<exists>x \<in> set xs. \<exists>ex. h x = Inl ex" by auto
    from Cons.IH[OF this] Inr show ?thesis by auto
  qed
qed

lemma transform_tables_on:
  assumes nt: "\<And>e. \<not> is_Table e \<Longrightarrow> f e = Inr None"
  shows "(\<And>n a. n \<in> set (table_names e) \<Longrightarrow> f (Table n a) = Inr (r n a)) \<Longrightarrow>
         transform f e
           = Inr (subst_tables (\<lambda>n a. case r n a of None \<Rightarrow> Table n a | Some x \<Rightarrow> x) e)"
proof (induction e)
  case (Table n a)
  then show ?case by (simp split: option.split)
next
  case (With es)
  let ?g = "subst_tables (\<lambda>n a. case r n a of None \<Rightarrow> Table n a | Some x \<Rightarrow> x)"
  have "mapM (transform f) es = Inr (map ?g es)"
  proof (rule mapM_Inr)
    fix x assume x: "x \<in> set es"
    show "transform f x = Inr (?g x)"
      proof (rule With.IH[OF x])
      fix n a assume "n \<in> set (table_names x)"
      with x have "n \<in> set (table_names (With es))" by auto
      then show "f (Table n a) = Inr (r n a)" by (rule With.prems)
    qed
  qed
  then show ?case by (simp add: nt)
next
  case (Select ss fs w wi)
  let ?g = "subst_tables (\<lambda>n a. case r n a of None \<Rightarrow> Table n a | Some x \<Rightarrow> x)"
  have a: "mapM (transform f) ss = Inr (map ?g ss)"
  proof (rule mapM_Inr)
    fix x assume x: "x \<in> set ss"
    show "transform f x = Inr (?g x)"
      proof (rule Select.IH(1)[OF x])
      fix n a assume "n \<in> set (table_names x)"
      with x have "n \<in> set (table_names (Select ss fs w wi))" by auto
      then show "f (Table n a) = Inr (r n a)" by (rule Select.prems)
    qed
  qed
  have b: "mapM (transform f) fs = Inr (map ?g fs)"
  proof (rule mapM_Inr)
    fix x assume x: "x \<in> set fs"
    show "transform f x = Inr (?g x)"
      proof (rule Select.IH(2)[OF x])
      fix n a assume "n \<in> set (table_names x)"
      with x have "n \<in> set (table_names (Select ss fs w wi))" by auto
      then show "f (Table n a) = Inr (r n a)" by (rule Select.prems)
    qed
  qed
  have c: "mapM_option (transform f) w = Inr (map_option ?g w)"
  proof (rule mapM_option_Inr)
    fix x assume x: "w = Some x"
    show "transform f x = Inr (?g x)"
      proof (rule Select.IH(3)[of x], use x in simp)
      fix n a assume "n \<in> set (table_names x)"
      with x have "n \<in> set (table_names (Select ss fs w wi))" by auto
      then show "f (Table n a) = Inr (r n a)" by (rule Select.prems)
    qed
  qed
  have d: "mapM_option (transform f) wi = Inr (map_option ?g wi)"
  proof (rule mapM_option_Inr)
    fix x assume x: "wi = Some x"
    show "transform f x = Inr (?g x)"
      proof (rule Select.IH(4)[of x], use x in simp)
      fix n a assume "n \<in> set (table_names x)"
      with x have "n \<in> set (table_names (Select ss fs w wi))" by auto
      then show "f (Table n a) = Inr (r n a)" by (rule Select.prems)
    qed
  qed
  show ?case by (simp add: nt a b c d)
next
  case (Union l r' wi)
  let ?g = "subst_tables (\<lambda>n a. case r n a of None \<Rightarrow> Table n a | Some x \<Rightarrow> x)"
  have a: "transform f l = Inr (?g l)"
    proof (rule Union.IH(1))
    fix n a' assume "n \<in> set (table_names l)"
    then have "n \<in> set (table_names (Union l r' wi))" by auto
    then show "f (Table n a') = Inr (r n a')" by (rule Union.prems)
  qed
  have b: "transform f r' = Inr (?g r')"
    proof (rule Union.IH(2))
    fix n a' assume "n \<in> set (table_names r')"
    then have "n \<in> set (table_names (Union l r' wi))" by auto
    then show "f (Table n a') = Inr (r n a')" by (rule Union.prems)
  qed
  have d: "mapM_option (transform f) wi = Inr (map_option ?g wi)"
  proof (rule mapM_option_Inr)
    fix x assume x: "wi = Some x"
    show "transform f x = Inr (?g x)"
      proof (rule Union.IH(3)[of x], use x in simp)
      fix n a assume "n \<in> set (table_names x)"
      with x have "n \<in> set (table_names (Union l r' wi))" by auto
      then show "f (Table n a) = Inr (r n a)" by (rule Union.prems)
    qed
  qed
  show ?case by (simp add: nt a b d)
next
  case (Alias e a)
  have "transform f e = Inr (subst_tables (\<lambda>n a. case r n a of None \<Rightarrow> Table n a | Some x \<Rightarrow> x) e)"
    proof (rule Alias.IH)
    fix n a' assume "n \<in> set (table_names e)"
    then have "n \<in> set (table_names (Alias e a))" by auto
    then show "f (Table n a') = Inr (r n a')" by (rule Alias.prems)
  qed
  then show ?case by (simp add: nt)
next
  case (Subquery e a)
  have "transform f e = Inr (subst_tables (\<lambda>n a. case r n a of None \<Rightarrow> Table n a | Some x \<Rightarrow> x) e)"
    proof (rule Subquery.IH)
    fix n a' assume "n \<in> set (table_names e)"
    then have "n \<in> set (table_names (Subquery e a))" by auto
    then show "f (Table n a') = Inr (r n a')" by (rule Subquery.prems)
  qed
  then show ?case by (simp add: nt)
next
  case (Between e lo hi)
  let ?g = "subst_tables (\<lambda>n a. case r n a of None \<Rightarrow> Table n a | Some x \<Rightarrow> x)"
  have a: "transform f e = Inr (?g e)"
    proof (rule Between.IH(1))
    fix n a' assume "n \<in> set (table_names e)"
    then have "n \<in> set (table_names (Between e lo hi))" by auto
    then show "f (Table n a') = Inr (r n a')" by (rule Between.prems)
  qed
  have b: "transform f lo = Inr (?g lo)"
    proof (rule Between.IH(2))
    fix n a' assume "n \<in> set (table_names lo)"
    then have "n \<in> set (table_names (Between e lo hi))" by auto
    then show "f (Table n a') = Inr (r n a')" by (rule Between.prems)
  qed
  have c: "transform f hi = Inr (?g hi)"
    proof (rule Between.IH(3))
    fix n a' assume "n \<in> set (table_names hi)"
    then have "n \<in> set (table_names (Between e lo hi))" by auto
    then show "f (Table n a') = Inr (r n a')" by (rule Between.prems)
  qed
  show ?case by (simp add: nt a b c)
qed (simp_all add: nt)

lemma transform_raises:
  assumes nt: "\<And>e. \<not> is_Table e \<Longrightarrow> f e = Inr None"
    and bad: "\<And>n a. n \<in> B \<Longrightarrow> \<exists>ex. f (Table n a) = Inl ex"
  shows "\<exists>n \<in> set (table_names e). n \<in> B \<Longrightarrow> \<exists>ex. transform f e = Inl ex"
proof (induction e)
  case (Table n a)
  then show ?case using bad[of n a] by auto
next
  case (With es)
  from With.prems obtain x where x: "x \<in> set es" "\<exists>n \<in> set (table_names x). n \<in> B" by auto
  from With.IH[OF x] x(1) have "\<exists>x \<in> set es. \<exists>ex. transform f x = Inl ex" by blast
  then have "\<exists>ex. mapM (transform f) es = Inl ex" by (rule mapM_Inl)
  then show ?case by (auto simp: nt)
next
  case (Select ss fs w wi)
  from Select.prems have
    "(\<exists>x \<in> set ss. \<exists>n \<in> set (table_names x). n \<in> B)
     \<or> (\<exists>x \<in> set fs. \<exists>n \<in> set (table_names x). n \<in> B)
     \<or> (\<exists>x. w = Some x \<and> (\<exists>n \<in> set (table_names x). n \<in> B))
     \<or> (\<exists>x. wi = Some x \<and> (\<exists>n \<in> set (table_names x). n \<in> B))"
    by (auto split: option.splits)
  then consider
    (a) x where "x \<in> set ss" "\<exists>n \<in> set (table_names x). n \<in> B"
    | (b) x where "x \<in> set fs" "\<exists>n \<in> set (table_names x). n \<in> B"
    | (c) x where "w = Some x" "\<exists>n \<in> set (table_names x). n \<in> B"
    | (d) x where "wi = Some x" "\<exists>n \<in> set (table_names x). n \<in> B"
    by blast
  then show ?case
  proof cases
    case a
    from Select.IH(1)[OF a] a(1) have "\<exists>x \<in> set ss. \<exists>ex. transform f x = Inl ex" by blast
    then have "\<exists>ex. mapM (transform f) ss = Inl ex" by (rule mapM_Inl)
    then show ?thesis by (auto simp: nt)
  next
    case b
    from Select.IH(2)[OF b] b(1) have "\<exists>x \<in> set fs. \<exists>ex. transform f x = Inl ex" by blast
    then have "\<exists>ex. mapM (transform f) fs = Inl ex" by (rule mapM_Inl)
    then show ?thesis by (auto simp: nt split: sum.splits)
  next
    case c
    from Select.IH(3)[of x] c have "\<exists>ex. transform f x = Inl ex" by auto
    with c show ?thesis by (auto simp: nt split: sum.splits)
  next
    case d
    from Select.IH(4)[of x] d have "\<exists>ex. transform f x = Inl ex" by auto
    with d show ?thesis by (auto simp: nt split: sum.splits)
  qed
next
  case (Union l r wi)
  from Union.prems have
    "(\<exists>n \<in> set (table_names l). n \<in> B)
     \<or> (\<exists>n \<in> set (table_names r). n \<in> B)
     \<or> (\<exists>x. wi = Some x \<and> (\<exists>n \<in> set (table_names x). n \<in> B))"
    by (auto split: option.splits)
  then consider
    (a) "\<exists>n \<in> set (table_names l). n \<in> B"
    | (b) "\<exists>n \<in> set (table_names r). n \<in> B"
    | (d) x where "wi = Some x" "\<exists>n \<in> set (table_names x). n \<in> B"
    by blast
  then show ?case
  proof cases
    case a
    from Union.IH(1)[OF a] show ?thesis by (auto simp: nt)
  next
    case b
    from Union.IH(2)[OF b] show ?thesis by (auto simp: nt split: sum.splits)
  next
    case d
    from Union.IH(3)[of x] d have "\<exists>ex. transform f x = Inl ex" by auto
    with d show ?thesis by (auto simp: nt split: sum.splits)
  qed
next
  case (Alias e a)
  from Alias.IH Alias.prems show ?case by (auto simp: nt)
next
  case (Subquery e a)
  from Subquery.IH Subquery.prems show ?case by (auto simp: nt)
next
  case (Between e lo hi)
  from Between.prems consider
    (a) "\<exists>n \<in> set (table_names e). n \<in> B"
    | (b) "\<exists>n \<in> set (table_names lo). n \<in> B"
    | (c) "\<exists>n \<in> set (table_names hi). n \<in> B"
    by auto
  then show ?case
  proof cases
    case a
    from Between.IH(1)[OF a] show ?thesis by (auto simp: nt)
  next
    case b
    from Between.IH(2)[OF b] show ?thesis by (auto simp: nt split: sum.splits)
  next
    case c
    from Between.IH(3)[OF c] show ?thesis by (auto simp: nt split: sum.splits)
  qed
qed simp_all


lemma expand_node_renders:
  assumes "renders L snapshots expand is_dev window kwargs n"
  shows "expand_node L snapshots (names_to_expand L snapshots expand is_dev) is_dev window kwargs (Table n a)
           = Inr (inlined L snapshots expand is_dev window kwargs n a)"
proof (cases "map_of snapshots n")
  case None
  then show ?thesis by (simp add: inlined_def)
next
  case (Some snapshot)
  then have "(n, snapshot) \<in> set snapshots" by (rule map_of_SomeD)
  then have ne: "snapshots \<noteq> []" by auto
  show ?thesis
    using Some ne assms
    by (auto simp: renders_def inlined_def subquery_def split: sum.splits option.splits if_splits)
qed

lemma expand_node_raises:
  assumes "\<not> renders L snapshots expand is_dev window kwargs n"
  shows "\<exists>ex. expand_node L snapshots (names_to_expand L snapshots expand is_dev) is_dev window kwargs
                 (Table n a) = Inl ex"
proof (cases "map_of snapshots n")
  case None
  with assms show ?thesis by (simp add: renders_def)
next
  case (Some snapshot)
  then have "(n, snapshot) \<in> set snapshots" by (rule map_of_SomeD)
  then have ne: "snapshots \<noteq> []" by auto
  show ?thesis
    using Some ne assms
    by (auto simp: renders_def subquery_def split: sum.splits option.splits if_splits)
qed

lemma transform_expand_on:
  assumes "nested_render_ok L snapshots expand is_dev window kwargs e"
  shows "transform (expand_node L snapshots (names_to_expand L snapshots expand is_dev) is_dev window kwargs) e
           = Inr (subst_tables
                    (\<lambda>n a. case inlined L snapshots expand is_dev window kwargs n a of
                              None \<Rightarrow> Table n a | Some x \<Rightarrow> x) e)"
proof (rule transform_tables_on)
  fix e' :: Expression assume "\<not> is_Table e'"
  then show "expand_node L snapshots (names_to_expand L snapshots expand is_dev) is_dev window kwargs e'
               = Inr None"
    by (rule expand_node_not_table)
next
  fix n a assume "n \<in> set (table_names e)"
  with assms have "renders L snapshots expand is_dev window kwargs n"
    by (simp add: nested_render_ok_def list_all_iff)
  then show "expand_node L snapshots (names_to_expand L snapshots expand is_dev) is_dev window kwargs
               (Table n a) = Inr (inlined L snapshots expand is_dev window kwargs n a)"
    by (rule expand_node_renders)
qed

lemma transform_expand_raises:
  assumes "\<not> nested_render_ok L snapshots expand is_dev window kwargs e"
  shows "\<exists>ex. transform (expand_node L snapshots (names_to_expand L snapshots expand is_dev)
                            is_dev window kwargs) e = Inl ex"
proof (rule transform_raises[where B="{n. \<not> renders L snapshots expand is_dev window kwargs n}"])
  fix e' :: Expression assume "\<not> is_Table e'"
  then show "expand_node L snapshots (names_to_expand L snapshots expand is_dev) is_dev window kwargs e'
               = Inr None"
    by (rule expand_node_not_table)
next
  fix n a assume "n \<in> {n. \<not> renders L snapshots expand is_dev window kwargs n}"
  then show "\<exists>ex. expand_node L snapshots (names_to_expand L snapshots expand is_dev) is_dev window
                     kwargs (Table n a) = Inl ex"
    using expand_node_raises by simp
next
  from assms show "\<exists>n \<in> set (table_names e). n \<in> {n. \<not> renders L snapshots expand is_dev window kwargs n}"
    by (simp add: nested_render_ok_def list_all_iff)
qed

lemma not_renders_to_expand:
  "\<not> renders L snapshots expand is_dev window kwargs n \<Longrightarrow> n \<in> names_to_expand L snapshots expand is_dev"
  by (auto simp: renders_def split: option.splits if_splits)

lemma resolve_tables_on:
  assumes "nested_render_ok L snapshots expand is_dev window kwargs e"
  shows "resolve_tables L e snapshots expand is_dev window kwargs
           = Inr (subst_tables (resolved_reference L snapshots expand is_dev window kwargs) e)"
proof -
  let ?mapping = "to_table_mapping L (dict_values snapshots) is_dev"
  let ?g1 = "\<lambda>n a. case inlined L snapshots expand is_dev window kwargs n a of
                              None \<Rightarrow> Table n a | Some x \<Rightarrow> x"
  have ref: "resolved_reference L snapshots expand is_dev window kwargs
               = (\<lambda>n a. subst_tables (physical ?mapping) (?g1 n a))"
    by (intro ext) (simp add: resolved_reference_def split: option.split)
  have first: "(if names_to_expand L snapshots expand is_dev \<noteq> {}
                then transform (expand_node L snapshots (names_to_expand L snapshots expand is_dev)
                                  is_dev window kwargs) e
                else Inr e) = Inr (subst_tables ?g1 e)"
  proof (cases "names_to_expand L snapshots expand is_dev = {}")
    case True
    then have "?g1 = Table" by (intro ext) (simp add: inlined_nothing_to_expand)
    with True show ?thesis by (simp add: subst_tables_id)
  next
    case False
    then show ?thesis by (simp add: transform_expand_on[OF assms])
  qed
  have second: "(if ?mapping \<noteq> [] then transform (replace_node ?mapping) e' else Inr e')
                  = Inr (subst_tables (physical ?mapping) e')" for e'
    by (cases "?mapping = []") (simp_all add: transform_replace physical_empty subst_tables_id)
  have "resolve_tables L e snapshots expand is_dev window kwargs
          = Inr (subst_tables (physical ?mapping) (subst_tables ?g1 e))"
    unfolding resolve_tables_def Let_def names_to_expand_def[symmetric]
    by (simp only: first second sum.case)
  then show ?thesis by (simp add: subst_tables_comp ref)
qed

lemma resolve_tables_raises:
  assumes "\<not> nested_render_ok L snapshots expand is_dev window kwargs e"
  shows "\<exists>ex. resolve_tables L e snapshots expand is_dev window kwargs = Inl ex"
proof -
  from assms obtain n where "\<not> renders L snapshots expand is_dev window kwargs n"
    by (auto simp: nested_render_ok_def list_all_iff)
  then have ne: "names_to_expand L snapshots expand is_dev \<noteq> {}"
    using not_renders_to_expand by blast
  from transform_expand_raises[OF assms] obtain ex where
    "transform (expand_node L snapshots (names_to_expand L snapshots expand is_dev)
                            is_dev window kwargs) e = Inl ex" by blast
  with ne have "resolve_tables L e snapshots expand is_dev window kwargs = Inl ex"
    unfolding resolve_tables_def Let_def names_to_expand_def[symmetric] by simp
  then show ?thesis by blast
qed

lemma method_resolve_tables_on:
  assumes "nested_render_ok L snapshots expand is_dev window kwargs
             (normalize_identifiers L (qualify_tables L expression) (self_dialect self))"
    and "\<not> (snapshots = [] \<and> expand = [])"
    and "\<not> is_Table (normalize_identifiers L (qualify_tables L expression) (self_dialect self))"
  shows "BaseExpressionRenderer_resolve_tables L self expression snapshots expand is_dev window kwargs
           = Inr (quote_identifiers L
                    (subst_tables (resolved_reference L snapshots expand is_dev window kwargs)
                       (normalize_identifiers L (qualify_tables L expression) (self_dialect self)))
                    (self_dialect self))"
  using assms(2)
  by (auto simp: BaseExpressionRenderer_resolve_tables_def normalize_and_quote_def resolve_body_def
      resolve_tables_on[OF assms(1)] root_not_replaced[OF assms(3)] Let_def)

lemma method_resolve_tables_raises:
  assumes "\<not> nested_render_ok L snapshots expand is_dev window kwargs
             (normalize_identifiers L (qualify_tables L expression) (self_dialect self))"
    and "\<not> (snapshots = [] \<and> expand = [])"
  shows "\<exists>ex. BaseExpressionRenderer_resolve_tables L self expression snapshots expand is_dev window kwargs
                = Inl ex"
proof -
  from resolve_tables_raises[OF assms(1)] obtain ex where
    "resolve_tables L (normalize_identifiers L (qualify_tables L expression) (self_dialect self))
       snapshots expand is_dev window kwargs = Inl ex" by blast
  with assms(2) show ?thesis
    by (auto simp: BaseExpressionRenderer_resolve_tables_def normalize_and_quote_def resolve_body_def
        Let_def)
qed

lemma render_resolves_rendered_query:
  "snd (QueryRenderer_render L self start end latest snapshots is_dev expand add_incremental_filter
          optimize kwargs)
     = (case snd (rendered_query L self start end latest snapshots is_dev expand optimize kwargs) of
          Inl ex \<Rightarrow> Inl ex
        | Inr None \<Rightarrow> Inr None
        | Inr (Some query) \<Rightarrow>
            (case render_finish L self query start end latest snapshots is_dev expand
                    add_incremental_filter kwargs of
               Inl ex \<Rightarrow> Inl ex
             | Inr query' \<Rightarrow> Inr (Some query')))"
proof -
  obtain c oc where shape:
    "fst (rendered_query L self start end latest snapshots is_dev expand optimize kwargs)
       = self\<lparr>self_cache := c, self_optimized_cache := oc\<rparr>"
    using rendered_query_shape[of L self start "end" latest snapshots is_dev expand optimize kwargs]
    by blast
  obtain s r where sr: "rendered_query L self start end latest snapshots is_dev expand optimize kwargs = (s, r)"
    by (cases "rendered_query L self start end latest snapshots is_dev expand optimize kwargs")
  with shape have s: "s = self\<lparr>self_cache := c, self_optimized_cache := oc\<rparr>" by simp
  show ?thesis
    by (simp add: QueryRenderer_render_def sr s render_finish_ignores_caches
        split: sum.split option.split)
qed

lemma rendered_query_optimized:
  assumes "optimize"
    and "snapshots \<noteq> [] \<or> expand \<noteq> [] \<or> self_optimized_cache self (dates L start end latest) = None"
    and "snd (BaseExpressionRenderer_render L self start end latest snapshots is_dev kwargs) = Inr [q]"
  shows "snd (rendered_query L self start end latest snapshots is_dev expand optimize kwargs)
           = (case snd (QueryRenderer_optimize_query L
                          (fst (BaseExpressionRenderer_render L self start end latest snapshots is_dev kwargs))
                          q) of
                Inl ex \<Rightarrow> Inl ex
              | Inr optimized \<Rightarrow> Inr (Some optimized))"
proof -
  have m: "snapshots \<noteq> [] \<or> expand \<noteq> [] \<or> \<not> optimize
           \<or> self_optimized_cache self (dates L start end latest) = None"
    using assms(2) by blast
  show ?thesis
    unfolding rendered_query_miss[OF m]
    using assms(1)
    by (simp add: assms(3) single_statement_def optimized_and_cached_def split: sum.split)
qed


text \<open>
  C5 (amended).  Table resolution raises exactly when the expression refers to a model
  that is to be inlined and whose nested render raises (or gives something that is not
  a \<open>SELECT\<close> or \<open>UNION\<close>).  Otherwise it replaces every table reference of the
  expression as follows.  A reference whose name is in \<open>expand\<close>, or is held by
  \<open>snapshots\<close> without a physical table, is replaced by the rendered query of its
  model as a subquery, aliased with the alias of the reference or else with the model's
  view name, when \<open>snapshots\<close> holds a model for the name that is neither a seed nor
  external and whose query renders; the tables inside that query are mapped to their
  physical names in turn.  Any other reference is replaced by the physical table of its
  name when the mapping has one, and is left as it is otherwise.
  \<open>BaseExpressionRenderer._resolve_tables\<close> returns the expression unchanged when there
  are neither snapshots nor names to expand, and otherwise does the replacement between
  normalizing and quoting.  In \<open>QueryRenderer.render\<close> table resolution runs after the
  optimization: on a call that optimizes and does not take its query from the optimized
  cache, the query that goes into table resolution is the one that \<open>_optimize_query\<close>
  returns for the rendered statement, and the result of the call is the resolved query,
  with the incremental filter around it when that is asked for.
\<close>

theorem table_resolution:
  "(let entered = normalize_identifiers L (qualify_tables L expression) (self_dialect self);
        rendered = BaseExpressionRenderer_render L self start end latest snapshots is_dev kwargs
    in ((\<exists>ex. resolve_tables L expression snapshots expand is_dev window kwargs = Inl ex)
          = (\<not> nested_render_ok L snapshots expand is_dev window kwargs expression))
     \<and> (nested_render_ok L snapshots expand is_dev window kwargs expression \<longrightarrow>
          resolve_tables L expression snapshots expand is_dev window kwargs
            = Inr (subst_tables (resolved_reference L snapshots expand is_dev window kwargs) expression))
     \<and> (\<forall>n a snapshot nested_query.
             map_of snapshots n = Some snapshot
             \<and> n \<in> names_to_expand L snapshots expand is_dev
             \<and> \<not> is_seed (model snapshot) \<and> \<not> kind_is_external (model snapshot)
             \<and> render_query L (model snapshot) snapshots (names_to_expand L snapshots expand is_dev)
                  is_dev window kwargs = Inr (Some nested_query)
             \<longrightarrow> resolved_reference L snapshots expand is_dev window kwargs n a
                   = Subquery (subst_tables (physical (to_table_mapping L (dict_values snapshots) is_dev))
                                 nested_query)
                       (if a \<noteq> [] then a else view_name (model snapshot)))
     \<and> (\<forall>n a.
             (case map_of snapshots n of
                None \<Rightarrow> True
              | Some snapshot \<Rightarrow>
                  n \<notin> names_to_expand L snapshots expand is_dev
                  \<or> is_seed (model snapshot) \<or> kind_is_external (model snapshot)
                  \<or> render_query L (model snapshot) snapshots (names_to_expand L snapshots expand is_dev)
                       is_dev window kwargs = Inr None)
             \<longrightarrow> resolved_reference L snapshots expand is_dev window kwargs n a
                   = (case map_of (to_table_mapping L (dict_values snapshots) is_dev) n of
                        Some new_name \<Rightarrow> (if new_name \<noteq> [] then Table new_name a else Table n a)
                      | None \<Rightarrow> Table n a))
     \<and> (snapshots = [] \<and> expand = [] \<longrightarrow>
            BaseExpressionRenderer_resolve_tables L self expression snapshots expand is_dev window kwargs
              = Inr expression)
     \<and> (\<not> (snapshots = [] \<and> expand = [])
          \<and> \<not> nested_render_ok L snapshots expand is_dev window kwargs entered \<longrightarrow>
            (\<exists>ex. BaseExpressionRenderer_resolve_tables L self expression snapshots expand is_dev
                     window kwargs = Inl ex))
     \<and> (\<not> (snapshots = [] \<and> expand = [])
          \<and> nested_render_ok L snapshots expand is_dev window kwargs entered \<and> \<not> is_Table entered \<longrightarrow>
            BaseExpressionRenderer_resolve_tables L self expression snapshots expand is_dev window kwargs
              = Inr (quote_identifiers L
                       (subst_tables (resolved_reference L snapshots expand is_dev window kwargs) entered)
                       (self_dialect self)))
     \<and> (\<forall>q. optimize
              \<and> (snapshots \<noteq> [] \<or> expand \<noteq> []
                  \<or> self_optimized_cache self (dates L start end latest) = None)
              \<and> snd rendered = Inr [q] \<longrightarrow>
            snd (rendered_query L self start end latest snapshots is_dev expand optimize kwargs)
              = (case snd (QueryRenderer_optimize_query L (fst rendered) q) of
                   Inl ex \<Rightarrow> Inl ex
                 | Inr optimized \<Rightarrow> Inr (Some optimized)))
     \<and> (\<forall>query.
            snd (rendered_query L self start end latest snapshots is_dev expand optimize kwargs)
              = Inr (Some query) \<longrightarrow>
            snd (QueryRenderer_render L self start end latest snapshots is_dev expand
                   add_incremental_filter optimize kwargs)
              = (case BaseExpressionRenderer_resolve_tables L self query snapshots expand is_dev
                        (start, end, latest) kwargs of
                   Inl ex \<Rightarrow> Inl ex
                 | Inr resolved \<Rightarrow>
                     (case (if add_incremental_filter \<and> self_time_column self \<noteq> None
                            then incremental_filter L self resolved start end latest
                            else Inr resolved) of
                        Inl ex \<Rightarrow> Inl ex
                      | Inr query' \<Rightarrow>
                          (if is_Subqueryable query' then Inr (Some query')
                           else Inl (raise_config_error
                                  (''Query needs to be a SELECT or a UNION '' @ expression_str L query'
                                     @ ''.'')
                                  (self_path self)))))))"
proof -
  let ?entered = "normalize_identifiers L (qualify_tables L expression) (self_dialect self)"
  let ?rendered = "BaseExpressionRenderer_render L self start end latest snapshots is_dev kwargs"
  have e1: "(\<exists>ex. resolve_tables L expression snapshots expand is_dev window kwargs = Inl ex)
          = (\<not> nested_render_ok L snapshots expand is_dev window kwargs expression)"
    using resolve_tables_raises[of L snapshots expand is_dev window kwargs expression]
      resolve_tables_on[of L snapshots expand is_dev window kwargs expression]
    by auto
  have e2: "nested_render_ok L snapshots expand is_dev window kwargs expression \<longrightarrow>
          resolve_tables L expression snapshots expand is_dev window kwargs
            = Inr (subst_tables (resolved_reference L snapshots expand is_dev window kwargs) expression)"
    using resolve_tables_on by blast
  have r1: "\<forall>n a snapshot nested_query.
             map_of snapshots n = Some snapshot
             \<and> n \<in> names_to_expand L snapshots expand is_dev
             \<and> \<not> is_seed (model snapshot) \<and> \<not> kind_is_external (model snapshot)
             \<and> render_query L (model snapshot) snapshots (names_to_expand L snapshots expand is_dev)
                  is_dev window kwargs = Inr (Some nested_query)
             \<longrightarrow> resolved_reference L snapshots expand is_dev window kwargs n a
                   = Subquery (subst_tables (physical (to_table_mapping L (dict_values snapshots) is_dev))
                                 nested_query)
                       (if a \<noteq> [] then a else view_name (model snapshot))"
    using resolved_reference_inlined by blast
  have r2: "\<forall>n a.
             (case map_of snapshots n of
                None \<Rightarrow> True
              | Some snapshot \<Rightarrow>
                  n \<notin> names_to_expand L snapshots expand is_dev
                  \<or> is_seed (model snapshot) \<or> kind_is_external (model snapshot)
                  \<or> render_query L (model snapshot) snapshots (names_to_expand L snapshots expand is_dev)
                       is_dev window kwargs = Inr None)
             \<longrightarrow> resolved_reference L snapshots expand is_dev window kwargs n a
                   = (case map_of (to_table_mapping L (dict_values snapshots) is_dev) n of
                        Some new_name \<Rightarrow> (if new_name \<noteq> [] then Table new_name a else Table n a)
                      | None \<Rightarrow> Table n a)"
    using resolved_reference_physical by blast
  have m0: "snapshots = [] \<and> expand = [] \<longrightarrow>
            BaseExpressionRenderer_resolve_tables L self expression snapshots expand is_dev window kwargs
              = Inr expression"
    by (simp add: BaseExpressionRenderer_resolve_tables_def)
  have m1: "\<not> (snapshots = [] \<and> expand = [])
          \<and> \<not> nested_render_ok L snapshots expand is_dev window kwargs ?entered \<longrightarrow>
            (\<exists>ex. BaseExpressionRenderer_resolve_tables L self expression snapshots expand is_dev
                     window kwargs = Inl ex)"
    using method_resolve_tables_raises by blast
  have m2: "\<not> (snapshots = [] \<and> expand = [])
          \<and> nested_render_ok L snapshots expand is_dev window kwargs ?entered \<and> \<not> is_Table ?entered \<longrightarrow>
            BaseExpressionRenderer_resolve_tables L self expression snapshots expand is_dev window kwargs
              = Inr (quote_identifiers L
                       (subst_tables (resolved_reference L snapshots expand is_dev window kwargs) ?entered)
                       (self_dialect self))"
    using method_resolve_tables_on by blast
  have o1: "\<forall>q. optimize
              \<and> (snapshots \<noteq> [] \<or> expand \<noteq> []
                  \<or> self_optimized_cache self (dates L start end latest) = None)
              \<and> snd ?rendered = Inr [q] \<longrightarrow>
            snd (rendered_query L self start end latest snapshots is_dev expand optimize kwargs)
              = (case snd (QueryRenderer_optimize_query L (fst ?rendered) q) of
                   Inl ex \<Rightarrow> Inl ex
                 | Inr optimized \<Rightarrow> Inr (Some optimized))"
    using rendered_query_optimized by blast
  have o2: "\<forall>query.
            snd (rendered_query L self start end latest snapshots is_dev expand optimize kwargs)
              = Inr (Some query) \<longrightarrow>
            snd (QueryRenderer_render L self start end latest snapshots is_dev expand
                   add_incremental_filter optimize kwargs)
              = (case BaseExpressionRenderer_resolve_tables L self query snapshots expand is_dev
                        (start, end, latest) kwargs of
                   Inl ex \<Rightarrow> Inl ex
                 | Inr resolved \<Rightarrow>
                     (case (if add_incremental_filter \<and> self_time_column self \<noteq> None
                            then incremental_filter L self resolved start end latest
                            else Inr resolved) of
                        Inl ex \<Rightarrow> Inl ex
                      | Inr query' \<Rightarrow>
                          (if is_Subqueryable query' then Inr (Some query')
                           else Inl (raise_config_error
                                  (''Query needs to be a SELECT or a UNION '' @ expression_str L query'
                                     @ ''.'')
                                  (self_path self)))))"
    by (simp add: render_resolves_rendered_query render_finish_def
        split: sum.split option.split)
  show ?thesis
    unfolding Let_def using e1 e2 r1 r2 m0 m1 m2 o1 o2 by blast
qed

lemma ex_snapshot_fields [simp]:
  "name (ex_versioned n v) = n" "version (ex_versioned n v) = Some v"
  "model (ex_versioned n v) = ex_model n"
  "name (ex_unversioned n) = n" "version (ex_unversioned n) = None"
  "model (ex_unversioned n) = ex_model n"
  "name (ex_seed n) = n" "version (ex_seed n) = Some ''1''"
  "model (ex_seed n) = (ex_model n)\<lparr>is_seed := True\<rparr>"
  by (simp_all add: ex_versioned_def ex_unversioned_def ex_seed_def ex_snapshot_def)

lemma ex_model_fields [simp]:
  "model_name (ex_model n) = n" "is_seed (ex_model n) = False"
  "kind_is_external (ex_model n) = False" "view_name (ex_model n) = n"
  by (simp_all add: ex_model_def)

lemma ex_mapping:
  "ex_to_table_mapping (dict_values ex_snapshots) False
     = [(''db.a'', ''sqlmesh.db.a__1''), (''db.c'', ''sqlmesh.db.c__7''), (''db.seed'', ''sqlmesh.db.seed__1'')]"
  by (simp add: ex_to_table_mapping_def dict_values_def ex_snapshots_def has_version_def ex_table_name_def)

lemma ex_names_to_expand:
  "names_to_expand ex_lib ex_snapshots [''db.a''] False = {''db.a'', ''db.b''}"
  by (auto simp: names_to_expand_def ex_mapping) (auto simp: ex_snapshots_def)

lemma ex_lookup:
  "map_of ex_snapshots ''db.a'' = Some (ex_versioned ''db.a'' ''1'')"
  "map_of ex_snapshots ''db.b'' = Some (ex_unversioned ''db.b'')"
  "map_of ex_snapshots ''db.c'' = Some (ex_versioned ''db.c'' ''7'')"
  "map_of ex_snapshots ''db.d'' = None"
  "map_of ex_snapshots ''db.seed'' = Some (ex_seed ''db.seed'')"
  by (simp_all add: ex_snapshots_def)

lemma ex_resolved_references:
  "resolved_reference ex_lib ex_snapshots [''db.a''] False (None, None, None) Map.empty ''db.a'' ''x''
     = Subquery (Select [Star] [Table ''raw.db.a'' ''''] None None) ''x''"
  "resolved_reference ex_lib ex_snapshots [''db.a''] False (None, None, None) Map.empty ''db.b'' ''''
     = Subquery (Select [Star] [Table ''raw.db.b'' ''''] None None) ''db.b''"
  "resolved_reference ex_lib ex_snapshots [''db.a''] False (None, None, None) Map.empty ''db.c'' ''''
     = Table ''sqlmesh.db.c__7'' ''''"
  "resolved_reference ex_lib ex_snapshots [''db.a''] False (None, None, None) Map.empty ''db.d'' ''''
     = Table ''db.d'' ''''"
  "resolved_reference ex_lib ex_snapshots [''db.a''] False (None, None, None) Map.empty ''db.seed'' ''''
     = Table ''sqlmesh.db.seed__1'' ''''"
  by (simp_all add: resolved_reference_def inlined_def ex_names_to_expand ex_mapping physical_def
      ex_render_query_def ex_lookup)

lemma ex_nested_render_ok:
  "nested_render_ok ex_lib ex_snapshots [''db.a''] False (None, None, None) Map.empty ex_join"
  by (simp add: nested_render_ok_def renders_def ex_join_def ex_lookup ex_render_query_def ex_names_to_expand)

lemma ex_join_optimized:
  "snd (QueryRenderer_optimize_query ex_lib self ex_join) = Inr ex_join"
  if "self_schema self = []" "self_model_name self = Some ''db.m''" for self :: "'a QueryRenderer_scheme"
  using that
  by (simp add: QueryRenderer_optimize_query_def try_optimize_def should_optimize_def schema_for_def
      dependencies_def schema_find_def schema_empty_def unoptimized_def normalize_and_quote_def
      alias_body_def alias_select_def ex_join_def Let_def)

theorem table_resolution_witness:
  "nested_render_ok ex_lib ex_snapshots [''db.a''] False (None, None, None) Map.empty ex_join
   \<and> BaseExpressionRenderer_resolve_tables ex_lib (ex_renderer ex_join) ex_join ex_snapshots [''db.a'']
       False (None, None, None) Map.empty
     = Inr (Select [Star]
              [Subquery (Select [Star] [Table ''raw.db.a'' ''''] None None) ''x'',
               Subquery (Select [Star] [Table ''raw.db.b'' ''''] None None) ''db.b'',
               Table ''sqlmesh.db.c__7'' '''',
               Table ''db.d'' '''',
               Table ''sqlmesh.db.seed__1'' '''']
              None None)
   \<and> BaseExpressionRenderer_resolve_tables ex_lib (ex_renderer ex_join) ex_join [] []
       False (None, None, None) Map.empty
     = Inr ex_join
   \<and> (\<exists>ex. BaseExpressionRenderer_resolve_tables ex_lib
               (ex_renderer (Select [Star] [Table ''broken'' ''''] None None))
               (Select [Star] [Table ''broken'' ''''] None None)
               [(''broken'', ex_versioned ''broken'' ''1'')] [''broken'']
               False (None, None, None) Map.empty = Inl ex)
   \<and> snd (QueryRenderer_render ex_lib (ex_renderer ex_join) None None None ex_snapshots False [''db.a'']
            False True Map.empty)
     = Inr (Some (Select [Star]
              [Subquery (Select [Star] [Table ''raw.db.a'' ''''] None None) ''x'',
               Subquery (Select [Star] [Table ''raw.db.b'' ''''] None None) ''db.b'',
               Table ''sqlmesh.db.c__7'' '''',
               Table ''db.d'' '''',
               Table ''sqlmesh.db.seed__1'' '''']
              None None))"
proof -
  let ?resolved = "Select [Star]
              [Subquery (Select [Star] [Table ''raw.db.a'' ''''] None None) ''x'',
               Subquery (Select [Star] [Table ''raw.db.b'' ''''] None None) ''db.b'',
               Table ''sqlmesh.db.c__7'' '''',
               Table ''db.d'' '''',
               Table ''sqlmesh.db.seed__1'' '''']
              None None"
  note T = table_resolution[where L=ex_lib and self="ex_renderer ex_join" and expression=ex_join
      and snapshots=ex_snapshots and expand="[''db.a'']" and is_dev=False
      and window="(None, None, None)" and kwargs=Map.empty and start=None and ?end=None
      and latest=None and optimize=True and add_incremental_filter=False, unfolded Let_def]
  note B = table_resolution[where L=ex_lib
      and self="ex_renderer (Select [Star] [Table ''broken'' ''''] None None)"
      and expression="Select [Star] [Table ''broken'' ''''] None None"
      and snapshots="[(''broken'', ex_versioned ''broken'' ''1'')]" and expand="[''broken'']"
      and is_dev=False and window="(None, None, None)" and kwargs=Map.empty, unfolded Let_def]
  have ne: "\<not> (ex_snapshots = [] \<and> [''db.a''] = [])" by simp
  have nt: "\<not> is_Table ex_join" by (simp add: ex_join_def)
  have m: "BaseExpressionRenderer_resolve_tables ex_lib (ex_renderer ex_join) ex_join ex_snapshots [''db.a'']
       False (None, None, None) Map.empty = Inr ?resolved"
    using T[THEN conjunct2, THEN conjunct2, THEN conjunct2, THEN conjunct2, THEN conjunct2,
        THEN conjunct2, THEN conjunct1] ne nt ex_nested_render_ok
    by (simp add: ex_join_def ex_resolved_references)
  have m0: "BaseExpressionRenderer_resolve_tables ex_lib (ex_renderer ex_join) ex_join [] []
       False (None, None, None) Map.empty = Inr ex_join"
    by (simp add: BaseExpressionRenderer_resolve_tables_def)
  have bad: "\<not> nested_render_ok ex_lib [(''broken'', ex_versioned ''broken'' ''1'')] [''broken''] False
               (None, None, None) Map.empty (Select [Star] [Table ''broken'' ''''] None None)"
    by (simp add: nested_render_ok_def renders_def names_to_expand_def ex_render_query_def)
  have b: "\<exists>ex. BaseExpressionRenderer_resolve_tables ex_lib
               (ex_renderer (Select [Star] [Table ''broken'' ''''] None None))
               (Select [Star] [Table ''broken'' ''''] None None)
               [(''broken'', ex_versioned ''broken'' ''1'')] [''broken'']
               False (None, None, None) Map.empty = Inl ex"
    using B[THEN conjunct2, THEN conjunct2, THEN conjunct2, THEN conjunct2, THEN conjunct2,
        THEN conjunct1] bad
    by simp
  have base: "BaseExpressionRenderer_render ex_lib (ex_renderer ex_join) None None None ex_snapshots
                False Map.empty
              = ((ex_renderer ex_join)\<lparr>self_cache := [(0, - 1, 0) \<mapsto> [ex_join]]\<rparr>, Inr [ex_join])"
    using ex_base_render_plain[where self="ex_renderer ex_join" and start=None and ?end=None
        and latest=None and ss="[Star]"
        and fs="[Table ''db.a'' ''x'', Table ''db.b'' '''', Table ''db.c'' '''', Table ''db.d'' '''',
                 Table ''db.seed'' '''']" and w=None and wi=None and snapshots=ex_snapshots
        and is_dev=False and kwargs=Map.empty]
    by (simp add: ex_join_def)
  have rq: "snd (rendered_query ex_lib (ex_renderer ex_join) None None None ex_snapshots False [''db.a'']
                   True Map.empty) = Inr (Some ex_join)"
    using T[THEN conjunct2, THEN conjunct2, THEN conjunct2, THEN conjunct2, THEN conjunct2,
        THEN conjunct2, THEN conjunct2, THEN conjunct1, rule_format, of ex_join]
    by (simp add: base ex_join_optimized)
  have "snd (QueryRenderer_render ex_lib (ex_renderer ex_join) None None None ex_snapshots False [''db.a'']
            False True Map.empty) = Inr (Some ?resolved)"
    using T[THEN conjunct2, THEN conjunct2, THEN conjunct2, THEN conjunct2, THEN conjunct2,
        THEN conjunct2, THEN conjunct2, THEN conjunct2, rule_format, OF rq]
    by (simp add: m)
  with ex_nested_render_ok m m0 b show ?thesis by blast
qed

text \<open>
  The claim as stated fails: a reference to a seed model whose name is in \<open>expand\<close> is
  not inlined, although the model's query renders; it is mapped to its physical table.
\<close>

theorem expanded_seed_not_inlined_counterexample:
  "''db.seed'' \<in> set [''db.seed'']
   \<and> map_of [(''db.seed'', ex_seed ''db.seed'')] ''db.seed'' = Some (ex_seed ''db.seed'')
   \<and> render_query ex_lib (model (ex_seed ''db.seed'')) [(''db.seed'', ex_seed ''db.seed'')] {''db.seed''}
        False (None, None, None) Map.empty
       = Inr (Some (Select [Star] [Table ''raw.db.seed'' ''''] None None))
   \<and> BaseExpressionRenderer_resolve_tables ex_lib
        (ex_renderer (Select [Star] [Table ''db.seed'' ''''] None None))
        (Select [Star] [Table ''db.seed'' ''''] None None)
        [(''db.seed'', ex_seed ''db.seed'')] [''db.seed''] False (None, None, None) Map.empty
       = Inr (Select [Star] [Table ''sqlmesh.db.seed__1'' ''''] None None)"
  by (simp add: BaseExpressionRenderer_resolve_tables_def normalize_and_quote_def resolve_body_def
      resolve_tables_def root_replaced_def replaces_def ex_to_table_mapping_def dict_values_def
      has_version_def ex_table_name_def ex_render_query_def Let_def)

subsection \<open>The caches\<close>

lemma try_template_ignores_optimized_cache:
  "try_template L (self\<lparr>self_optimized_cache := oc\<rparr>) env t = try_template L self env t"
  by (simp add: try_template_def Let_def cong: sum.case_cong if_cong)

lemma render_template_ignores_optimized_cache:
  "render_template L (self\<lparr>self_optimized_cache := oc\<rparr>) env t = render_template L self env t"
  by (simp add: render_template_def try_template_ignores_optimized_cache
      cong: sum.case_cong error.case_cong)

lemma jinja_env_ignores_optimized_cache:
  "jinja_env_of L (self\<lparr>self_optimized_cache := oc\<rparr>) d snapshots is_dev kwargs
     = jinja_env_of L self d snapshots is_dev kwargs"
  by (simp add: jinja_env_of_def)

lemma render_uncached_ignores_optimized_cache:
  "render_uncached L (self\<lparr>self_optimized_cache := oc\<rparr>) d snapshots is_dev kwargs
     = render_uncached L self d snapshots is_dev kwargs"
  by (simp add: render_uncached_def render_template_ignores_optimized_cache
      jinja_env_ignores_optimized_cache Let_def
      cong: sum.case_cong option.case_cong Expression.case_cong)

lemma base_render_ignores_optimized_cache:
  "BaseExpressionRenderer_render L (self\<lparr>self_optimized_cache := oc\<rparr>) start end latest snapshots is_dev kwargs
     = ((fst (BaseExpressionRenderer_render L self start end latest snapshots is_dev kwargs))
          \<lparr>self_optimized_cache := oc\<rparr>,
        snd (BaseExpressionRenderer_render L self start end latest snapshots is_dev kwargs))"
  by (simp add: BaseExpressionRenderer_render_def render_uncached_ignores_optimized_cache Let_def
      split: option.split sum.split)

lemma single_statement_ignores_optimized_cache:
  "single_statement L (self\<lparr>self_optimized_cache := oc\<rparr>) outcome = single_statement L self outcome"
  by (simp add: single_statement_def cong: sum.case_cong list.case_cong error.case_cong)

lemma optimize_query_ignores_optimized_cache:
  "QueryRenderer_optimize_query L (self\<lparr>self_optimized_cache := oc\<rparr>) query
     = QueryRenderer_optimize_query L self query"
proof -
  have d: "dependencies L (self\<lparr>self_optimized_cache := oc\<rparr>) query = dependencies L self query"
    by (simp add: dependencies_def)
  have s: "schema_for L (self\<lparr>self_optimized_cache := oc\<rparr>) query = schema_for L self query"
    by (auto simp: schema_for_def d)
  have so: "should_optimize L (self\<lparr>self_optimized_cache := oc\<rparr>) query = should_optimize L self query"
    by (simp add: should_optimize_def d s)
  have w: "missing_schema_warning L (self\<lparr>self_optimized_cache := oc\<rparr>) query
             = missing_schema_warning L self query"
    by (simp add: missing_schema_warning_def d)
  have t: "try_optimize L (self\<lparr>self_optimized_cache := oc\<rparr>) query = try_optimize L self query"
    by (simp add: try_optimize_def so s)
  show ?thesis
    by (simp add: QueryRenderer_optimize_query_def s so w t Let_def
        cong: sum.case_cong error.case_cong if_cong)
qed

lemma optimized_and_cached_skip:
  "optimized_and_cached L self query cache_key True optimize
     = (self, snd (optimized_and_cached L self query cache_key True optimize))"
  by (simp add: optimized_and_cached_def split: sum.split)

lemma optimized_and_cached_skip_ignores:
  "optimized_and_cached L (self\<lparr>self_optimized_cache := oc\<rparr>) query cache_key True optimize
     = (self\<lparr>self_optimized_cache := oc\<rparr>, snd (optimized_and_cached L self query cache_key True optimize))"
  by (simp add: optimized_and_cached_def optimize_query_ignores_optimized_cache split: sum.split)

lemma render_finish_ignores_optimized_cache:
  "render_finish L (self\<lparr>self_optimized_cache := oc\<rparr>) query start end latest snapshots is_dev expand
       add_incremental_filter kwargs
     = render_finish L self query start end latest snapshots is_dev expand add_incremental_filter kwargs"
  by (simp add: render_finish_def BaseExpressionRenderer_resolve_tables_def incremental_filter_def
      QueryRenderer_time_column_filter_def Let_def
      cong: sum.case_cong option.case_cong if_cong prod.case_cong)

lemma rendered_query_skip:
  assumes "snapshots \<noteq> [] \<or> expand \<noteq> []"
  shows "rendered_query L self start end latest snapshots is_dev expand optimize kwargs
           = (case single_statement L self
                     (snd (BaseExpressionRenderer_render L self start end latest snapshots is_dev kwargs)) of
                Inl ex \<Rightarrow>
                  (fst (BaseExpressionRenderer_render L self start end latest snapshots is_dev kwargs), Inl ex)
              | Inr None \<Rightarrow>
                  (fst (BaseExpressionRenderer_render L self start end latest snapshots is_dev kwargs), Inr None)
              | Inr (Some query) \<Rightarrow>
                  (fst (BaseExpressionRenderer_render L self start end latest snapshots is_dev kwargs),
                   snd (optimized_and_cached L
                          (fst (BaseExpressionRenderer_render L self start end latest snapshots is_dev kwargs))
                          query (dates L start end latest) True optimize)))"
proof -
  have m: "snapshots \<noteq> [] \<or> expand \<noteq> [] \<or> \<not> optimize
           \<or> self_optimized_cache self (dates L start end latest) = None"
    using assms by blast
  have t: "(snapshots \<noteq> [] \<or> expand \<noteq> []) = True" using assms by simp
  show ?thesis
    unfolding rendered_query_miss[OF m] t
    by (subst optimized_and_cached_skip) simp
qed

lemma rendered_query_skip_state:
  assumes "snapshots \<noteq> [] \<or> expand \<noteq> []"
  shows "fst (rendered_query L self start end latest snapshots is_dev expand optimize kwargs)
           = fst (BaseExpressionRenderer_render L self start end latest snapshots is_dev kwargs)"
  unfolding rendered_query_skip[OF assms]
  by (simp split: sum.split option.split)

lemma rendered_query_skip_ignores:
  assumes "snapshots \<noteq> [] \<or> expand \<noteq> []"
  shows "rendered_query L (self\<lparr>self_optimized_cache := oc\<rparr>) start end latest snapshots is_dev expand
             optimize kwargs
           = ((fst (rendered_query L self start end latest snapshots is_dev expand optimize kwargs))
                \<lparr>self_optimized_cache := oc\<rparr>,
              snd (rendered_query L self start end latest snapshots is_dev expand optimize kwargs))"
  unfolding rendered_query_skip[OF assms]
  by (simp add: base_render_ignores_optimized_cache single_statement_ignores_optimized_cache
      optimized_and_cached_skip_ignores split: sum.split option.split)

lemma render_skip_ignores:
  assumes "snapshots \<noteq> [] \<or> expand \<noteq> []"
  shows "QueryRenderer_render L (self\<lparr>self_optimized_cache := oc\<rparr>) start end latest snapshots is_dev
             expand add_incremental_filter optimize kwargs
           = ((fst (QueryRenderer_render L self start end latest snapshots is_dev expand
                      add_incremental_filter optimize kwargs))\<lparr>self_optimized_cache := oc\<rparr>,
              snd (QueryRenderer_render L self start end latest snapshots is_dev expand
                      add_incremental_filter optimize kwargs))"
proof -
  obtain s r where sr: "rendered_query L self start end latest snapshots is_dev expand optimize kwargs = (s, r)"
    by (cases "rendered_query L self start end latest snapshots is_dev expand optimize kwargs")
  then have sr': "rendered_query L (self\<lparr>self_optimized_cache := oc\<rparr>) start end latest snapshots is_dev
             expand optimize kwargs = (s\<lparr>self_optimized_cache := oc\<rparr>, r)"
    using rendered_query_skip_ignores[OF assms, where L=L and self=self and oc=oc and start=start
        and ?end="end" and latest=latest and is_dev=is_dev and optimize=optimize and kwargs=kwargs]
    by simp
  show ?thesis
    by (simp add: QueryRenderer_render_def sr sr' render_finish_ignores_optimized_cache
        split: sum.split option.split)
qed

text \<open>
  What a call to \<open>render\<close> does to the two caches.  Both are keyed by the triple
  \<open>_dates(start, end, latest)\<close> only: the call leaves every other entry of both as it
  was.  A call with snapshots or names to expand neither writes nor reads the optimized
  cache: the map is unchanged, and the outcome of the call is the same whatever the map
  holds.  Such a call consults and fills the cache of \<open>_render\<close> as usual: on a hit
  the renderer is unchanged and the cached expressions are used, on a miss the
  expressions rendered in this call, with its snapshots, are stored under the key.  A
  later call for the same key with optimization and without snapshots or names to
  expand still finds an entry that the optimized cache held, and takes that entry.
\<close>

lemma renderer_caches:
  "(let key = dates L start end latest;
        after = fst (QueryRenderer_render L self start end latest snapshots is_dev expand
                       add_incremental_filter optimize kwargs)
    in (\<forall>k. k \<noteq> key \<longrightarrow>
            self_cache after k = self_cache self k
          \<and> self_optimized_cache after k = self_optimized_cache self k)
     \<and> (snapshots \<noteq> [] \<or> expand \<noteq> [] \<longrightarrow>
           self_optimized_cache after = self_optimized_cache self
         \<and> (\<forall>oc. QueryRenderer_render L (self\<lparr>self_optimized_cache := oc\<rparr>) start end latest snapshots
                      is_dev expand add_incremental_filter optimize kwargs
                  = (after\<lparr>self_optimized_cache := oc\<rparr>,
                     snd (QueryRenderer_render L self start end latest snapshots is_dev expand
                            add_incremental_filter optimize kwargs)))
         \<and> after = fst (BaseExpressionRenderer_render L self start end latest snapshots is_dev kwargs)
         \<and> (\<forall>cached. self_cache self key = Some cached \<longrightarrow>
                after = self
              \<and> BaseExpressionRenderer_render L self start end latest snapshots is_dev kwargs
                  = (self, Inr cached))
         \<and> (self_cache self key = None \<longrightarrow>
                (case render_uncached L self key snapshots is_dev kwargs of
                   Inl ex \<Rightarrow> after = self
                 | Inr expressions \<Rightarrow>
                     after = self\<lparr>self_cache := (self_cache self)(key \<mapsto> expressions)\<rparr>))
         \<and> (\<forall>cached is_dev' kwargs'.
                self_optimized_cache self key = Some cached \<longrightarrow>
                rendered_query L after start end latest [] is_dev' [] True kwargs'
                  = (after, Inr (Some cached)))))"
proof -
  let ?key = "dates L start end latest"
  let ?after = "fst (QueryRenderer_render L self start end latest snapshots is_dev expand
                       add_incremental_filter optimize kwargs)"
  let ?base = "BaseExpressionRenderer_render L self start end latest snapshots is_dev kwargs"
  have st: "?after = fst (rendered_query L self start end latest snapshots is_dev expand optimize kwargs)"
    by (rule render_state)
  obtain c oc where shape: "?after = self\<lparr>self_cache := c, self_optimized_cache := oc\<rparr>"
    and ck: "\<forall>k. k \<noteq> ?key \<longrightarrow> c k = self_cache self k"
    and ok: "\<forall>k. k \<noteq> ?key \<longrightarrow> oc k = self_optimized_cache self k"
    and os: "snapshots \<noteq> [] \<or> expand \<noteq> [] \<longrightarrow> oc = self_optimized_cache self"
    using rendered_query_shape[of L self start "end" latest snapshots is_dev expand optimize kwargs]
    unfolding st[symmetric] by blast
  have keyed: "\<forall>k. k \<noteq> ?key \<longrightarrow>
            self_cache ?after k = self_cache self k
          \<and> self_optimized_cache ?after k = self_optimized_cache self k"
    using shape ck ok by simp
  have skip: "self_optimized_cache ?after = self_optimized_cache self
         \<and> (\<forall>oc. QueryRenderer_render L (self\<lparr>self_optimized_cache := oc\<rparr>) start end latest snapshots
                      is_dev expand add_incremental_filter optimize kwargs
                  = (?after\<lparr>self_optimized_cache := oc\<rparr>,
                     snd (QueryRenderer_render L self start end latest snapshots is_dev expand
                            add_incremental_filter optimize kwargs)))
         \<and> ?after = fst ?base
         \<and> (\<forall>cached. self_cache self ?key = Some cached \<longrightarrow>
                ?after = self \<and> ?base = (self, Inr cached))
         \<and> (self_cache self ?key = None \<longrightarrow>
                (case render_uncached L self ?key snapshots is_dev kwargs of
                   Inl ex \<Rightarrow> ?after = self
                 | Inr expressions \<Rightarrow>
                     ?after = self\<lparr>self_cache := (self_cache self)(?key \<mapsto> expressions)\<rparr>))
         \<and> (\<forall>cached is_dev' kwargs'.
                self_optimized_cache self ?key = Some cached \<longrightarrow>
                rendered_query L ?after start end latest [] is_dev' [] True kwargs'
                  = (?after, Inr (Some cached)))"
    if sk: "snapshots \<noteq> [] \<or> expand \<noteq> []"
  proof -
    have o: "self_optimized_cache ?after = self_optimized_cache self"
      using shape os sk by simp
    have b: "?after = fst ?base"
      unfolding st by (rule rendered_query_skip_state[OF sk])
    have hit: "\<forall>cached. self_cache self ?key = Some cached \<longrightarrow>
                ?after = self \<and> ?base = (self, Inr cached)"
      using b by (simp add: base_render_hit)
    have miss: "self_cache self ?key = None \<longrightarrow>
                (case render_uncached L self ?key snapshots is_dev kwargs of
                   Inl ex \<Rightarrow> ?after = self
                 | Inr expressions \<Rightarrow>
                     ?after = self\<lparr>self_cache := (self_cache self)(?key \<mapsto> expressions)\<rparr>)"
      unfolding b by (simp add: BaseExpressionRenderer_render_def Let_def split: sum.split)
    have later: "\<forall>cached is_dev' kwargs'.
                self_optimized_cache self ?key = Some cached \<longrightarrow>
                rendered_query L ?after start end latest [] is_dev' [] True kwargs'
                  = (?after, Inr (Some cached))"
      using o by (simp add: rendered_query_hit)
    show ?thesis
      using o b hit miss later render_skip_ignores[OF sk, where L=L and self=self and start=start
          and ?end="end" and latest=latest and is_dev=is_dev
          and add_incremental_filter=add_incremental_filter and optimize=optimize and kwargs=kwargs]
      by blast
  qed
  show ?thesis
    unfolding Let_def using keyed skip by blast
qed

lemma ex_template_renderer_simps [simp]:
  "self_expression ex_template_renderer = Jinja ''{{ resolve_table() }}''"
  "self_cache ex_template_renderer = Map.empty"
  "self_optimized_cache ex_template_renderer = Map.empty"
  "self_path ex_template_renderer = ''models/m.sql''"
  "self_dialect ex_template_renderer = ''duckdb''"
  "self_time_column ex_template_renderer = Some ''ds''"
  "self_model_name ex_template_renderer = Some ''db.m''"
  "self_schema ex_template_renderer = []"
  "self_macro_definitions ex_template_renderer = []"
  by (simp_all add: ex_template_renderer_def)

lemma ex_uncached_with_snapshots:
  "render_uncached ex_lib ex_template_renderer (0, - 1, 0)
       [(''db.t'', ex_versioned ''db.t'' v)] False Map.empty
     = Inr [ex_select_star (''sqlmesh.db.t__'' @ v)]"
  by (simp add: render_uncached_def render_template_def try_template_def ex_template_render_def
      ex_parse_def blank_def is_space_def jinja_env_of_def normalize_and_quote_def pass_def
      ex_table_name_def ex_select_star_def Let_def List.map_filter_simps)

lemma ex_uncached_without_snapshots:
  "render_uncached ex_lib ex_template_renderer (0, - 1, 0) [] False Map.empty
     = Inr [ex_select_star ''db.t'']"
  by (simp add: render_uncached_def render_template_def try_template_def ex_template_render_def
      ex_parse_def blank_def is_space_def jinja_env_of_def normalize_and_quote_def pass_def
      ex_select_star_def Let_def List.map_filter_simps)

lemma ex_optimize_select_star:
  assumes "self_schema self = []" and "self_model_name self = Some ''db.m''" and "table \<noteq> ''db.m''"
  shows "snd (QueryRenderer_optimize_query ex_lib self (ex_select_star table)) = Inr (ex_select_star table)"
  using assms
  by (simp add: QueryRenderer_optimize_query_def try_optimize_def should_optimize_def schema_for_def
      dependencies_def schema_find_def schema_empty_def unoptimized_def normalize_and_quote_def
      alias_body_def alias_select_def ex_select_star_def Let_def)

lemma ex_finish_select_star:
  "render_finish ex_lib self (ex_select_star table) None None None [] False [] False Map.empty
     = Inr (ex_select_star table)"
  by (simp add: render_finish_def BaseExpressionRenderer_resolve_tables_def ex_select_star_def)

text \<open>The renderer after a first call with snapshots that hold \<open>db.t\<close> at version \<open>v\<close>.\<close>

lemma ex_first_call_state:
  "fst (QueryRenderer_render ex_lib ex_template_renderer None None None
          [(''db.t'', ex_versioned ''db.t'' v)] False [] False True Map.empty)
     = ex_template_renderer\<lparr>self_cache := [(0, - 1, 0) \<mapsto> [ex_select_star (''sqlmesh.db.t__'' @ v)]]\<rparr>"
proof -
  have sk: "[(''db.t'', ex_versioned ''db.t'' v)] \<noteq> [] \<or> ([]::string list) \<noteq> []" by simp
  show ?thesis
    unfolding render_state rendered_query_skip_state[OF sk]
    by (simp add: BaseExpressionRenderer_render_def ex_uncached_with_snapshots)
qed

text \<open>A call without snapshots on a renderer whose cache holds a query on \<open>table\<close>.\<close>

lemma ex_later_call:
  assumes "table \<noteq> ''db.m''"
  shows "QueryRenderer_render ex_lib
           (ex_template_renderer\<lparr>self_cache := [(0, - 1, 0) \<mapsto> [ex_select_star table]]\<rparr>)
           None None None [] False [] False True Map.empty
     = (ex_template_renderer\<lparr>self_cache := [(0, - 1, 0) \<mapsto> [ex_select_star table]],
                              self_optimized_cache := [(0, - 1, 0) \<mapsto> ex_select_star table]\<rparr>,
        Inr (Some (ex_select_star table)))"
proof -
  let ?r = "ex_template_renderer\<lparr>self_cache := [(0, - 1, 0) \<mapsto> [ex_select_star table]]\<rparr>"
  have m: "[] \<noteq> ([]::(string \<times> Snapshot) list) \<or> [] \<noteq> ([]::string list) \<or> \<not> True
           \<or> self_optimized_cache ?r (dates ex_lib None None None) = None"
    by simp
  have b: "BaseExpressionRenderer_render ex_lib ?r None None None [] False Map.empty
             = (?r, Inr [ex_select_star table])"
    by (rule base_render_hit) simp
  have o: "snd (QueryRenderer_optimize_query ex_lib ?r (ex_select_star table)) = Inr (ex_select_star table)"
    by (rule ex_optimize_select_star) (simp_all add: assms)
  have rq: "rendered_query ex_lib ?r None None None [] False [] True Map.empty
              = (?r\<lparr>self_optimized_cache := [(0, - 1, 0) \<mapsto> ex_select_star table]\<rparr>,
                 Inr (Some (ex_select_star table)))"
    unfolding rendered_query_miss[OF m]
    by (simp add: b single_statement_def optimized_and_cached_def o)
  show ?thesis
    by (simp add: QueryRenderer_render_def rq ex_finish_select_star)
qed

lemma ex_fresh_call:
  "snd (QueryRenderer_render ex_lib ex_template_renderer None None None [] False [] False True Map.empty)
     = Inr (Some (ex_select_star ''db.t''))"
proof -
  let ?r = "ex_template_renderer"
  let ?r1 = "ex_template_renderer\<lparr>self_cache := [(0, - 1, 0) \<mapsto> [ex_select_star ''db.t'']]\<rparr>"
  have m: "[] \<noteq> ([]::(string \<times> Snapshot) list) \<or> [] \<noteq> ([]::string list) \<or> \<not> True
           \<or> self_optimized_cache ?r (dates ex_lib None None None) = None"
    by simp
  have b: "BaseExpressionRenderer_render ex_lib ?r None None None [] False Map.empty
             = (?r1, Inr [ex_select_star ''db.t''])"
    by (simp add: BaseExpressionRenderer_render_def ex_uncached_without_snapshots)
  have o: "snd (QueryRenderer_optimize_query ex_lib ?r1 (ex_select_star ''db.t'')) = Inr (ex_select_star ''db.t'')"
    by (rule ex_optimize_select_star) simp_all
  have rq: "rendered_query ex_lib ?r None None None [] False [] True Map.empty
              = (?r1\<lparr>self_optimized_cache := [(0, - 1, 0) \<mapsto> ex_select_star ''db.t'']\<rparr>,
                 Inr (Some (ex_select_star ''db.t'')))"
    unfolding rendered_query_miss[OF m]
    by (simp add: b single_statement_def optimized_and_cached_def o)
  show ?thesis
    by (simp add: QueryRenderer_render_def rq ex_finish_select_star)
qed

lemma renderer_caches_example:
  "fst (QueryRenderer_render ex_lib ex_template_renderer None None None
          [(''db.t'', ex_versioned ''db.t'' ''1'')] False [] False True Map.empty)
     = ex_template_renderer\<lparr>self_cache := [(0, - 1, 0) \<mapsto> [ex_select_star ''sqlmesh.db.t__1'']]\<rparr>
   \<and> self_optimized_cache
        (fst (QueryRenderer_render ex_lib ex_template_renderer None None None
                [(''db.t'', ex_versioned ''db.t'' ''1'')] False [] False True Map.empty))
       = Map.empty
   \<and> fst (QueryRenderer_render ex_lib
            (ex_template_renderer\<lparr>self_cache := [(0, - 1, 0) \<mapsto> [ex_select_star ''db.t'']],
                                   self_optimized_cache := [(0, - 1, 0) \<mapsto> ex_select_star ''db.t'']\<rparr>)
            None None None [(''db.t'', ex_versioned ''db.t'' ''1'')] False [] False True Map.empty)
       = ex_template_renderer\<lparr>self_cache := [(0, - 1, 0) \<mapsto> [ex_select_star ''db.t'']],
                                self_optimized_cache := [(0, - 1, 0) \<mapsto> ex_select_star ''db.t'']\<rparr>"
proof -
  have sk: "[(''db.t'', ex_versioned ''db.t'' ''1'')] \<noteq> [] \<or> ([]::string list) \<noteq> []" by simp
  note miss = renderer_caches[of ex_lib None None None ex_template_renderer
      "[(''db.t'', ex_versioned ''db.t'' ''1'')]" False "[]" False True Map.empty,
      unfolded Let_def, THEN conjunct2, THEN mp, OF sk]
  note hit = renderer_caches[of ex_lib None None None
      "ex_template_renderer\<lparr>self_cache := [(0, - 1, 0) \<mapsto> [ex_select_star ''db.t'']],
                             self_optimized_cache := [(0, - 1, 0) \<mapsto> ex_select_star ''db.t'']\<rparr>"
      "[(''db.t'', ex_versioned ''db.t'' ''1'')]" False "[]" False True Map.empty,
      unfolded Let_def, THEN conjunct2, THEN mp, OF sk]
  have a: "fst (QueryRenderer_render ex_lib ex_template_renderer None None None
          [(''db.t'', ex_versioned ''db.t'' ''1'')] False [] False True Map.empty)
     = ex_template_renderer\<lparr>self_cache := [(0, - 1, 0) \<mapsto> [ex_select_star ''sqlmesh.db.t__1'']]\<rparr>"
    using miss[THEN conjunct2, THEN conjunct2, THEN conjunct2, THEN conjunct2, THEN conjunct1]
      ex_uncached_with_snapshots[of "''1''"]
    by simp
  have b: "self_optimized_cache
        (fst (QueryRenderer_render ex_lib ex_template_renderer None None None
                [(''db.t'', ex_versioned ''db.t'' ''1'')] False [] False True Map.empty))
       = Map.empty"
    using miss[THEN conjunct1] by simp
  have c: "fst (QueryRenderer_render ex_lib
            (ex_template_renderer\<lparr>self_cache := [(0, - 1, 0) \<mapsto> [ex_select_star ''db.t'']],
                                   self_optimized_cache := [(0, - 1, 0) \<mapsto> ex_select_star ''db.t'']\<rparr>)
            None None None [(''db.t'', ex_versioned ''db.t'' ''1'')] False [] False True Map.empty)
       = ex_template_renderer\<lparr>self_cache := [(0, - 1, 0) \<mapsto> [ex_select_star ''db.t'']],
                                self_optimized_cache := [(0, - 1, 0) \<mapsto> ex_select_star ''db.t'']\<rparr>"
    using hit[THEN conjunct2, THEN conjunct2, THEN conjunct2, THEN conjunct1]
    by simp
  from a b c show ?thesis by blast
qed

text \<open>
  C1.  The claim ends: a later call without snapshots for the same key is unaffected by
  the snapshots of an earlier call.  The code does otherwise.  For a model whose
  template resolves a table while rendering, a call with snapshots stores the
  expressions rendered with those snapshots in the cache of \<open>_render\<close>, which has no
  guard like the one of the optimized cache.  A later call for the same key without
  snapshots gets them back: its result names the physical table of the earlier call's
  snapshot, and it stores that query in the optimized cache as well.  A call on a fresh
  renderer names the table of the model.
\<close>

theorem earlier_snapshots_leak:
  "QueryRenderer_render ex_lib
       (fst (QueryRenderer_render ex_lib ex_template_renderer None None None
               [(''db.t'', ex_versioned ''db.t'' ''1'')] False [] False True Map.empty))
       None None None [] False [] False True Map.empty
     = (ex_template_renderer
          \<lparr>self_cache := [(0, - 1, 0) \<mapsto> [ex_select_star ''sqlmesh.db.t__1'']],
           self_optimized_cache := [(0, - 1, 0) \<mapsto> ex_select_star ''sqlmesh.db.t__1'']\<rparr>,
        Inr (Some (ex_select_star ''sqlmesh.db.t__1'')))
   \<and> snd (QueryRenderer_render ex_lib
         (fst (QueryRenderer_render ex_lib ex_template_renderer None None None
                 [(''db.t'', ex_versioned ''db.t'' ''2'')] False [] False True Map.empty))
         None None None [] False [] False True Map.empty)
     = Inr (Some (ex_select_star ''sqlmesh.db.t__2''))
   \<and> snd (QueryRenderer_render ex_lib ex_template_renderer None None None [] False [] False True Map.empty)
     = Inr (Some (ex_select_star ''db.t''))"
  by (simp add: ex_first_call_state ex_later_call ex_fresh_call)

end
